theory Spec2Isabelle
  imports Complex_Main "HOL-Library.Word" "HOL-Library.Sublist" "HOL-Library.AList"
begin

section \<open>JavaScript strings\<close>

text \<open>
  A JavaScript string is a sequence of UTF-16 code units, and \<open>length\<close> counts code
  units. The literals of the source that are ASCII are written through \<open>ascii\<close>; the
  others (the Chinese markers of the diff summary) are written as code units.
\<close>

type_synonym jschar = "16 word"
type_synonym jsstring = "jschar list"

definition ascii :: "string \<Rightarrow> jsstring" where
  "ascii s = map of_char s"

definition DQUOTE :: jschar where "DQUOTE = 0x22"
definition BACKSLASH :: jschar where "BACKSLASH = 0x5C"
definition BACKTICK :: jschar where "BACKTICK = 0x60"
definition DOLLAR :: jschar where "DOLLAR = 0x24"
definition NEWLINE :: jschar where "NEWLINE = 0x0A"

text \<open>The code units that \<open>String.prototype.trim\<close> and the regular expression class
  \<open>\s\<close> treat as white space (ECMAScript WhiteSpace and LineTerminator).\<close>

definition isWhiteSpace :: "jschar \<Rightarrow> bool" where
  "isWhiteSpace c = (c \<in> set [0x09, 0x0A, 0x0B, 0x0C, 0x0D, 0x20, 0xA0, 0x1680,
     0x2000, 0x2001, 0x2002, 0x2003, 0x2004, 0x2005, 0x2006, 0x2007, 0x2008, 0x2009, 0x200A,
     0x2028, 0x2029, 0x202F, 0x205F, 0x3000, 0xFEFF])"

definition trim :: "jsstring \<Rightarrow> jsstring" where
  "trim s = rev (dropWhile isWhiteSpace (rev (dropWhile isWhiteSpace s)))"

text \<open>\<open>s.split(sep)\<close> for a separator of one code unit.\<close>

fun split :: "'a \<Rightarrow> 'a list \<Rightarrow> 'a list list" where
  "split sep [] = [[]]"
| "split sep (c # s) =
     (if c = sep then [] # split sep s
      else (case split sep s of [] \<Rightarrow> [[c]] | l # ls \<Rightarrow> (c # l) # ls))"

text \<open>\<open>s.includes(pat)\<close>, \<open>s.startsWith(pat)\<close> and \<open>s.endsWith(pat)\<close>.\<close>

fun str_includes :: "'a list \<Rightarrow> 'a list \<Rightarrow> bool" where
  "str_includes [] pat = (pat = [])"
| "str_includes (c # s) pat = (prefix pat (c # s) \<or> str_includes s pat)"

definition startsWith :: "'a list \<Rightarrow> 'a list \<Rightarrow> bool" where
  "startsWith s pat = prefix pat s"

definition endsWith :: "'a list \<Rightarrow> 'a list \<Rightarrow> bool" where
  "endsWith s pat = suffix pat s"

text \<open>\<open>s.replace(/pat/g, rep)\<close> for a pattern that is a fixed non-empty text: the
  matches are taken from the left and do not overlap, and the replacement is not scanned
  again.\<close>

fun replaceAll :: "'a list \<Rightarrow> 'a list \<Rightarrow> 'a list \<Rightarrow> 'a list" where
  "replaceAll pat rep [] = []"
| "replaceAll pat rep (c # s) =
     (if pat \<noteq> [] \<and> prefix pat (c # s)
      then rep @ replaceAll pat rep (drop (length pat) (c # s))
      else c # replaceAll pat rep s)"

text \<open>\<open>s.replace(pat, rep)\<close> for a text pattern: only the first occurrence.\<close>

fun replaceFirst :: "'a list \<Rightarrow> 'a list \<Rightarrow> 'a list \<Rightarrow> 'a list" where
  "replaceFirst pat rep [] = (if pat = [] then rep else [])"
| "replaceFirst pat rep (c # s) =
     (if prefix pat (c # s) then rep @ drop (length pat) (c # s)
      else c # replaceFirst pat rep s)"

text \<open>\<open>s.slice(1, -1)\<close>.\<close>

definition slice_1_m1 :: "'a list \<Rightarrow> 'a list" where
  "slice_1_m1 s = take (length s - 2) (drop 1 s)"


section \<open>git-service.ts\<close>

record GitFileStatus =
  path :: jsstring
  status :: jsstring
  description :: jsstring
  staged :: bool

text \<open>\<open>CONSTANTS.GIT.STATUS_CODES\<close>.\<close>

definition MODIFIED :: jschar where "MODIFIED = 0x4D"
definition ADDED :: jschar where "ADDED = 0x41"
definition DELETED :: jschar where "DELETED = 0x44"
definition RENAMED :: jschar where "RENAMED = 0x52"
definition COPIED :: jschar where "COPIED = 0x43"
definition UNTRACKED :: jschar where "UNTRACKED = 0x3F"
definition SPACE :: jschar where "SPACE = 0x20"

definition getStatusInfo :: "jschar \<Rightarrow> jsstring \<times> jsstring" where
  "getStatusInfo statusCode =
     (if statusCode = MODIFIED then (ascii ''M'', ascii ''Modified'')
      else if statusCode = ADDED then (ascii ''A'', ascii ''Added'')
      else if statusCode = DELETED then (ascii ''D'', ascii ''Deleted'')
      else if statusCode = RENAMED then (ascii ''R'', ascii ''Renamed'')
      else if statusCode = COPIED then (ascii ''C'', ascii ''Copied'')
      else (ascii ''C'', ascii ''Changed''))"

text \<open>The quoted-path branch of \<open>getFileStatus\<close>: a path that starts and ends with a
  double quote loses them, and then \<open>\"\<close> becomes \<open>"\<close> and \<open>\\\<close> becomes \<open>\\<close>.\<close>

definition unquotePath :: "jsstring \<Rightarrow> jsstring" where
  "unquotePath p =
     (if startsWith p [DQUOTE] \<and> endsWith p [DQUOTE]
      then replaceAll [BACKSLASH, BACKSLASH] [BACKSLASH]
             (replaceAll [BACKSLASH, DQUOTE] [DQUOTE] (slice_1_m1 p))
      else p)"

text \<open>The \<open>Map\<close> of \<open>getFileStatus\<close> keeps its keys in insertion order, and
  \<open>set\<close> on a key that is present replaces the value where it stands: this is
  \<open>AList.update\<close>.\<close>

type_synonym fileMap = "(jsstring \<times> GitFileStatus) list"

definition setStaged :: "jschar \<Rightarrow> jsstring \<Rightarrow> fileMap \<Rightarrow> fileMap" where
  "setStaged indexStatus p m =
     (if indexStatus \<noteq> SPACE \<and> indexStatus \<noteq> UNTRACKED
      then AList.update (p @ ascii ''_staged'')
             \<lparr>path = p, status = fst (getStatusInfo indexStatus),
              description = snd (getStatusInfo indexStatus), staged = True\<rparr> m
      else m)"

definition setUnstaged :: "jschar \<Rightarrow> jschar \<Rightarrow> jsstring \<Rightarrow> fileMap \<Rightarrow> fileMap" where
  "setUnstaged indexStatus workTreeStatus p m =
     (if workTreeStatus \<noteq> SPACE \<and> indexStatus \<noteq> UNTRACKED \<and> workTreeStatus \<noteq> UNTRACKED
      then AList.update (p @ ascii ''_unstaged'')
             \<lparr>path = p, status = fst (getStatusInfo workTreeStatus),
              description = snd (getStatusInfo workTreeStatus), staged = False\<rparr> m
      else m)"

definition setUntracked :: "jschar \<Rightarrow> jschar \<Rightarrow> jsstring \<Rightarrow> fileMap \<Rightarrow> fileMap" where
  "setUntracked indexStatus workTreeStatus p m =
     (if indexStatus = UNTRACKED \<and> workTreeStatus = UNTRACKED
      then AList.update (p @ ascii ''_untracked'')
             \<lparr>path = p, status = ascii ''?'', description = ascii ''Untracked'',
              staged = False\<rparr> m
      else m)"

text \<open>The body of \<open>lines.forEach\<close>: a line shorter than three code units is skipped.\<close>

fun statusLine :: "fileMap \<Rightarrow> jsstring \<Rightarrow> fileMap" where
  "statusLine m (indexStatus # workTreeStatus # c # rest) =
     (let p = unquotePath (trim rest)
      in setUntracked indexStatus workTreeStatus p
           (setUnstaged indexStatus workTreeStatus p
             (setStaged indexStatus p m)))"
| "statusLine m line = m"

text \<open>\<open>getFileStatus\<close> on the output of \<open>git status --porcelain\<close>; \<open>None\<close> is
  a command that failed, which the \<open>catch\<close> turns into the empty list.\<close>

definition getFileStatus :: "jsstring option \<Rightarrow> GitFileStatus list" where
  "getFileStatus out =
     (case out of
        None \<Rightarrow> []
      | Some stdout \<Rightarrow>
          map snd (foldl statusLine [] (filter (\<lambda>line. length line > 0) (split NEWLINE stdout))))"

text \<open>The shell metacharacters \<open>; & | ` $ ( ) { } [ ]\<close> of \<open>sanitizeFilePath\<close>.\<close>

definition isShellMeta :: "jschar \<Rightarrow> bool" where
  "isShellMeta c = (c \<in> set [0x3B, 0x26, 0x7C, 0x60, 0x24, 0x28, 0x29, 0x7B, 0x7D, 0x5B, 0x5D])"

definition sanitizeFilePath :: "jsstring \<Rightarrow> jsstring" where
  "sanitizeFilePath filePath =
     trim (replaceAll (ascii ''../'') [] (filter (\<lambda>c. \<not> isShellMeta c) filePath))"

definition escapeQuotes :: "jsstring \<Rightarrow> jsstring" where
  "escapeQuotes s = concat (map (\<lambda>c. if c = DQUOTE then [BACKSLASH, DQUOTE] else [c]) s)"

definition escapeSpecials :: "jsstring \<Rightarrow> jsstring" where
  "escapeSpecials s =
     concat (map (\<lambda>c. if c = BACKTICK \<or> c = DOLLAR \<or> c = BACKSLASH then [BACKSLASH, c] else [c]) s)"

definition sanitizeCommitMessage :: "jsstring \<Rightarrow> jsstring" where
  "sanitizeCommitMessage message = trim (escapeSpecials (escapeQuotes message))"

text \<open>The command line that \<open>stageFile\<close> hands to the shell.\<close>

definition stageFile_command :: "jsstring \<Rightarrow> jsstring" where
  "stageFile_command filePath = ascii ''git add '' @ [DQUOTE] @ sanitizeFilePath filePath @ [DQUOTE]"

text \<open>What a shell reads between double quotes: a backslash in front of \<open>"\<close>,
  \<open>`\<close>, \<open>$\<close> or \<open>\\<close> escapes it, and the pair is passed over as a whole.
  \<open>bareSpecials\<close> lists the special code units that are left without an escape.\<close>

definition isSpecial :: "jschar \<Rightarrow> bool" where
  "isSpecial c = (c = DQUOTE \<or> c = BACKTICK \<or> c = DOLLAR \<or> c = BACKSLASH)"

fun bareSpecials :: "jsstring \<Rightarrow> jsstring" where
  "bareSpecials (c # d # s) =
     (if c = BACKSLASH \<and> isSpecial d then bareSpecials s
      else if isSpecial c then c # bareSpecials (d # s)
      else bareSpecials (d # s))"
| "bareSpecials [c] = (if isSpecial c then [c] else [])"
| "bareSpecials [] = []"

text \<open>The category under which \<open>getFileStatus\<close> files an entry, read back from the
  entry: staged entries carry \<open>staged = true\<close>, untracked ones the status \<open>?\<close>.\<close>

datatype category = Staged | Unstaged | Untracked

definition category_of :: "GitFileStatus \<Rightarrow> category" where
  "category_of e = (if staged e then Staged else if status e = ascii ''?'' then Untracked else Unstaged)"

text \<open>The key under which an entry is filed, computed from the entry alone.\<close>

definition key_of :: "GitFileStatus \<Rightarrow> jsstring" where
  "key_of e = path e @ (case category_of e of Staged \<Rightarrow> ascii ''_staged''
     | Unstaged \<Rightarrow> ascii ''_unstaged'' | Untracked \<Rightarrow> ascii ''_untracked'')"

definition keyed :: "fileMap \<Rightarrow> bool" where
  "keyed m = (distinct (map fst m) \<and> list_all (\<lambda>(k, e). k = key_of e) m)"


section \<open>Text constants of ai-service.ts and constants.ts\<close>

text \<open>The texts of the source that are not ASCII, as UTF-16 code units. Each is named
  after its meaning.\<close>

definition zh_file :: jsstring where \<comment> \<open>the marker U+6A94 U+6848 (file) with its colon\<close>
  "zh_file =
     [0x6A94, 0x6848] @ ascii '':''"

definition zh_file_sp :: jsstring where \<comment> \<open>the file marker followed by a space\<close>
  "zh_file_sp =
     [0x6A94, 0x6848] @ ascii '': ''"

definition zh_added :: jsstring where \<comment> \<open>the marker U+65B0 U+589E (added) with its colon\<close>
  "zh_added =
     [0x65B0, 0x589E] @ ascii '':''"

definition zh_deleted :: jsstring where \<comment> \<open>the marker U+522A U+9664 (deleted) with its colon\<close>
  "zh_deleted =
     [0x522A, 0x9664] @ ascii '':''"

definition zh_added_plus :: jsstring where \<comment> \<open>the head of an additions count\<close>
  "zh_added_plus =
     [0x65B0, 0x589E] @ ascii '': +''"

definition zh_deleted_minus :: jsstring where \<comment> \<open>the head of a deletions count\<close>
  "zh_deleted_minus =
     [0x522A, 0x9664] @ ascii '': -''"

definition zh_file_count :: jsstring where \<comment> \<open>the head of the changed-files count\<close>
  "zh_file_count =
     [0x8B8A, 0x66F4, 0x6A94, 0x6848, 0x6578, 0x91CF] @ ascii '': ''"

definition zh_add :: jsstring where \<comment> \<open>keyword: add\<close>
  "zh_add =
     [0x65B0, 0x589E]"

definition zh_repair :: jsstring where \<comment> \<open>keyword: repair\<close>
  "zh_repair =
     [0x4FEE, 0x5FA9]"

definition zh_mistake :: jsstring where \<comment> \<open>keyword: error\<close>
  "zh_mistake =
     [0x932F, 0x8AA4]"

definition zh_problem :: jsstring where \<comment> \<open>keyword: problem\<close>
  "zh_problem =
     [0x554F, 0x984C]"

definition zh_restructure :: jsstring where \<comment> \<open>keyword: refactor\<close>
  "zh_restructure =
     [0x91CD, 0x69CB]"

definition zh_testing :: jsstring where \<comment> \<open>keyword: test\<close>
  "zh_testing =
     [0x6E2C, 0x8A66]"

definition zh_document :: jsstring where \<comment> \<open>keyword: document\<close>
  "zh_document =
     [0x6587, 0x6A94]"

definition zh_explain :: jsstring where \<comment> \<open>keyword: explanation\<close>
  "zh_explain =
     [0x8AAA, 0x660E]"

definition zh_formatting :: jsstring where \<comment> \<open>keyword: format\<close>
  "zh_formatting =
     [0x683C, 0x5F0F]"

definition zh_settings :: jsstring where \<comment> \<open>keyword: settings\<close>
  "zh_settings =
     [0x8A2D, 0x5B9A]"

definition zh_feature :: jsstring where \<comment> \<open>word: feature\<close>
  "zh_feature =
     [0x529F, 0x80FD]"

definition zh_code :: jsstring where \<comment> \<open>word: code\<close>
  "zh_code =
     [0x4EE3, 0x78BC]"

definition zh_update :: jsstring where \<comment> \<open>word: update\<close>
  "zh_update =
     [0x66F4, 0x65B0]"

definition msg_update_code :: jsstring where \<comment> \<open>message: update code\<close>
  "msg_update_code =
     [0x66F4, 0x65B0, 0x4EE3, 0x78BC]"

definition msg_new_feature_module :: jsstring where \<comment> \<open>message: add feature module\<close>
  "msg_new_feature_module =
     [0x65B0, 0x589E, 0x529F, 0x80FD, 0x6A21, 0x7D44]"

definition msg_new_feature :: jsstring where \<comment> \<open>message: add feature\<close>
  "msg_new_feature =
     [0x65B0, 0x589E, 0x529F, 0x80FD]"

definition msg_fix_many :: jsstring where \<comment> \<open>message: fix several problems\<close>
  "msg_fix_many =
     [0x4FEE, 0x5FA9, 0x591A, 0x500B, 0x554F, 0x984C]"

definition msg_fix :: jsstring where \<comment> \<open>message: fix problem\<close>
  "msg_fix =
     [0x4FEE, 0x5FA9, 0x554F, 0x984C]"

definition msg_update_docs :: jsstring where \<comment> \<open>message: update documents\<close>
  "msg_update_docs =
     [0x66F4, 0x65B0, 0x6587, 0x6A94]"

definition msg_update_readme :: jsstring where \<comment> \<open>message: update the explanatory document\<close>
  "msg_update_readme =
     [0x66F4, 0x65B0, 0x8AAA, 0x660E, 0x6587, 0x6A94]"

definition msg_update_tests :: jsstring where \<comment> \<open>message: update test cases\<close>
  "msg_update_tests =
     [0x66F4, 0x65B0, 0x6E2C, 0x8A66, 0x7528, 0x4F8B]"

definition msg_new_test :: jsstring where \<comment> \<open>message: add test\<close>
  "msg_new_test =
     [0x65B0, 0x589E, 0x6E2C, 0x8A66]"

definition msg_refactor_code :: jsstring where \<comment> \<open>message: refactor code\<close>
  "msg_refactor_code =
     [0x91CD, 0x69CB, 0x4EE3, 0x78BC]"

definition msg_format :: jsstring where \<comment> \<open>message: adjust code format\<close>
  "msg_format =
     [0x8ABF, 0x6574, 0x4EE3, 0x78BC, 0x683C, 0x5F0F]"

definition msg_update_deps :: jsstring where \<comment> \<open>message: update dependency configuration\<close>
  "msg_update_deps =
     [0x66F4, 0x65B0, 0x4F9D, 0x8CF4, 0x914D, 0x7F6E]"

definition msg_update_build :: jsstring where \<comment> \<open>message: update build configuration\<close>
  "msg_update_build =
     [0x66F4, 0x65B0, 0x5EFA, 0x7F6E, 0x914D, 0x7F6E]"

definition msg_update_files :: jsstring where \<comment> \<open>message: update several files\<close>
  "msg_update_files =
     [0x66F4, 0x65B0, 0x591A, 0x500B, 0x6A94, 0x6848]"

definition lbl_component :: jsstring where \<comment> \<open>label: component\<close>
  "lbl_component =
     [0x7D44, 0x4EF6]"

definition lbl_style :: jsstring where \<comment> \<open>label: style\<close>
  "lbl_style =
     [0x6A23, 0x5F0F]"

definition lbl_config :: jsstring where \<comment> \<open>label: configuration\<close>
  "lbl_config =
     [0x914D, 0x7F6E]"

definition tr_modules :: jsstring where \<comment> \<open>summary heading: added modules\<close>
  "tr_modules =
     [0x000A, 0x65B0, 0x589E, 0x6A21, 0x7D44] @ ascii '': ''"

definition tr_functions :: jsstring where \<comment> \<open>summary heading: main function changes\<close>
  "tr_functions =
     [0x000A, 0x4E3B, 0x8981, 0x51FD, 0x6578, 0x8B8A, 0x66F4] @ ascii '': ''"

definition tr_new_function :: jsstring where \<comment> \<open>summary word: new function\<close>
  "tr_new_function =
     [0x65B0, 0x51FD, 0x6578]"

definition tr_new_const :: jsstring where \<comment> \<open>summary word: new constant\<close>
  "tr_new_const =
     [0x65B0, 0x5E38, 0x6578]"

definition tr_scale :: jsstring where \<comment> \<open>summary heading: size of the change\<close>
  "tr_scale =
     [0x000A, 0x8B8A, 0x66F4, 0x898F, 0x6A21] @ ascii '': +''"

definition tr_lines :: jsstring where \<comment> \<open>summary word: lines\<close>
  "tr_lines =
     ascii '' '' @ [0x884C]"

definition tr_summary_open :: jsstring where \<comment> \<open>summary trailer, before the original length\<close>
  "tr_summary_open =
     [0x000A] @ ascii ''('' @ [0x667A, 0x80FD, 0x6458, 0x8981, 0xFF0C, 0x539F, 0x59CB] @
     ascii '' ''"

definition tr_summary_close :: jsstring where \<comment> \<open>summary trailer, after the original length\<close>
  "tr_summary_close =
     ascii '' '' @ [0x5B57, 0x7B26] @ ascii '')''"

definition gp_direct :: jsstring where \<comment> \<open>the tail of the minimal Gemini prompt\<close>
  "gp_direct =
     [0x000A, 0x000A, 0x76F4, 0x63A5, 0x56DE, 0x50B3] @ ascii '': {'' @ [0x0022] @
     ascii ''type'' @ [0x0022] @ ascii '':'' @ [0x0022] @ ascii ''feat'' @ [0x0022] @
     ascii '','' @ [0x0022] @ ascii ''scope'' @ [0x0022] @ ascii '':'' @ [0x0022, 0x0022] @
     ascii '','' @ [0x0022] @ ascii ''message'' @ [0x0022] @ ascii '':'' @
     [0x0022, 0x4E2D, 0x6587, 0x63CF, 0x8FF0, 0x0022] @ ascii '','' @ [0x0022] @
     ascii ''confidence'' @ [0x0022] @ ascii '':0.8}''"

definition gp_head :: jsstring where \<comment> \<open>the head of the standard Gemini prompt\<close>
  "gp_head =
     [0x6839, 0x64DA, 0x4EE3, 0x78BC, 0x8B8A, 0x66F4, 0x751F, 0x6210] @ ascii '' commit '' @
     [0x8A0A, 0x606F, 0xFF1A, 0x000A, 0x000A]"

definition gp_tail :: jsstring where \<comment> \<open>the tail of the standard Gemini prompt\<close>
  "gp_tail =
     [0x000A, 0x000A, 0x53EA, 0x8FD4, 0x56DE] @ ascii '' JSON'' @ [0xFF1A, 0x000A] @
     ascii ''{'' @ [0x0022] @ ascii ''type'' @ [0x0022] @ ascii '':'' @ [0x0022] @
     ascii ''feat|fix|refactor|docs|style|test|chore'' @ [0x0022] @ ascii '','' @ [0x0022] @
     ascii ''scope'' @ [0x0022] @ ascii '':'' @ [0x0022, 0x0022] @ ascii '','' @ [0x0022] @
     ascii ''message'' @ [0x0022] @ ascii '':'' @
     [0x0022, 0x7C21, 0x6F54, 0x4E2D, 0x6587, 0x63CF, 0x8FF0, 0x0022] @ ascii '','' @
     [0x0022] @ ascii ''confidence'' @ [0x0022] @ ascii '':0.8}''"

text \<open>\<open>CONSTANTS.AI\<close>: the sizes, the time limit and the two prompt texts.\<close>

definition MAX_DIFF_LENGTH :: nat where "MAX_DIFF_LENGTH = 8000"

definition GEMINI_MAX_DIFF_LENGTH :: nat where "GEMINI_MAX_DIFF_LENGTH = 3000"

definition GEMINI_SUMMARY_LENGTH :: nat where "GEMINI_SUMMARY_LENGTH = 800"

definition DEFAULT_MODEL :: jsstring where "DEFAULT_MODEL = ascii ''gpt-3.5-turbo''"

definition PROMPT_SYSTEM :: jsstring where
  "PROMPT_SYSTEM =
     [0x4F60, 0x662F, 0x4E00, 0x500B, 0x5C08, 0x696D, 0x7684] @ ascii '' Git commit '' @
     [0x8A0A, 0x606F, 0x751F, 0x6210, 0x52A9, 0x624B, 0x3002, 0x8ACB, 0x6839, 0x64DA] @
     [0x63D0, 0x4F9B, 0x7684, 0x7A0B, 0x5F0F, 0x78BC, 0x8B8A, 0x66F4, 0xFF0C, 0x751F] @
     [0x6210, 0x7B26, 0x5408] @ ascii '' Conventional Commits '' @
     [0x898F, 0x7BC4, 0x7684] @ ascii '' commit '' @
     [0x8A0A, 0x606F, 0x3002, 0x000A, 0x000A, 0x64B0, 0x5BEB, 0x898F, 0x5247, 0xFF1A] @
     [0x000A] @ ascii ''1. '' @
     [0x4F7F, 0x7528, 0x7E41, 0x9AD4, 0x4E2D, 0x6587, 0x63CF, 0x8FF0, 0x000A] @
     ascii ''2. '' @ [0x683C, 0x5F0F, 0xFF1A] @ ascii ''type(scope): description'' @
     [0x000A] @ ascii ''3. type '' @ [0x5FC5, 0x9808, 0x662F, 0xFF1A] @
     ascii ''feat, fix, refactor, docs, style, test, chore, perf, ci, bui'' @
     ascii ''ld, revert '' @ [0x4E4B, 0x4E00, 0x000A] @ ascii ''4. description '' @
     [0x8981] @ ascii ''**'' @ [0x8A73, 0x7D30, 0x4F46, 0x7CBE, 0x6E96] @ ascii ''**'' @
     [0xFF0C, 0x8AAA, 0x660E, 0x300C, 0x505A, 0x4E86, 0x4EC0, 0x9EBC, 0x300D, 0x548C] @
     [0x300C, 0x5F71, 0x97FF, 0x7BC4, 0x570D, 0x300D, 0x000A] @ ascii ''5. **'' @
     [0x591A, 0x6A94, 0x6848, 0x8655, 0x7406] @ ascii ''**'' @
     [0xFF1A, 0x7576, 0x6D89, 0x53CA, 0x591A, 0x500B, 0x6A94, 0x6848, 0x6642, 0xFF0C] @
     [0x6574, 0x5408, 0x63CF, 0x8FF0, 0x5171, 0x540C, 0x76EE, 0x6A19, 0xFF0C, 0x4E0D] @
     [0x8981, 0x9010, 0x4E00, 0x5217, 0x8209, 0x6A94, 0x6848, 0x000A] @ ascii ''6. **'' @
     [0x9069, 0x7576, 0x9577, 0x5EA6] @ ascii ''**'' @
     [0xFF1A, 0x63CF, 0x8FF0, 0x61C9, 0x70BA] @ ascii '' 15-50 '' @
     [0x5B57, 0xFF0C, 0x907F, 0x514D, 0x904E, 0x77ED, 0xFF08] @ ascii ''<10'' @
     [0x5B57, 0xFF09, 0x6216, 0x5197, 0x9577, 0xFF08] @ ascii ''>60'' @
     [0x5B57, 0xFF09, 0x000A] @ ascii ''7. scope '' @
     [0x9078, 0x64C7, 0xFF1A, 0x55AE, 0x4E00, 0x6A21, 0x7D44, 0x7528, 0x5177, 0x9AD4] @
     [0x540D, 0x7A31, 0xFF0C, 0x8DE8, 0x6A21, 0x7D44, 0x8B8A, 0x66F4, 0x53EF, 0x7701] @
     [0x7565, 0x6216, 0x7528, 0x901A, 0x7528, 0x8A5E, 0x000A, 0x000A, 0x63CF, 0x8FF0] @
     [0x54C1, 0x8CEA, 0x6A19, 0x6E96, 0xFF1A, 0x000A, 0x2705] @ ascii '' '' @
     [0x597D, 0x7684, 0x63CF, 0x8FF0, 0xFF1A, 0x300C, 0x65B0, 0x589E, 0x7528, 0x6236] @
     [0x8EAB, 0x4EFD, 0x9A57, 0x8B49, 0x529F, 0x80FD, 0x4E26, 0x96C6, 0x6210] @
     ascii '' JWT token '' @ [0x7BA1, 0x7406, 0x300D, 0x000A, 0x2705] @ ascii '' '' @
     [0x597D, 0x7684, 0x63CF, 0x8FF0, 0xFF1A, 0x300C, 0x91CD, 0x69CB, 0x8CC7, 0x6599] @
     [0x5EAB, 0x9023, 0x63A5, 0x5C64, 0x4EE5, 0x63D0, 0x5347, 0x6027, 0x80FD, 0x548C] @
     [0x932F, 0x8AA4, 0x8655, 0x7406, 0x300D, 0x000A, 0x2705] @ ascii '' '' @
     [0x597D, 0x7684, 0x63CF, 0x8FF0, 0xFF1A, 0x300C, 0x4FEE, 0x5FA9, 0x6A94, 0x6848] @
     [0x4E0A, 0x50B3, 0x6642, 0x7684, 0x8A18, 0x61B6, 0x9AD4, 0x6D29, 0x6F0F, 0x548C] @
     [0x9032, 0x5EA6, 0x8FFD, 0x8E64, 0x554F, 0x984C, 0x300D, 0x000A, 0x274C] @
     ascii '' '' @ [0x907F, 0x514D, 0x904E, 0x77ED, 0xFF1A, 0x300C, 0x4FEE, 0x5FA9] @
     ascii '' bug'' @
     [0x300D, 0x3001, 0x300C, 0x66F4, 0x65B0, 0x6A94, 0x6848, 0x300D, 0x000A, 0x274C] @
     ascii '' '' @
     [0x907F, 0x514D, 0x904E, 0x9577, 0xFF1A, 0x300C, 0x4FEE, 0x5FA9, 0x4E86, 0x5728] @
     [0x7279, 0x5B9A, 0x60C5, 0x6CC1, 0x4E0B, 0x7576, 0x7528, 0x6236, 0x5617, 0x8A66] @
     [0x4E0A, 0x50B3, 0x5927, 0x6A94, 0x6848, 0x6642, 0x53EF, 0x80FD, 0x51FA, 0x73FE] @
     [0x7684, 0x8A18, 0x61B6, 0x9AD4, 0x6D29, 0x6F0F, 0x554F, 0x984C, 0x4E26, 0x6539] @
     [0x5584, 0x4E86, 0x9032, 0x5EA6, 0x689D, 0x986F, 0x793A, 0x908F, 0x8F2F, 0x300D] @
     [0x000A, 0x000A, 0x8ACB, 0x8FD4, 0x56DE] @ ascii '' JSON '' @
     [0x683C, 0x5F0F, 0xFF1A, 0x000A] @ ascii ''{'' @ [0x000A] @ ascii ''  '' @ [0x0022] @
     ascii ''type'' @ [0x0022] @ ascii '': '' @ [0x0022] @
     ascii ''feat|fix|refactor|docs|style|test|chore|perf|ci|build|revert'' @ [0x0022] @
     ascii '','' @ [0x000A] @ ascii ''  '' @ [0x0022] @ ascii ''scope'' @ [0x0022] @
     ascii '': '' @
     [0x0022, 0x6A21, 0x7D44, 0x540D, 0x7A31, 0x6216, 0x7701, 0x7565, 0x0022] @
     ascii '','' @ [0x000A] @ ascii ''  '' @ [0x0022] @ ascii ''message'' @ [0x0022] @
     ascii '': '' @
     [0x0022, 0x8A73, 0x7D30, 0x4E14, 0x7CBE, 0x6E96, 0x7684, 0x8B8A, 0x66F4, 0x63CF] @
     [0x8FF0, 0xFF08] @ ascii ''15-50'' @ [0x5B57, 0xFF09, 0x0022] @ ascii '','' @
     [0x000A] @ ascii ''  '' @ [0x0022] @ ascii ''confidence'' @ [0x0022] @
     ascii '': 0.0-1.0'' @ [0x000A] @ ascii ''}''"

definition PROMPT_USER_PREFIX :: jsstring where
  "PROMPT_USER_PREFIX =
     [0x8ACB, 0x5206, 0x6790, 0x4EE5, 0x4E0B] @ ascii '' Git diff '' @
     [0x4E26, 0x751F, 0x6210] @ ascii '' commit '' @ [0x8A0A, 0x606F, 0xFF1A, 0x000A, 0x000A]"

definition NO_STAGED_FILES :: jsstring where \<comment> \<open>\<open>CONSTANTS.MESSAGES.ERRORS.NO_STAGED_FILES\<close>\<close>
  "NO_STAGED_FILES =
     [0x6C92, 0x6709, 0x5DF2, 0x66AB, 0x5B58, 0x7684, 0x6A94, 0x6848, 0x53EF, 0x4F9B] @
     [0x5206, 0x6790]"

section \<open>ai-service.ts: values\<close>

text \<open>
  The values that reach \<open>AICommitContent\<close> at run time. A field that is read from a
  parsed provider response is whatever the response holds, so the fields are JavaScript
  values and not only strings and numbers. Numbers are modelled as reals: the rounding of
  the host's doubles, \<open>NaN\<close> and the infinities are not represented.
\<close>

datatype jsval =
    JUndefined
  | JNull
  | JBool bool
  | JNum real
  | JStr jsstring
  | JArr "jsval list"
  | JObj "(jsstring \<times> jsval) list"

text \<open>\<open>!!v\<close>, and \<open>a || b\<close>.\<close>

fun truthy :: "jsval \<Rightarrow> bool" where
  "truthy JUndefined = False"
| "truthy JNull = False"
| "truthy (JBool b) = b"
| "truthy (JNum x) = (x \<noteq> 0)"
| "truthy (JStr s) = (s \<noteq> [])"
| "truthy (JArr xs) = True"
| "truthy (JObj kvs) = True"

definition js_or :: "jsval \<Rightarrow> jsval \<Rightarrow> jsval" where
  "js_or a b = (if truthy a then a else b)"

record AICommitContent =
  type :: jsval
  scope :: jsval
  message :: jsval
  confidence :: jsval

record ContentAnalysis =
  hasNewFeature :: bool
  hasBugFix :: bool
  hasRefactor :: bool
  hasTests :: bool
  hasDocs :: bool
  hasStyles :: bool
  hasConfig :: bool

text \<open>The counts are sums of \<open>parseInt\<close> over runs of digits: naturals (a double is
  exact up to \<open>2^53\<close>).\<close>

record ChangeStats =
  additions :: nat
  deletions :: nat
  fileCount :: nat


section \<open>ai-service.ts: regular expressions\<close>

definition isDigit :: "jschar \<Rightarrow> bool" where \<comment> \<open>\<open>\d\<close>\<close>
  "isDigit c = (0x30 \<le> c \<and> c \<le> 0x39)"

definition isWordChar :: "jschar \<Rightarrow> bool" where \<comment> \<open>\<open>\w\<close>\<close>
  "isWordChar c = (isDigit c \<or> (0x41 \<le> c \<and> c \<le> 0x5A) \<or> (0x61 \<le> c \<and> c \<le> 0x7A) \<or> c = 0x5F)"

definition isLineTerminator :: "jschar \<Rightarrow> bool" where \<comment> \<open>what \<open>.\<close> does not match\<close>
  "isLineTerminator c = (c = 0x0A \<or> c = 0x0D \<or> c = 0x2028 \<or> c = 0x2029)"

text \<open>A regular expression is given by what it matches at the head of a text. \<open>search\<close>
  tries the positions from the left, as \<open>s.match(re)\<close> and \<open>re.test(s)\<close> do, and
  returns what the first match yields.\<close>

fun search :: "(jsstring \<Rightarrow> 'a option) \<Rightarrow> jsstring \<Rightarrow> 'a option" where
  "search m [] = m []"
| "search m (c # s) = (case m (c # s) of Some r \<Rightarrow> Some r | None \<Rightarrow> search m s)"

text \<open>\<open>s.match(re)\<close> for a global expression that matches no empty text: the matches
  from the left, without overlap. The matcher gives the length of the match at the head.\<close>

function matchAll :: "(jsstring \<Rightarrow> nat option) \<Rightarrow> jsstring \<Rightarrow> jsstring list" where
  "matchAll m [] = []"
| "matchAll m (c # s) =
     (case m (c # s) of
        Some (Suc n) \<Rightarrow> take (Suc n) (c # s) # matchAll m (drop n s)
      | _ \<Rightarrow> matchAll m s)"
  by pat_completeness auto
termination
  by (relation "measure (\<lambda>(m, s). length s)") auto

text \<open>\<open>parseInt\<close> on a run of decimal digits.\<close>

definition parseInt :: "jsstring \<Rightarrow> nat" where
  "parseInt ds = foldl (\<lambda>n c. 10 * n + unat (c - 0x30)) 0 (takeWhile isDigit ds)"

text \<open>The upper-case form of an ASCII letter: a regular expression with the flag \<open>i\<close>
  (and without \<open>u\<close>) compares the upper-case forms, and no code unit outside ASCII is
  compared equal to an ASCII one.\<close>

definition asciiUpper :: "jschar \<Rightarrow> jschar" where
  "asciiUpper c = (if 0x61 \<le> c \<and> c \<le> 0x7A then c - 0x20 else c)"

text \<open>\<open>/\.(e1|e2|...)$/.test(f)\<close>: the text ends with a dot and one of the extensions.\<close>

definition hasExtension :: "jsstring list \<Rightarrow> jsstring \<Rightarrow> bool" where
  "hasExtension exts f = list_ex (\<lambda>e. endsWith f (ascii ''.'' @ e)) exts"

definition hasExtensionCI :: "jsstring list \<Rightarrow> jsstring \<Rightarrow> bool" where
  "hasExtensionCI exts f =
     list_ex (\<lambda>e. endsWith (map asciiUpper f) (map asciiUpper (ascii ''.'' @ e))) exts"

text \<open>\<open>/k1|k2|.../.test(content)\<close> for fixed texts.\<close>

definition testAny :: "jsstring list \<Rightarrow> jsstring \<Rightarrow> bool" where
  "testAny kws content = list_ex (\<lambda>k. str_includes content k) kws"


section \<open>ai-service.ts: the rule-based generation\<close>

text \<open>\<open>String.prototype.toLowerCase\<close> is the host's Unicode mapping. The functions that
  call it take it as the parameter \<open>lower\<close>, so that what is proved holds for every such
  mapping; \<open>asciiLower\<close> is the one used where a value is computed.\<close>

definition asciiLower :: "jsstring \<Rightarrow> jsstring" where
  "asciiLower s = map (\<lambda>c. if 0x41 \<le> c \<and> c \<le> 0x5A then c + 0x20 else c) s"

text \<open>\<open>/U+6A94 U+6848: ([^\n]+)/g\<close>.\<close>

definition re_fileLine :: "jsstring \<Rightarrow> nat option" where
  "re_fileLine s =
     (let rest = takeWhile (\<lambda>c. c \<noteq> NEWLINE) (drop (length zh_file_sp) s)
      in if prefix zh_file_sp s \<and> rest \<noteq> [] then Some (length zh_file_sp + length rest) else None)"

definition extractFilePatterns :: "jsstring \<Rightarrow> jsstring list" where
  "extractFilePatterns summary =
     map (\<lambda>m. trim (replaceFirst zh_file_sp [] m)) (matchAll re_fileLine summary)"

text \<open>\<open>/head(\d+)/\<close>: the length of the match, and the digits.\<close>

definition re_count :: "jsstring \<Rightarrow> jsstring \<Rightarrow> nat option" where
  "re_count head s =
     (let ds = takeWhile isDigit (drop (length head) s)
      in if prefix head s \<and> ds \<noteq> [] then Some (length head + length ds) else None)"

definition re_countDigits :: "jsstring \<Rightarrow> jsstring \<Rightarrow> jsstring option" where
  "re_countDigits head s =
     (let ds = takeWhile isDigit (drop (length head) s)
      in if prefix head s \<and> ds \<noteq> [] then Some ds else None)"

text \<open>\<open>match.match(/\d+/)?.[0] || '0'\<close>: the first run of digits of the match.\<close>

definition firstDigits :: "jsstring \<Rightarrow> jsstring" where
  "firstDigits m =
     (case takeWhile isDigit (dropWhile (\<lambda>c. \<not> isDigit c) m) of
        [] \<Rightarrow> ascii ''0''
      | ds \<Rightarrow> ds)"

definition extractChangeStats :: "jsstring \<Rightarrow> ChangeStats" where
  "extractChangeStats summary =
     \<lparr>additions = foldl (\<lambda>sum m. sum + parseInt (firstDigits m)) 0
                     (matchAll (re_count zh_added_plus) summary),
      deletions = foldl (\<lambda>sum m. sum + parseInt (firstDigits m)) 0
                     (matchAll (re_count zh_deleted_minus) summary),
      fileCount = (case search (re_countDigits zh_file_count) summary of
                     Some ds \<Rightarrow> parseInt ds
                   | None \<Rightarrow> 0)\<rparr>"

definition analyzeContent :: "jsstring \<Rightarrow> ContentAnalysis" where
  "analyzeContent content =
     \<lparr>hasNewFeature = testAny [zh_add, ascii ''add'', ascii ''create'', ascii ''implement'',
                                ascii ''feature''] content,
      hasBugFix = testAny [ascii ''fix'', ascii ''bug'', ascii ''error'', zh_repair, zh_mistake,
                            zh_problem] content,
      hasRefactor = testAny [ascii ''refactor'', zh_restructure, ascii ''reorganize'',
                              ascii ''restructure''] content,
      hasTests = testAny [ascii ''test'', ascii ''spec'', zh_testing] content,
      hasDocs = testAny [ascii ''readme'', ascii ''doc'', zh_document, zh_explain] content,
      hasStyles = testAny [ascii ''style'', ascii ''format'', ascii ''css'', ascii ''scss'',
                            zh_formatting] content,
      hasConfig = testAny [ascii ''config'', ascii ''setting'', ascii ''package.json'',
                            ascii ''.json'', zh_settings] content\<rparr>"

text \<open>\<open>/\.(test|spec)\.(js|ts|jsx|tsx)$/.test(f)\<close>.\<close>

definition re_testFile :: "jsstring \<Rightarrow> bool" where
  "re_testFile f =
     list_ex (\<lambda>t. hasExtension
                     (map (\<lambda>e. t @ ascii ''.'' @ e) [ascii ''js'', ascii ''ts'', ascii ''jsx'', ascii ''tsx''])
                     f)
       [ascii ''test'', ascii ''spec'']"

definition hasTestFiles :: "jsstring list \<Rightarrow> bool" where
  "hasTestFiles filePatterns =
     list_ex (\<lambda>f. re_testFile f \<or> str_includes f (ascii ''/test/'') \<or> str_includes f (ascii ''/tests/''))
       filePatterns"

definition hasDocFiles :: "(jsstring \<Rightarrow> jsstring) \<Rightarrow> jsstring list \<Rightarrow> bool" where
  "hasDocFiles lower filePatterns =
     list_ex (\<lambda>f. hasExtensionCI [ascii ''md'', ascii ''txt'', ascii ''rst''] f
                \<or> str_includes (lower f) (ascii ''readme''))
       filePatterns"

definition hasConfigFiles :: "jsstring list \<Rightarrow> bool" where
  "hasConfigFiles filePatterns =
     list_ex (\<lambda>f. hasExtension [ascii ''json'', ascii ''yml'', ascii ''yaml'', ascii ''toml'', ascii ''ini''] f
                \<or> str_includes f (ascii ''config''))
       filePatterns"

definition hasStyleFiles :: "jsstring list \<Rightarrow> bool" where
  "hasStyleFiles filePatterns =
     list_ex (hasExtension [ascii ''css'', ascii ''scss'', ascii ''sass'', ascii ''less'', ascii ''stylus''])
       filePatterns"

definition hasNewFiles :: "ChangeStats \<Rightarrow> bool" where
  "hasNewFiles changeStats = (additions changeStats > deletions changeStats * 2)"

definition hasOnlyDeletions :: "ChangeStats \<Rightarrow> bool" where
  "hasOnlyDeletions changeStats = (additions changeStats = 0 \<and> deletions changeStats > 0)"

definition determineCommitType ::
  "(jsstring \<Rightarrow> jsstring) \<Rightarrow> jsstring list \<Rightarrow> ContentAnalysis \<Rightarrow> ChangeStats \<Rightarrow> jsstring \<times> real" where
  "determineCommitType lower filePatterns contentAnalysis changeStats =
     (if hasTestFiles filePatterns \<and> hasTests contentAnalysis then (ascii ''test'', 0.9)
      else if hasDocFiles lower filePatterns \<and> hasDocs contentAnalysis then (ascii ''docs'', 0.9)
      else if hasBugFix contentAnalysis then (ascii ''fix'', 0.85)
      else if hasNewFiles changeStats \<and> hasNewFeature contentAnalysis then (ascii ''feat'', 0.85)
      else if hasRefactor contentAnalysis then (ascii ''refactor'', 0.8)
      else if hasStyleFiles filePatterns \<and> hasStyles contentAnalysis then (ascii ''style'', 0.8)
      else if hasConfigFiles filePatterns \<or> hasConfig contentAnalysis then
        (if list_ex (\<lambda>f. str_includes f (ascii ''package.json'')) filePatterns
         then (ascii ''build'', 0.8)
         else (ascii ''chore'', 0.75))
      else if hasOnlyDeletions changeStats then (ascii ''refactor'', 0.7)
      else if hasNewFiles changeStats then (ascii ''feat'', 0.7)
      else if fileCount changeStats = 1 then (ascii ''fix'', 0.65)
      else (ascii ''chore'', 0.6))"

text \<open>\<open>[...new Set(dirs)]\<close>: the first occurrence of each element, in order.\<close>

definition uniqueInOrder :: "'a list \<Rightarrow> 'a list" where
  "uniqueInOrder xs = rev (remdups (rev xs))"

text \<open>\<open>f.split(sep)[0]\<close> and \<open>f.split(sep).pop()\<close>.\<close>

definition firstPart :: "'a \<Rightarrow> 'a list \<Rightarrow> 'a list" where
  "firstPart sep f = (case split sep f of [] \<Rightarrow> [] | p # ps \<Rightarrow> p)"

definition lastPart :: "'a \<Rightarrow> 'a list \<Rightarrow> 'a list" where
  "lastPart sep f = (case rev (split sep f) of [] \<Rightarrow> [] | p # ps \<Rightarrow> p)"

definition commonScopes :: "jsstring list" where
  "commonScopes = [ascii ''components'', ascii ''services'', ascii ''utils'', ascii ''api'',
                   ascii ''auth'', ascii ''ui'', ascii ''core'']"

definition extractScope :: "(jsstring \<Rightarrow> jsstring) \<Rightarrow> jsstring list \<Rightarrow> jsstring" where
  "extractScope lower filePatterns =
     (if length filePatterns = 0 then []
      else
        let dirs = filter (\<lambda>d. d \<noteq> ascii ''src'' \<and> d \<noteq> ascii ''.'' \<and> length d > 0)
                     (map (firstPart 0x2F) filePatterns);
            uniqueDirs = uniqueInOrder dirs
        in case uniqueDirs of
             [d] \<Rightarrow> d
           | _ \<Rightarrow> (case find (\<lambda>dir. lower dir \<in> set commonScopes) uniqueDirs of
                     Some foundScope \<Rightarrow> foundScope
                   | None \<Rightarrow> []))"

text \<open>The label of one file in \<open>getPrimaryFileType\<close>; the empty text is no label.\<close>

definition fileTypeLabel :: "(jsstring \<Rightarrow> jsstring) \<Rightarrow> jsstring \<Rightarrow> jsstring" where
  "fileTypeLabel lower f =
     (let ext = lower (lastPart 0x2E f);
          path = lower f
      in if ext = ascii ''tsx'' \<or> ext = ascii ''jsx'' \<or> str_includes path (ascii ''component'')
           then lbl_component
         else if ext = ascii ''ts'' \<or> ext = ascii ''js'' then ascii ''JS''
         else if ext = ascii ''css'' \<or> ext = ascii ''scss'' \<or> ext = ascii ''sass'' then lbl_style
         else if ext = ascii ''md'' then zh_document
         else if ext = ascii ''json'' \<or> ext = ascii ''yml'' \<or> ext = ascii ''yaml'' then lbl_config
         else if str_includes path (ascii ''test'') \<or> str_includes path (ascii ''spec'') then zh_testing
         else if str_includes path (ascii ''api'') \<or> str_includes path (ascii ''service'') then ascii ''API''
         else [])"

text \<open>The counting object of \<open>getPrimaryFileType\<close>: its keys stand in the order of
  their first insertion, and \<open>sort\<close> is stable, so the first entry after sorting by
  falling count is the most frequent label that was seen first.\<close>

definition countType :: "(jsstring \<times> nat) list \<Rightarrow> jsstring \<Rightarrow> (jsstring \<times> nat) list" where
  "countType acc t = AList.update t ((case map_of acc t of None \<Rightarrow> 0 | Some n \<Rightarrow> n) + 1) acc"

definition getPrimaryFileType :: "(jsstring \<Rightarrow> jsstring) \<Rightarrow> jsstring list \<Rightarrow> jsstring" where
  "getPrimaryFileType lower filePatterns =
     (if length filePatterns = 0 then []
      else
        let types = filter (\<lambda>t. t \<noteq> []) (map (fileTypeLabel lower) filePatterns);
            typeCount = foldl countType [] types
        in case sort_key (\<lambda>(t, n). - int n) typeCount of
             [] \<Rightarrow> []
           | (t, n) # rest \<Rightarrow> t)"

definition generateMessage ::
  "(jsstring \<Rightarrow> jsstring) \<Rightarrow> jsstring \<Rightarrow> jsstring list \<Rightarrow> ChangeStats \<Rightarrow> ContentAnalysis \<Rightarrow> jsstring" where
  "generateMessage lower ty filePatterns changeStats contentAnalysis =
     (let hasMultipleFiles = fileCount changeStats > 1;
          primaryFileType = getPrimaryFileType lower filePatterns
      in if ty = ascii ''feat'' then
           (if hasNewFeature contentAnalysis
            then (if hasMultipleFiles then msg_new_feature_module else msg_new_feature)
            else if primaryFileType \<noteq> [] then zh_add @ primaryFileType @ zh_feature
            else msg_new_feature)
         else if ty = ascii ''fix'' then
           (if hasBugFix contentAnalysis
            then (if hasMultipleFiles then msg_fix_many else msg_fix)
            else if primaryFileType \<noteq> [] then zh_repair @ primaryFileType @ zh_problem
            else msg_fix)
         else if ty = ascii ''docs'' then
           (if hasMultipleFiles then msg_update_docs else msg_update_readme)
         else if ty = ascii ''test'' then
           (if hasMultipleFiles then msg_update_tests else msg_new_test)
         else if ty = ascii ''refactor'' then
           (if primaryFileType \<noteq> [] then zh_restructure @ primaryFileType @ zh_code
            else msg_refactor_code)
         else if ty = ascii ''style'' then msg_format
         else if ty = ascii ''build'' then
           (if list_ex (\<lambda>f. str_includes f (ascii ''package.json'')) filePatterns
            then msg_update_deps
            else msg_update_build)
         else
           (if primaryFileType \<noteq> [] then zh_update @ primaryFileType
            else if hasMultipleFiles then msg_update_files
            else msg_update_code))"

definition generateWithEnhancedRules :: "(jsstring \<Rightarrow> jsstring) \<Rightarrow> jsstring \<Rightarrow> AICommitContent" where
  "generateWithEnhancedRules lower diffSummary =
     (let lines = lower diffSummary;
          filePatterns = extractFilePatterns diffSummary;
          changeStats = extractChangeStats diffSummary;
          contentAnalysis = analyzeContent lines;
          typeAnalysis = determineCommitType lower filePatterns contentAnalysis changeStats;
          scope = extractScope lower filePatterns;
          message = generateMessage lower (fst typeAnalysis) filePatterns changeStats contentAnalysis
      in \<lparr>type = JStr (fst typeAnalysis),
          scope = (if scope \<noteq> [] then JStr scope else JUndefined),
          message = JStr message,
          confidence = JNum (min (snd typeAnalysis) 0.9)\<rparr>)"

text \<open>The eleven commit types of the prompt and of \<open>parseAIResponse\<close>.\<close>

definition commitTypes :: "jsstring list" where
  "commitTypes = [ascii ''feat'', ascii ''fix'', ascii ''refactor'', ascii ''docs'', ascii ''style'',
                  ascii ''test'', ascii ''chore'', ascii ''perf'', ascii ''ci'', ascii ''build'',
                  ascii ''revert'']"

section \<open>The host's JSON.parse\<close>

text \<open>
  \<open>JSON.parse\<close> belongs to the host, not to the source. It is modelled after the JSON
  grammar (ECMA-404) in two passes that each read one item at a step: a lexer over the code
  units and an automaton with a stack over the tokens. \<open>None\<close> is the
  \<open>SyntaxError\<close>. An object keeps its keys in the order of their first occurrence and,
  for a key that occurs twice, the last value.
\<close>

datatype token = TLBrace | TRBrace | TLBrack | TRBrack | TColon | TComma | TValue jsval

definition isJsonWs :: "jschar \<Rightarrow> bool" where
  "isJsonWs c = (c = 0x20 \<or> c = 0x09 \<or> c = 0x0A \<or> c = 0x0D)"

text \<open>The code units of which numbers and the literals \<open>true\<close>, \<open>false\<close>,
  \<open>null\<close> are made.\<close>

definition isAtomChar :: "jschar \<Rightarrow> bool" where
  "isAtomChar c = (isDigit c \<or> (0x61 \<le> c \<and> c \<le> 0x7A) \<or> (0x41 \<le> c \<and> c \<le> 0x5A)
                   \<or> c = 0x2D \<or> c = 0x2B \<or> c = 0x2E)"

definition digitsVal :: "jsstring \<Rightarrow> nat" where
  "digitsVal ds = foldl (\<lambda>n c. 10 * n + unat (c - 0x30)) 0 ds"

text \<open>A JSON number: \<open>-? (0 | [1-9][0-9]*) (. [0-9]+)? ([eE] [+-]? [0-9]+)?\<close>.\<close>

definition json_exponent :: "jsstring \<Rightarrow> (bool \<times> nat) option" where
  "json_exponent s =
     (case s of
        [] \<Rightarrow> Some (False, 0)
      | c # r \<Rightarrow>
          if c = 0x65 \<or> c = 0x45 then
            (let neg = (r \<noteq> [] \<and> hd r = 0x2D);
                 ds = (if r \<noteq> [] \<and> (hd r = 0x2D \<or> hd r = 0x2B) then tl r else r)
             in if ds \<noteq> [] \<and> list_all isDigit ds then Some (neg, digitsVal ds) else None)
          else None)"

definition json_number :: "jsstring \<Rightarrow> real option" where
  "json_number lx =
     (let neg = (lx \<noteq> [] \<and> hd lx = 0x2D);
          s1 = (if neg then tl lx else lx);
          ip = takeWhile isDigit s1;
          s2 = dropWhile isDigit s1;
          hasFrac = (s2 \<noteq> [] \<and> hd s2 = 0x2E);
          fp = (if hasFrac then takeWhile isDigit (tl s2) else []);
          s3 = (if hasFrac then dropWhile isDigit (tl s2) else s2)
      in if ip = [] \<or> (length ip > 1 \<and> hd ip = 0x30) \<or> (hasFrac \<and> fp = []) then None
         else
           (case json_exponent s3 of
              None \<Rightarrow> None
            | Some (eneg, e) \<Rightarrow>
                (let m = real (digitsVal ip) + real (digitsVal fp) / 10 ^ length fp;
                     v = (if eneg then m / 10 ^ e else m * 10 ^ e)
                 in Some (if neg then - v else v))))"

definition atomValue :: "jsstring \<Rightarrow> jsval option" where
  "atomValue lx =
     (if lx = ascii ''true'' then Some (JBool True)
      else if lx = ascii ''false'' then Some (JBool False)
      else if lx = ascii ''null'' then Some JNull
      else map_option JNum (json_number lx))"

definition hexDigit :: "jschar \<Rightarrow> jschar option" where
  "hexDigit c =
     (if isDigit c then Some (c - 0x30)
      else if 0x61 \<le> c \<and> c \<le> 0x66 then Some (c - 0x57)
      else if 0x41 \<le> c \<and> c \<le> 0x46 then Some (c - 0x37)
      else None)"

definition hex4 :: "jsstring \<Rightarrow> jschar option" where
  "hex4 s =
     (case map hexDigit s of
        [Some a, Some b, Some c, Some d] \<Rightarrow> Some (0x1000 * a + 0x100 * b + 0x10 * c + d)
      | _ \<Rightarrow> None)"

definition simpleEscape :: "jschar \<Rightarrow> jschar option" where
  "simpleEscape e =
     (if e = DQUOTE \<or> e = BACKSLASH \<or> e = 0x2F then Some e
      else if e = 0x62 then Some 0x08
      else if e = 0x66 then Some 0x0C
      else if e = 0x6E then Some 0x0A
      else if e = 0x72 then Some 0x0D
      else if e = 0x74 then Some 0x09
      else None)"

text \<open>The text of a JSON string, from what stands between its quotes.\<close>

function decodeString :: "jsstring \<Rightarrow> jsstring option" where
  "decodeString [] = Some []"
| "decodeString (c # s) =
     (if c = BACKSLASH then
        (case s of
           [] \<Rightarrow> None
         | e # r \<Rightarrow>
             if e = 0x75 then
               (case hex4 (take 4 r) of
                  None \<Rightarrow> None
                | Some u \<Rightarrow> map_option ((#) u) (decodeString (drop 4 r)))
             else
               (case simpleEscape e of
                  None \<Rightarrow> None
                | Some u \<Rightarrow> map_option ((#) u) (decodeString r)))
      else if c < 0x20 then None
      else map_option ((#) c) (decodeString s))"
  by pat_completeness auto
termination
  by (relation "measure length") auto

datatype lexmode = Between | InStr jsstring | InStrEsc jsstring | InAtom jsstring

text \<open>One code unit read between two tokens: the mode it leads to and the token it is.\<close>

definition between :: "jschar \<Rightarrow> (lexmode \<times> token list) option" where
  "between c =
     (if isJsonWs c then Some (Between, [])
      else if c = 0x7B then Some (Between, [TLBrace])
      else if c = 0x7D then Some (Between, [TRBrace])
      else if c = 0x5B then Some (Between, [TLBrack])
      else if c = 0x5D then Some (Between, [TRBrack])
      else if c = 0x3A then Some (Between, [TColon])
      else if c = 0x2C then Some (Between, [TComma])
      else if c = DQUOTE then Some (InStr [], [])
      else if isAtomChar c then Some (InAtom [c], [])
      else None)"

text \<open>The lexer; the tokens read so far and the code units of the current token are kept
  in reverse.\<close>

fun lex :: "lexmode \<Rightarrow> token list \<Rightarrow> jsstring \<Rightarrow> token list option" where
  "lex Between acc [] = Some (rev acc)"
| "lex Between acc (c # s) =
     (case between c of None \<Rightarrow> None | Some (m, ts) \<Rightarrow> lex m (ts @ acc) s)"
| "lex (InStr raw) acc [] = None"
| "lex (InStr raw) acc (c # s) =
     (if c = DQUOTE then
        (case decodeString (rev raw) of
           None \<Rightarrow> None
         | Some str \<Rightarrow> lex Between (TValue (JStr str) # acc) s)
      else if c = BACKSLASH then lex (InStrEsc (c # raw)) acc s
      else lex (InStr (c # raw)) acc s)"
| "lex (InStrEsc raw) acc [] = None"
| "lex (InStrEsc raw) acc (c # s) = lex (InStr (c # raw)) acc s"
| "lex (InAtom lx) acc [] =
     (case atomValue (rev lx) of None \<Rightarrow> None | Some v \<Rightarrow> Some (rev (TValue v # acc)))"
| "lex (InAtom lx) acc (c # s) =
     (if isAtomChar c then lex (InAtom (c # lx)) acc s
      else
        (case atomValue (rev lx) of
           None \<Rightarrow> None
         | Some v \<Rightarrow>
             (case between c of
                None \<Rightarrow> None
              | Some (m, ts) \<Rightarrow> lex m (ts @ TValue v # acc) s)))"

text \<open>The automaton. A frame of the stack is an open array with its elements so far (in
  reverse), or an open object with its members so far and the key that waits for its
  value.\<close>

datatype frame = InArr "jsval list" | InObj "(jsstring \<times> jsval) list" jsstring

datatype pstate =
    PValue            \<comment> \<open>a value must follow\<close>
  | PValueOrClose     \<comment> \<open>after \<open>[\<close>\<close>
  | PKeyOrClose "(jsstring \<times> jsval) list"  \<comment> \<open>after \<open>{\<close>\<close>
  | PKey "(jsstring \<times> jsval) list"         \<comment> \<open>after a comma in an object\<close>
  | PColon "(jsstring \<times> jsval) list" jsstring  \<comment> \<open>after a key\<close>
  | PAfter jsval      \<comment> \<open>a value is complete\<close>

fun parseTokens :: "pstate \<Rightarrow> frame list \<Rightarrow> token list \<Rightarrow> jsval option" where
  "parseTokens (PAfter v) [] [] = Some v"
| "parseTokens st stack [] = None"
| "parseTokens PValue stack (t # ts) =
     (case t of
        TValue v \<Rightarrow> parseTokens (PAfter v) stack ts
      | TLBrack \<Rightarrow> parseTokens PValueOrClose stack ts
      | TLBrace \<Rightarrow> parseTokens (PKeyOrClose []) stack ts
      | _ \<Rightarrow> None)"
| "parseTokens PValueOrClose stack (t # ts) =
     (case t of
        TRBrack \<Rightarrow> parseTokens (PAfter (JArr [])) stack ts
      | TValue v \<Rightarrow> parseTokens (PAfter v) (InArr [] # stack) ts
      | TLBrack \<Rightarrow> parseTokens PValueOrClose (InArr [] # stack) ts
      | TLBrace \<Rightarrow> parseTokens (PKeyOrClose []) (InArr [] # stack) ts
      | _ \<Rightarrow> None)"
| "parseTokens (PKeyOrClose kvs) stack (t # ts) =
     (case t of
        TRBrace \<Rightarrow> parseTokens (PAfter (JObj kvs)) stack ts
      | TValue (JStr k) \<Rightarrow> parseTokens (PColon kvs k) stack ts
      | _ \<Rightarrow> None)"
| "parseTokens (PKey kvs) stack (t # ts) =
     (case t of
        TValue (JStr k) \<Rightarrow> parseTokens (PColon kvs k) stack ts
      | _ \<Rightarrow> None)"
| "parseTokens (PColon kvs k) stack (t # ts) =
     (case t of
        TColon \<Rightarrow> parseTokens PValue (InObj kvs k # stack) ts
      | _ \<Rightarrow> None)"
| "parseTokens (PAfter v) [] (t # ts) = None"
| "parseTokens (PAfter v) (InArr vs # stack) (t # ts) =
     (case t of
        TComma \<Rightarrow> parseTokens PValue (InArr (v # vs) # stack) ts
      | TRBrack \<Rightarrow> parseTokens (PAfter (JArr (rev (v # vs)))) stack ts
      | _ \<Rightarrow> None)"
| "parseTokens (PAfter v) (InObj kvs k # stack) (t # ts) =
     (case t of
        TComma \<Rightarrow> parseTokens (PKey (AList.update k v kvs)) stack ts
      | TRBrace \<Rightarrow> parseTokens (PAfter (JObj (AList.update k v kvs))) stack ts
      | _ \<Rightarrow> None)"

definition JSON_parse :: "jsstring \<Rightarrow> jsval option" where
  "JSON_parse text = (case lex Between [] text of None \<Rightarrow> None | Some ts \<Rightarrow> parseTokens PValue [] ts)"


section \<open>Reading properties of a value\<close>

text \<open>
  \<open>v.name\<close> for the names the source reads (none of them is a property of a built-in
  prototype): a \<open>TypeError\<close>, here \<open>None\<close>, on \<open>null\<close> and \<open>undefined\<close>, the
  member of an object, and \<open>undefined\<close> otherwise. \<open>v?.name\<close> gives \<open>undefined\<close>
  instead of the error.
\<close>

definition getProp :: "jsval \<Rightarrow> jsstring \<Rightarrow> jsval option" where
  "getProp v name =
     (case v of
        JUndefined \<Rightarrow> None
      | JNull \<Rightarrow> None
      | JObj kvs \<Rightarrow> (case map_of kvs name of None \<Rightarrow> Some JUndefined | Some x \<Rightarrow> Some x)
      | _ \<Rightarrow> Some JUndefined)"

definition getPropOpt :: "jsval \<Rightarrow> jsstring \<Rightarrow> jsval" where
  "getPropOpt v name = (case getProp v name of None \<Rightarrow> JUndefined | Some x \<Rightarrow> x)"

text \<open>\<open>v[0]\<close> and \<open>v?.[0]\<close>: the first element of an array, the first code unit of a
  string, the member \<open>"0"\<close> of an object.\<close>

definition getFirst :: "jsval \<Rightarrow> jsval option" where
  "getFirst v =
     (case v of
        JUndefined \<Rightarrow> None
      | JNull \<Rightarrow> None
      | JArr xs \<Rightarrow> (case xs of [] \<Rightarrow> Some JUndefined | x # rest \<Rightarrow> Some x)
      | JStr s \<Rightarrow> (case s of [] \<Rightarrow> Some JUndefined | c # rest \<Rightarrow> Some (JStr [c]))
      | JObj kvs \<Rightarrow> (case map_of kvs (ascii ''0'') of None \<Rightarrow> Some JUndefined | Some x \<Rightarrow> Some x)
      | _ \<Rightarrow> Some JUndefined)"

definition getFirstOpt :: "jsval \<Rightarrow> jsval" where
  "getFirstOpt v = (case getFirst v of None \<Rightarrow> JUndefined | Some x \<Rightarrow> x)"

text \<open>\<open>v.length\<close> of a value that is neither \<open>null\<close> nor \<open>undefined\<close>.\<close>

definition getLength :: "jsval \<Rightarrow> jsval" where
  "getLength v =
     (case v of
        JArr xs \<Rightarrow> JNum (real (length xs))
      | JStr s \<Rightarrow> JNum (real (length s))
      | JObj kvs \<Rightarrow> (case map_of kvs (ascii ''length'') of None \<Rightarrow> JUndefined | Some x \<Rightarrow> x)
      | _ \<Rightarrow> JUndefined)"

section \<open>ai-service.ts: parsing a provider's answer\<close>

text \<open>\<open>/\{[\s\S]*\}/\<close>: from the first opening brace to the last closing brace after it.\<close>

definition re_jsonObject :: "jsstring \<Rightarrow> jsstring option" where
  "re_jsonObject response =
     (let fromBrace = dropWhile (\<lambda>c. c \<noteq> 0x7B) response;
          uptoBrace = rev (dropWhile (\<lambda>c. c \<noteq> 0x7D) (rev fromBrace))
      in if uptoBrace \<noteq> [] then Some uptoBrace else None)"

text \<open>The object that the first branch of \<open>parseAIResponse\<close> builds from the parsed
  value; \<open>None\<close> is a \<open>TypeError\<close> on reading a property.\<close>

definition parsedContent :: "jsval \<Rightarrow> AICommitContent option" where
  "parsedContent parsed =
     (case (getProp parsed (ascii ''type''), getProp parsed (ascii ''scope''),
            getProp parsed (ascii ''message''), getProp parsed (ascii ''confidence'')) of
        (Some t, Some s, Some m, Some c) \<Rightarrow>
          Some \<lparr>type = js_or t (JStr (ascii ''chore'')),
                scope = js_or s JUndefined,
                message = js_or m (JStr msg_update_code),
                confidence = js_or c (JNum 0.8)\<rparr>
      | _ \<Rightarrow> None)"

text \<open>\<open>(\([^)]+\))\<close> at the head of a text: the group and what follows it.\<close>

definition re_scopeGroup :: "jsstring \<Rightarrow> (jsstring \<times> jsstring) option" where
  "re_scopeGroup r =
     (case r of
        [] \<Rightarrow> None
      | c # r1 \<Rightarrow>
          (let inner = takeWhile (\<lambda>x. x \<noteq> 0x29) r1;
               after = dropWhile (\<lambda>x. x \<noteq> 0x29) r1
           in if c = 0x28 \<and> inner \<noteq> [] \<and> after \<noteq> []
              then Some (c # inner @ [0x29], tl after)
              else None))"

text \<open>\<open>: (.+)\<close> at the head of a text: the captured rest of the line.\<close>

definition re_colonMessage :: "jsstring \<Rightarrow> jsstring option" where
  "re_colonMessage r =
     (let m = takeWhile (\<lambda>c. \<not> isLineTerminator c) (drop 2 r)
      in if prefix (ascii '': '') r \<and> m \<noteq> [] then Some m else None)"

text \<open>What follows the type in the commit pattern: the optional group is tried first, and
  left out when the rest does not match after it.\<close>

definition re_afterType :: "jsstring \<Rightarrow> (jsstring \<times> jsstring) option" where
  "re_afterType r =
     (case (case re_scopeGroup r of
              None \<Rightarrow> None
            | Some (g, r') \<Rightarrow> map_option (\<lambda>m. (g, m)) (re_colonMessage r')) of
        Some gm \<Rightarrow> Some gm
      | None \<Rightarrow> map_option (\<lambda>m. ([], m)) (re_colonMessage r))"

text \<open>\<open>/^(feat|fix|...|revert)(\([^)]+\))?: (.+)/\<close>: the three groups. The types are
  tried in the order of the pattern.\<close>

definition re_commit :: "jsstring \<Rightarrow> (jsstring \<times> jsstring \<times> jsstring) option" where
  "re_commit response =
     (case List.map_filter
             (\<lambda>t. if prefix t response
                  then map_option (\<lambda>(g, m). (t, g, m)) (re_afterType (drop (length t) response))
                  else None)
             commitTypes of
        [] \<Rightarrow> None
      | x # rest \<Rightarrow> Some x)"

definition isQuoteChar :: "jschar \<Rightarrow> bool" where
  "isQuoteChar c = (c = DQUOTE \<or> c = 0x27 \<or> c = BACKTICK)"

text \<open>\<open>message.replace(/^["'`]+|["'`]+$/g, '')\<close>.\<close>

definition stripQuotes :: "jsstring \<Rightarrow> jsstring" where
  "stripQuotes m = rev (dropWhile isQuoteChar (rev (dropWhile isQuoteChar m)))"

text \<open>The second part of \<open>parseAIResponse\<close>, reached when no JSON object was read.\<close>

definition plainTextContent :: "jsstring \<Rightarrow> AICommitContent" where
  "plainTextContent response =
     (let firstLine = firstPart NEWLINE response;
          message0 = (if firstLine \<noteq> [] then firstLine else msg_update_code);
          (ty, scope, message) =
             (case re_commit response of
                Some (t, g, m) \<Rightarrow> (t, (if g \<noteq> [] then slice_1_m1 g else []), m)
              | None \<Rightarrow> (ascii ''chore'', [], message0))
      in \<lparr>type = JStr ty,
          scope = (if scope \<noteq> [] then JStr scope else JUndefined),
          message = JStr (trim (stripQuotes message)),
          confidence = JNum 0.7\<rparr>)"

definition parseAIResponse :: "jsstring \<Rightarrow> AICommitContent" where
  "parseAIResponse response =
     (case re_jsonObject response of
        None \<Rightarrow> plainTextContent response
      | Some jsonMatch \<Rightarrow>
          (case JSON_parse jsonMatch of
             None \<Rightarrow> plainTextContent response
           | Some parsed \<Rightarrow>
               (case parsedContent parsed of
                  None \<Rightarrow> plainTextContent response
                | Some content \<Rightarrow> content)))"

section \<open>ai-service.ts: the host and the network\<close>

text \<open>
  \<open>AIConfig\<close>. The provider is a text of the settings; the source's \<open>switch\<close>
  statements send every other text to their \<open>default\<close> branch.
\<close>

datatype provider = OpenAI | Anthropic | Gemini | LocalAI | Rules | OtherProvider jsstring

record AIConfig =
  provider :: provider
  apiKey :: "jsstring option"
  model :: "jsstring option"
  endpoint :: "jsstring option"

text \<open>\<open>!!s\<close> and \<open>s || d\<close> for an optional text.\<close>

definition isSet :: "jsstring option \<Rightarrow> bool" where
  "isSet s = (case s of None \<Rightarrow> False | Some t \<Rightarrow> t \<noteq> [])"

definition orDefault :: "jsstring option \<Rightarrow> jsstring \<Rightarrow> jsstring" where
  "orDefault s d = (case s of None \<Rightarrow> d | Some t \<Rightarrow> if t \<noteq> [] then t else d)"

text \<open>An error object with its name and its message, and \<open>String(error)\<close>.\<close>

datatype jserror = JSError jsstring jsstring

definition mkError :: "jsstring \<Rightarrow> jserror" where
  "mkError msg = JSError (ascii ''Error'') msg"

text \<open>The \<open>TypeError\<close> of the host on reading a property of \<open>null\<close> or
  \<open>undefined\<close> and on calling what is no function. Its wording is the host's.\<close>

definition typeError :: jserror where
  "typeError = JSError (ascii ''TypeError'') (ascii ''not an object or not a function'')"

fun errMessage :: "jserror \<Rightarrow> jsstring" where
  "errMessage (JSError n m) = m"

fun errorString :: "jserror \<Rightarrow> jsstring" where
  "errorString (JSError n m) =
     (if n = [] then m else if m = [] then n else n @ ascii '': '' @ m)"

text \<open>A request as \<open>fetch\<close> receives it; the body is the value that is handed to
  \<open>JSON.stringify\<close>, and \<open>timeout\<close> the milliseconds of \<open>AbortSignal.timeout\<close>.\<close>

record request =
  url :: jsstring
  httpMethod :: jsstring
  headers :: "(jsstring \<times> jsstring) list"
  body :: "jsval option"
  timeout :: nat

text \<open>What \<open>fetch\<close> gives: it throws (no connection, time limit), or it resolves to a
  response, whose \<open>json()\<close> and \<open>text()\<close> in turn resolve or throw.\<close>

record response =
  res_status :: nat
  res_statusText :: jsstring
  res_json :: "jserror + jsval"
  res_text :: "jserror + jsstring"

datatype fetch_result = Throws jserror | Responds response

definition res_ok :: "response \<Rightarrow> bool" where
  "res_ok r = (200 \<le> res_status r \<and> res_status r \<le> 299)"

text \<open>The host: its lower-casing, its \<open>JSON.stringify\<close> and the network, which answers
  each request. They are parameters of the model.\<close>

record host =
  toLowerCase :: "jsstring \<Rightarrow> jsstring"
  stringify :: "jsval \<Rightarrow> jsstring"
  fetch :: "request \<Rightarrow> fetch_result"

text \<open>The messages that the source shows through \<open>vscode.window\<close>, by their subject, and
  the effects of a generation in their order. \<open>console\<close> output, and what a warning does
  once the user has answered it, are left out.\<close>

datatype notice =
    LocalServiceUnreachable | OpenAIKeyMissing | GeminiKeyMissing | GeminiTruncated
  | GeminiSafetyBlocked | GeminiTooComplex | GeminiSummarising | GeminiQuotaExceeded

datatype event = Fetch request | ShowWarning notice | ShowInformation notice

text \<open>The decimal digits of a natural number, as a template literal writes it.\<close>

function showNat :: "nat \<Rightarrow> jsstring" where
  "showNat n = (if n < 10 then [0x30 + of_nat n] else showNat (n div 10) @ [0x30 + of_nat (n mod 10)])"
  by pat_completeness auto
termination
  by (relation "measure id") auto

definition joinWith :: "'a list \<Rightarrow> 'a list list \<Rightarrow> 'a list" where
  "joinWith sep xs = (case xs of [] \<Rightarrow> [] | x # rest \<Rightarrow> x @ concat (map (\<lambda>y. sep @ y) rest))"


section \<open>ai-service.ts: the condensed summary for Gemini\<close>

definition isLargeDiffForProvider :: "AIConfig \<Rightarrow> jsstring \<Rightarrow> bool" where
  "isLargeDiffForProvider cfg diffSummary =
     (case provider cfg of
        Gemini \<Rightarrow> length diffSummary > GEMINI_MAX_DIFF_LENGTH
      | OpenAI \<Rightarrow> length diffSummary > MAX_DIFF_LENGTH
      | Anthropic \<Rightarrow> length diffSummary > MAX_DIFF_LENGTH
      | LocalAI \<Rightarrow> 2 * length diffSummary > 3 * MAX_DIFF_LENGTH
      | _ \<Rightarrow> False)"

text \<open>The loop over the first three file lines, each followed by the statistics line of
  the same index when there is one.\<close>

fun fileSection :: "nat \<Rightarrow> jsstring list \<Rightarrow> jsstring list \<Rightarrow> jsstring" where
  "fileSection 0 fileLines statsLines = []"
| "fileSection (Suc n) [] statsLines = []"
| "fileSection (Suc n) (f # fileLines) [] = f @ [NEWLINE] @ fileSection n fileLines []"
| "fileSection (Suc n) (f # fileLines) (s # statsLines) =
     f @ [NEWLINE] @ s @ [NEWLINE] @ fileSection n fileLines statsLines"

definition isImportLine :: "jsstring \<Rightarrow> bool" where
  "isImportLine line =
     (str_includes line (ascii ''require('') \<or> str_includes line (ascii ''import '')
      \<or> str_includes line (ascii ''from ''))"

definition isFunctionLine :: "jsstring \<Rightarrow> bool" where
  "isFunctionLine line =
     (let l = trim line
      in (startsWith l (ascii ''+'') \<or> startsWith l (ascii ''-''))
         \<and> (str_includes l (ascii ''function '') \<or> str_includes l (ascii ''const '')
            \<or> str_includes l (ascii ''= async'') \<or> str_includes l (ascii ''= ('')
            \<or> str_includes l (ascii ''switch'') \<or> str_includes l (ascii ''case '')))"

text \<open>\<open>['"]([^'"]+)['"]\<close> at the head of a text: the group and what follows.\<close>

definition re_quoted :: "jsstring \<Rightarrow> (jsstring \<times> jsstring) option" where
  "re_quoted s =
     (case s of
        [] \<Rightarrow> None
      | q # r \<Rightarrow>
          (let inner = takeWhile (\<lambda>c. c \<noteq> 0x27 \<and> c \<noteq> DQUOTE) r;
               after = dropWhile (\<lambda>c. c \<noteq> 0x27 \<and> c \<noteq> DQUOTE) r
           in if (q = 0x27 \<or> q = DQUOTE) \<and> inner \<noteq> [] \<and> after \<noteq> []
              then Some (inner, tl after)
              else None))"

text \<open>\<open>/require\(['"]([^'"]+)['"]\)|from ['"]([^'"]+)['"]/\<close> at the head of a text:
  the group that matched.\<close>

definition re_module :: "jsstring \<Rightarrow> jsstring option" where
  "re_module s =
     (case (if prefix (ascii ''require('') s
            then (case re_quoted (drop 8 s) of
                    Some (inner, rest) \<Rightarrow> if prefix (ascii '')'') rest then Some inner else None
                  | None \<Rightarrow> None)
            else None) of
        Some inner \<Rightarrow> Some inner
      | None \<Rightarrow>
          (if prefix (ascii ''from '') s then map_option fst (re_quoted (drop 5 s)) else None))"

text \<open>\<open>line.replace(/^[+-]\s*/, '')\<close>.\<close>

definition stripDiffPrefix :: "jsstring \<Rightarrow> jsstring" where
  "stripDiffPrefix line =
     (case line of
        [] \<Rightarrow> []
      | c # r \<Rightarrow> if c = 0x2B \<or> c = 0x2D then dropWhile isWhiteSpace r else line)"

definition moduleName :: "jsstring \<Rightarrow> jsstring" where
  "moduleName line =
     (case search re_module line of
        Some m \<Rightarrow> m
      | None \<Rightarrow> trim (stripDiffPrefix line))"

text \<open>\<open>/function\s+(\w+)/\<close> and \<open>/const\s+(\w+)\s*=/\<close> at the head of a text: the
  group.\<close>

definition re_functionName :: "jsstring \<Rightarrow> jsstring option" where
  "re_functionName s =
     (let r = drop 8 s;
          w = takeWhile isWordChar (dropWhile isWhiteSpace r)
      in if prefix (ascii ''function'') s \<and> takeWhile isWhiteSpace r \<noteq> [] \<and> w \<noteq> []
         then Some w else None)"

definition re_constName :: "jsstring \<Rightarrow> jsstring option" where
  "re_constName s =
     (let r = drop 5 s;
          w = takeWhile isWordChar (dropWhile isWhiteSpace r);
          after = dropWhile isWhiteSpace (dropWhile isWordChar (dropWhile isWhiteSpace r))
      in if prefix (ascii ''const'') s \<and> takeWhile isWhiteSpace r \<noteq> [] \<and> w \<noteq> []
            \<and> prefix (ascii ''='') after
         then Some w else None)"

definition ellipsis :: "nat \<Rightarrow> jsstring \<Rightarrow> jsstring" where
  "ellipsis n clean = (if length clean > n then take n clean @ ascii ''...'' else clean)"

definition functionSummary :: "jsstring \<Rightarrow> jsstring" where
  "functionSummary line =
     (let clean = trim (stripDiffPrefix line)
      in if str_includes clean (ascii ''function '') then
           (case search re_functionName clean of
              Some w \<Rightarrow> w @ ascii ''()''
            | None \<Rightarrow> tr_new_function)
         else if str_includes clean (ascii ''const '') \<and> str_includes clean (ascii ''='') then
           (case search re_constName clean of
              Some w \<Rightarrow> w @ ascii ''()''
            | None \<Rightarrow> tr_new_const)
         else if str_includes clean (ascii ''switch'') \<or> str_includes clean (ascii ''case'') then
           ellipsis 50 clean
         else ellipsis 40 clean)"

text \<open>\<open>/head\s*sign(\d+)/\<close> at the head of a text: the digits.\<close>

definition re_total :: "jsstring \<Rightarrow> jschar \<Rightarrow> jsstring \<Rightarrow> jsstring option" where
  "re_total head sign s =
     (let r = dropWhile isWhiteSpace (drop (length head) s);
          ds = takeWhile isDigit (drop 1 r)
      in if prefix head s \<and> prefix [sign] r \<and> ds \<noteq> [] then Some ds else None)"

definition totalOf :: "jsstring \<Rightarrow> jschar \<Rightarrow> jsstring list \<Rightarrow> nat" where
  "totalOf head sign lines =
     foldl (\<lambda>sum line. sum + (case search (re_total head sign) line of
                                 Some ds \<Rightarrow> parseInt ds
                               | None \<Rightarrow> 0))
       0 (filter (\<lambda>l. str_includes l head) lines)"

text \<open>The loop that keeps the sections while they fit in \<open>maxLength - 50\<close>.\<close>

fun keepSections :: "nat \<Rightarrow> nat \<Rightarrow> jsstring list \<Rightarrow> jsstring" where
  "keepSections maxLength currentLength [] = []"
| "keepSections maxLength currentLength (section # rest) =
     (if currentLength + length section + 1 \<le> maxLength - 50
      then section @ [NEWLINE] @ keepSections maxLength (currentLength + length section + 1) rest
      else [])"

text \<open>\<open>truncateDiffForGemini\<close>. The list \<open>structuralLines\<close> of the source is computed
  and never read; it is left out.\<close>

definition truncateDiffForGemini :: "jsstring \<Rightarrow> jsstring" where
  "truncateDiffForGemini diffSummary =
     (let maxLength = GEMINI_SUMMARY_LENGTH
      in if length diffSummary \<le> maxLength then diffSummary
         else
           let lines = split NEWLINE diffSummary;
               fileLines = filter (\<lambda>line. str_includes line zh_file) lines;
               statsLines = filter (\<lambda>line. str_includes line zh_added \<and> str_includes line zh_deleted) lines;
               summary1 = fileSection 3 fileLines statsLines;
               importLines = filter isImportLine lines;
               functionLines = filter isFunctionLine lines;
               summary2 = (if length importLines > 0
                           then summary1 @ tr_modules
                                  @ joinWith (ascii '', '')
                                      (filter (\<lambda>m. length m > 0) (map moduleName (take 5 importLines)))
                                  @ [NEWLINE]
                           else summary1);
               summary3 = (if length functionLines > 0
                           then summary2 @ tr_functions
                                  @ joinWith (ascii '', '')
                                      (filter (\<lambda>f. length f > 3) (map functionSummary (take 8 functionLines)))
                                  @ [NEWLINE]
                           else summary2);
               totalAdded = totalOf zh_added 0x2B lines;
               totalDeleted = totalOf zh_deleted 0x2D lines;
               summary4 = (if totalAdded > 0 \<or> totalDeleted > 0
                           then summary3 @ tr_scale @ showNat totalAdded @ ascii ''/-''
                                  @ showNat totalDeleted @ tr_lines
                           else summary3)
           in if length summary4 > maxLength
              then keepSections maxLength 0 (filter (\<lambda>line. trim line \<noteq> []) (split NEWLINE summary4))
                     @ tr_summary_open @ showNat (length diffSummary) @ tr_summary_close
              else summary4)"

definition createGeminiPrompt :: "AIConfig \<Rightarrow> jsstring \<Rightarrow> jsstring" where
  "createGeminiPrompt cfg diffSummary =
     (if (case model cfg of None \<Rightarrow> False | Some m \<Rightarrow> str_includes m (ascii ''2.5-pro''))
      then diffSummary @ gp_direct
      else gp_head @ diffSummary @ gp_tail)"

section \<open>ai-service.ts: the providers\<close>

text \<open>The result of an asynchronous method: the error it throws or the value it resolves
  to, and the effects it had, in order.\<close>

type_synonym 'a outcome = "(jserror + 'a) \<times> event list"

text \<open>\<open>parseAIResponse(content)\<close> for a content that is any value: on a value that is
  no string, \<open>response.split\<close> is no function and the call throws.\<close>

definition parseAIResponseOf :: "jsval \<Rightarrow> jserror + AICommitContent" where
  "parseAIResponseOf content =
     (case content of JStr s \<Rightarrow> Inr (parseAIResponse s) | _ \<Rightarrow> Inl typeError)"

text \<open>The end of each provider method: \<open>if (!content) throw ...; return
  parseAIResponse(content)\<close>, where reading the content may have thrown (\<open>None\<close>).\<close>

definition contentResult :: "jsstring \<Rightarrow> jsval option \<Rightarrow> jserror + AICommitContent" where
  "contentResult noContent c =
     (case c of
        None \<Rightarrow> Inl typeError
      | Some content \<Rightarrow>
          if \<not> truthy content then Inl (mkError noContent) else parseAIResponseOf content)"

definition jsonHeaders :: "(jsstring \<times> jsstring) list" where
  "jsonHeaders = [(ascii ''Content-Type'', ascii ''application/json'')]"

subsection \<open>OpenAI\<close>

definition openaiRequest :: "AIConfig \<Rightarrow> jsstring \<Rightarrow> request" where
  "openaiRequest cfg diffSummary =
     \<lparr>url = ascii ''https://api.openai.com/v1/chat/completions'',
      httpMethod = ascii ''POST'',
      headers = jsonHeaders @ [(ascii ''Authorization'', ascii ''Bearer '' @ orDefault (apiKey cfg) [])],
      body = Some (JObj
        [(ascii ''model'', JStr (orDefault (model cfg) DEFAULT_MODEL)),
         (ascii ''messages'', JArr
            [JObj [(ascii ''role'', JStr (ascii ''system'')), (ascii ''content'', JStr PROMPT_SYSTEM)],
             JObj [(ascii ''role'', JStr (ascii ''user'')),
                   (ascii ''content'', JStr (PROMPT_USER_PREFIX @ diffSummary))]]),
         (ascii ''temperature'', JNum 0.3),
         (ascii ''max_tokens'', JNum 200)]),
      timeout = 30000\<rparr>"

text \<open>\<open>data.choices[0]?.message?.content\<close>.\<close>

definition openaiContent :: "jsval \<Rightarrow> jsval option" where
  "openaiContent data =
     (case getProp data (ascii ''choices'') of
        None \<Rightarrow> None
      | Some choices \<Rightarrow>
          (case getFirst choices of
             None \<Rightarrow> None
           | Some first \<Rightarrow> Some (getPropOpt (getPropOpt first (ascii ''message'')) (ascii ''content''))))"

definition generateWithOpenAI :: "AIConfig \<Rightarrow> host \<Rightarrow> jsstring \<Rightarrow> AICommitContent outcome" where
  "generateWithOpenAI cfg h diffSummary =
     (if \<not> isSet (apiKey cfg) then (Inl (mkError (ascii ''OpenAI API key not configured'')), [])
      else
        let req = openaiRequest cfg diffSummary
        in ((case fetch h req of
               Throws e \<Rightarrow> Inl e
             | Responds r \<Rightarrow>
                 if \<not> res_ok r then Inl (mkError (ascii ''OpenAI API error: '' @ res_statusText r))
                 else
                   (case res_json r of
                      Inl e \<Rightarrow> Inl e
                    | Inr data \<Rightarrow>
                        contentResult (ascii ''No content received from OpenAI'') (openaiContent data))),
            [Fetch req]))"

subsection \<open>Anthropic\<close>

definition anthropicRequest :: "AIConfig \<Rightarrow> jsstring \<Rightarrow> request" where
  "anthropicRequest cfg diffSummary =
     \<lparr>url = ascii ''https://api.anthropic.com/v1/messages'',
      httpMethod = ascii ''POST'',
      headers = jsonHeaders @ [(ascii ''x-api-key'', orDefault (apiKey cfg) []),
                               (ascii ''anthropic-version'', ascii ''2023-06-01'')],
      body = Some (JObj
        [(ascii ''model'', JStr (orDefault (model cfg) (ascii ''claude-3-haiku-20240307''))),
         (ascii ''max_tokens'', JNum 200),
         (ascii ''messages'', JArr
            [JObj [(ascii ''role'', JStr (ascii ''user'')),
                   (ascii ''content'',
                    JStr (PROMPT_SYSTEM @ [NEWLINE, NEWLINE] @ PROMPT_USER_PREFIX @ diffSummary))]])]),
      timeout = 30000\<rparr>"

text \<open>\<open>data.content[0]?.text\<close>.\<close>

definition anthropicContent :: "jsval \<Rightarrow> jsval option" where
  "anthropicContent data =
     (case getProp data (ascii ''content'') of
        None \<Rightarrow> None
      | Some content \<Rightarrow>
          (case getFirst content of
             None \<Rightarrow> None
           | Some first \<Rightarrow> Some (getPropOpt first (ascii ''text''))))"

definition generateWithAnthropic :: "AIConfig \<Rightarrow> host \<Rightarrow> jsstring \<Rightarrow> AICommitContent outcome" where
  "generateWithAnthropic cfg h diffSummary =
     (if \<not> isSet (apiKey cfg) then (Inl (mkError (ascii ''Anthropic API key not configured'')), [])
      else
        let req = anthropicRequest cfg diffSummary
        in ((case fetch h req of
               Throws e \<Rightarrow> Inl e
             | Responds r \<Rightarrow>
                 if \<not> res_ok r then Inl (mkError (ascii ''Anthropic API error: '' @ res_statusText r))
                 else
                   (case res_json r of
                      Inl e \<Rightarrow> Inl e
                    | Inr data \<Rightarrow>
                        contentResult (ascii ''No content received from Anthropic'')
                          (anthropicContent data))),
            [Fetch req]))"

subsection \<open>The local endpoint\<close>

definition localTestRequest :: "AIConfig \<Rightarrow> request" where
  "localTestRequest cfg =
     \<lparr>url = replaceFirst (ascii ''/api/generate'') (ascii ''/api/tags'') (orDefault (endpoint cfg) []),
      httpMethod = ascii ''GET'', headers = [], body = None, timeout = 5000\<rparr>"

definition localRequest :: "AIConfig \<Rightarrow> jsstring \<Rightarrow> request" where
  "localRequest cfg diffSummary =
     \<lparr>url = orDefault (endpoint cfg) [],
      httpMethod = ascii ''POST'',
      headers = jsonHeaders,
      body = Some (JObj
        [(ascii ''model'', JStr (orDefault (model cfg) (ascii ''codellama''))),
         (ascii ''prompt'',
          JStr (PROMPT_SYSTEM @ [NEWLINE, NEWLINE] @ PROMPT_USER_PREFIX @ diffSummary)),
         (ascii ''stream'', JBool False),
         (ascii ''options'', JObj [(ascii ''temperature'', JNum 0.3), (ascii ''num_predict'', JNum 200)])]),
      timeout = 30000\<rparr>"

text \<open>\<open>data.response || data.text || data.content\<close>.\<close>

definition localContent :: "jsval \<Rightarrow> jsval option" where
  "localContent data =
     (case (getProp data (ascii ''response''), getProp data (ascii ''text''),
            getProp data (ascii ''content'')) of
        (Some r, Some t, Some c) \<Rightarrow> Some (js_or (js_or r t) c)
      | _ \<Rightarrow> None)"

text \<open>The connection test: whatever goes wrong inside its \<open>try\<close> is thrown again as one
  and the same error.\<close>

definition localTestPasses :: "host \<Rightarrow> request \<Rightarrow> bool" where
  "localTestPasses h testReq =
     (case fetch h testReq of Throws e \<Rightarrow> False | Responds r \<Rightarrow> res_ok r)"

definition generateWithLocalAI :: "AIConfig \<Rightarrow> host \<Rightarrow> jsstring \<Rightarrow> AICommitContent outcome" where
  "generateWithLocalAI cfg h diffSummary =
     (if \<not> isSet (endpoint cfg) then (Inl (mkError (ascii ''Local AI endpoint not configured'')), [])
      else
        let testReq = localTestRequest cfg;
            req = localRequest cfg diffSummary
        in if \<not> localTestPasses h testReq then
             (Inl (mkError (ascii ''Cannot connect to local AI service at '' @ orDefault (endpoint cfg) []
                     @ ascii ''. Please check if Ollama or your local AI is running.'')),
              [Fetch testReq])
           else
             ((case fetch h req of
                 Throws e \<Rightarrow> Inl e
               | Responds r \<Rightarrow>
                   if \<not> res_ok r then Inl (mkError (ascii ''Local AI error: '' @ res_statusText r))
                   else
                     (case res_json r of
                        Inl e \<Rightarrow> Inl e
                      | Inr data \<Rightarrow>
                          contentResult (ascii ''No content received from local AI'') (localContent data))),
              [Fetch testReq, Fetch req]))"

subsection \<open>Gemini\<close>

definition geminiModel :: "AIConfig \<Rightarrow> jsstring" where
  "geminiModel cfg = orDefault (model cfg) (ascii ''gemini-1.5-flash'')"

definition geminiTestRequest :: "AIConfig \<Rightarrow> request" where
  "geminiTestRequest cfg =
     \<lparr>url = ascii ''https://generativelanguage.googleapis.com/v1beta/models?key='' @ orDefault (apiKey cfg) [],
      httpMethod = ascii ''GET'', headers = [], body = None, timeout = 5000\<rparr>"

definition geminiRequest :: "AIConfig \<Rightarrow> jsstring \<Rightarrow> request" where
  "geminiRequest cfg fullPrompt =
     \<lparr>url = ascii ''https://generativelanguage.googleapis.com/v1beta/models/'' @ geminiModel cfg
              @ ascii '':generateContent?key='' @ orDefault (apiKey cfg) [],
      httpMethod = ascii ''POST'',
      headers = jsonHeaders,
      body = Some (JObj
        [(ascii ''contents'', JArr
            [JObj [(ascii ''role'', JStr (ascii ''user'')),
                   (ascii ''parts'', JArr [JObj [(ascii ''text'', JStr fullPrompt)]])]]),
         (ascii ''generationConfig'', JObj
            [(ascii ''temperature'', JNum 0.1), (ascii ''topP'', JNum 0.4), (ascii ''topK'', JNum 3),
             (ascii ''candidateCount'', JNum 1)]),
         (ascii ''safetySettings'', JArr
            [JObj [(ascii ''category'', JStr (ascii ''HARM_CATEGORY_HARASSMENT'')),
                   (ascii ''threshold'', JStr (ascii ''BLOCK_MEDIUM_AND_ABOVE''))],
             JObj [(ascii ''category'', JStr (ascii ''HARM_CATEGORY_HATE_SPEECH'')),
                   (ascii ''threshold'', JStr (ascii ''BLOCK_MEDIUM_AND_ABOVE''))]])]),
      timeout = 30000\<rparr>"

text \<open>The test of the API key: \<open>None\<close> when it passes, and otherwise the error that the
  \<open>catch\<close> of the test throws, which quotes the error caught.\<close>

definition geminiKeyTest :: "AIConfig \<Rightarrow> host \<Rightarrow> jserror option" where
  "geminiKeyTest cfg h =
     (let caught =
            (case fetch h (geminiTestRequest cfg) of
               Throws e \<Rightarrow> Some e
             | Responds r \<Rightarrow>
                 if res_ok r then None
                 else
                   (case res_text r of
                      Inl e \<Rightarrow> Some e
                    | Inr errorText \<Rightarrow>
                        Some (mkError (ascii ''Gemini API key validation failed: ''
                                @ showNat (res_status r) @ ascii '' - '' @ errorText))))
      in map_option
           (\<lambda>e. mkError (ascii ''Cannot connect to Google Gemini: '' @ errorString e
                    @ ascii ''. Please check your API key and internet connection.''))
           caught)"

text \<open>The content of a Gemini answer, by the four places the source looks at in turn; the
  empty text when none holds a truthy value.\<close>

definition geminiContent :: "jsval \<Rightarrow> jsval \<Rightarrow> jsval" where
  "geminiContent data candidate =
     (let primary = getPropOpt (getFirstOpt (getPropOpt (getPropOpt candidate (ascii ''content''))
                                   (ascii ''parts''))) (ascii ''text'')
      in if truthy primary then primary
         else if truthy (getPropOpt candidate (ascii ''output'')) then getPropOpt candidate (ascii ''output'')
         else if truthy (getPropOpt data (ascii ''text'')) then getPropOpt data (ascii ''text'')
         else if truthy (getPropOpt candidate (ascii ''text'')) then getPropOpt candidate (ascii ''text'')
         else JStr [])"

text \<open>What \<open>generateWithGemini\<close> does with the parsed body of a successful answer.\<close>

definition geminiAnswer :: "host \<Rightarrow> jsstring \<Rightarrow> jsval \<Rightarrow> jserror + AICommitContent" where
  "geminiAnswer h diffSummary data =
     (case getProp data (ascii ''candidates'') of
        None \<Rightarrow> Inl typeError
      | Some candidates \<Rightarrow>
          if truthy candidates \<and> getLength candidates = JNum 0 then
            Inl (mkError (ascii ''Gemini API returned no candidates. Check your API key and quota.''))
          else
            let candidate = getFirstOpt candidates;
                finishReason = getPropOpt candidate (ascii ''finishReason'');
                content = geminiContent data candidate
            in if finishReason = JStr (ascii ''MAX_TOKENS'') then
                 Inr (generateWithEnhancedRules (toLowerCase h) diffSummary)
               else if finishReason = JStr (ascii ''SAFETY'') then
                 Inl (mkError (ascii ''Gemini blocked the response due to safety concerns. Try a different input.''))
               else if finishReason = JStr (ascii ''RECITATION'') then
                 Inl (mkError (ascii ''Gemini blocked the response due to recitation concerns.''))
               else if \<not> truthy content then
                 Inl (mkError (ascii ''No content received from Google Gemini. Response structure: ''
                        @ stringify h data))
               else parseAIResponseOf content)"

text \<open>What \<open>generateWithGemini\<close> does with the response to the generation request.\<close>

definition geminiResponse ::
  "host \<Rightarrow> jsstring \<Rightarrow> response \<Rightarrow> AICommitContent outcome" where
  "geminiResponse h diffSummary r =
     (if \<not> res_ok r then
        (case res_text r of
           Inl e \<Rightarrow> (Inl e, [])
         | Inr errorText \<Rightarrow>
             if res_status r = 429 then
               (Inr (generateWithEnhancedRules (toLowerCase h) diffSummary),
                [ShowWarning GeminiQuotaExceeded])
             else
               (Inl (mkError (ascii ''Google Gemini API error: '' @ showNat (res_status r) @ ascii '' ''
                       @ res_statusText r @ ascii '' - '' @ errorText)), []))
      else
        (case res_json r of
           Inl e \<Rightarrow> (Inl e, [])
         | Inr data \<Rightarrow> (geminiAnswer h diffSummary data, [])))"

definition generateWithGemini :: "AIConfig \<Rightarrow> host \<Rightarrow> jsstring \<Rightarrow> AICommitContent outcome" where
  "generateWithGemini cfg h diffSummary =
     (if \<not> isSet (apiKey cfg) then (Inl (mkError (ascii ''Google Gemini API key not configured'')), [])
      else
        let large = length diffSummary > GEMINI_MAX_DIFF_LENGTH;
            processedDiff = (if large then truncateDiffForGemini diffSummary else diffSummary)
        in if large \<and> 2 * length processedDiff > 3 * GEMINI_SUMMARY_LENGTH then
             (Inr (generateWithEnhancedRules (toLowerCase h) diffSummary),
              [ShowInformation GeminiTooComplex])
           else
             let shown = (if large then [ShowInformation GeminiSummarising] else []);
                 testReq = geminiTestRequest cfg;
                 req = geminiRequest cfg (createGeminiPrompt cfg processedDiff)
             in case geminiKeyTest cfg h of
                  Some e \<Rightarrow> (Inl e, shown @ [Fetch testReq])
                | None \<Rightarrow>
                    (case fetch h req of
                       Throws e \<Rightarrow> (Inl e, shown @ [Fetch testReq, Fetch req])
                     | Responds r \<Rightarrow>
                         (fst (geminiResponse h diffSummary r),
                          shown @ [Fetch testReq, Fetch req] @ snd (geminiResponse h diffSummary r))))"

subsection \<open>The gateway\<close>

text \<open>\<open>showProviderError\<close>: the warning it shows, if any.\<close>

definition showProviderError :: "AIConfig \<Rightarrow> jserror \<Rightarrow> event list" where
  "showProviderError cfg error =
     (let errorMessage = (if errMessage error \<noteq> [] then errMessage error else errorString error)
      in if provider cfg = LocalAI \<and> str_includes errorMessage (ascii ''fetch failed'') then
           [ShowWarning LocalServiceUnreachable]
         else if provider cfg = OpenAI \<and> str_includes errorMessage (ascii ''API key'') then
           [ShowWarning OpenAIKeyMissing]
         else if provider cfg = Gemini \<and> str_includes errorMessage (ascii ''API key'') then
           [ShowWarning GeminiKeyMissing]
         else if provider cfg = Gemini
                 \<and> str_includes errorMessage (ascii ''truncated due to token limit'') then
           [ShowWarning GeminiTruncated]
         else if provider cfg = Gemini \<and> str_includes errorMessage (ascii ''safety concerns'') then
           [ShowWarning GeminiSafetyBlocked]
         else [])"

text \<open>The \<open>switch\<close> inside the \<open>try\<close> of \<open>generateCommitContent\<close>.\<close>

definition callProvider :: "AIConfig \<Rightarrow> host \<Rightarrow> jsstring \<Rightarrow> AICommitContent outcome" where
  "callProvider cfg h diffSummary =
     (case provider cfg of
        OpenAI \<Rightarrow> generateWithOpenAI cfg h diffSummary
      | Anthropic \<Rightarrow> generateWithAnthropic cfg h diffSummary
      | Gemini \<Rightarrow> generateWithGemini cfg h diffSummary
      | LocalAI \<Rightarrow> generateWithLocalAI cfg h diffSummary
      | _ \<Rightarrow> (Inr (generateWithEnhancedRules (toLowerCase h) diffSummary), []))"

definition generateCommitContent :: "AIConfig \<Rightarrow> host \<Rightarrow> jsstring \<Rightarrow> AICommitContent outcome" where
  "generateCommitContent cfg h diffSummary =
     (if trim diffSummary = [] then (Inl (mkError NO_STAGED_FILES), [])
      else if isLargeDiffForProvider cfg diffSummary \<and> provider cfg \<noteq> Gemini then
        (Inr (generateWithEnhancedRules (toLowerCase h) diffSummary), [])
      else
        (case callProvider cfg h diffSummary of
           (Inr content, events) \<Rightarrow> (Inr content, events)
         | (Inl error, events) \<Rightarrow>
             (Inr (generateWithEnhancedRules (toLowerCase h) diffSummary),
              events @ showProviderError cfg error)))"

text \<open>The requests among the effects, in order.\<close>

fun requestsOf :: "event list \<Rightarrow> request list" where
  "requestsOf [] = []"
| "requestsOf (Fetch r # es) = r # requestsOf es"
| "requestsOf (e # es) = requestsOf es"

text \<open>A host without a network, and configurations, for the concrete cases below.\<close>

definition offlineHost :: host where
  "offlineHost =
     \<lparr>toLowerCase = asciiLower,
      stringify = (\<lambda>v. []),
      fetch = (\<lambda>r. Throws (JSError (ascii ''TypeError'') (ascii ''fetch failed'')))\<rparr>"

definition configFor :: "provider \<Rightarrow> AIConfig" where
  "configFor p =
     \<lparr>provider = p, apiKey = Some (ascii ''key''), model = None,
      endpoint = Some (ascii ''http://localhost:11434/api/generate'')\<rparr>"

section \<open>The classification precedence as the specification words it\<close>

text \<open>The eleven rules of the specification, in its order, each a condition on the signals
  and the result it gives; the first rule whose condition holds decides, and the last rule
  is the default. This definition follows the specification, not the source;
  \<open>determineCommitType\<close> above is the source.\<close>

definition classificationRules ::
  "(jsstring \<Rightarrow> jsstring) \<Rightarrow> jsstring list \<Rightarrow> ContentAnalysis \<Rightarrow> ChangeStats
     \<Rightarrow> (bool \<times> jsstring \<times> real) list" where
  "classificationRules lower filePatterns flags stats =
     [(hasTestFiles filePatterns \<and> hasTests flags, ascii ''test'', 0.9),
      (hasDocFiles lower filePatterns \<and> hasDocs flags, ascii ''docs'', 0.9),
      (hasBugFix flags, ascii ''fix'', 0.85),
      (additions stats > 2 * deletions stats \<and> hasNewFeature flags, ascii ''feat'', 0.85),
      (hasRefactor flags, ascii ''refactor'', 0.8),
      (hasStyleFiles filePatterns \<and> hasStyles flags, ascii ''style'', 0.8),
      ((hasConfigFiles filePatterns \<or> hasConfig flags)
         \<and> list_ex (\<lambda>f. str_includes f (ascii ''package.json'')) filePatterns, ascii ''build'', 0.8),
      (hasConfigFiles filePatterns \<or> hasConfig flags, ascii ''chore'', 0.75),
      (additions stats = 0 \<and> deletions stats > 0, ascii ''refactor'', 0.7),
      (additions stats > 2 * deletions stats \<and> \<not> hasNewFeature flags, ascii ''feat'', 0.7),
      (fileCount stats = 1, ascii ''fix'', 0.65),
      (True, ascii ''chore'', 0.6)]"

definition firstMatch :: "(bool \<times> 'a) list \<Rightarrow> 'a option" where
  "firstMatch rules = map_option snd (find fst rules)"

text \<open>Where the content that a generation returns can come from: the rule-based generation
  on the same diff text, or \<open>parseAIResponse\<close> on some text.\<close>

definition fromRulesOrAnswer :: "host \<Rightarrow> jsstring \<Rightarrow> AICommitContent \<Rightarrow> bool" where
  "fromRulesOrAnswer h d x = (x = generateWithEnhancedRules (toLowerCase h) d \<or> (\<exists>s. x = parseAIResponse s))"


section \<open>Invariant of the token automaton on an object\<close>

text \<open>The stack of open containers has an object at its bottom (\<open>objStack\<close>), or is empty
  while the automaton is inside or just after the outermost object (\<open>objState\<close>). Used to
  show that a text which starts with an opening brace parses to an object or not at all.\<close>

definition objStack :: "frame list \<Rightarrow> bool" where
  "objStack stack = (stack \<noteq> [] \<and> (case last stack of InObj kvs k \<Rightarrow> True | InArr vs \<Rightarrow> False))"

fun objState :: "pstate \<Rightarrow> bool" where
  "objState (PKeyOrClose kvs) = True"
| "objState (PKey kvs) = True"
| "objState (PColon kvs k) = True"
| "objState (PAfter (JObj kvs)) = True"
| "objState st = False"

section \<open>A sample diff summary\<close>

text \<open>A diff summary of 3041 code units, for the concrete cases below: a file line, a
  statistics line, an added function, and a last line of 3000 letters.\<close>

definition filler :: "nat \<Rightarrow> jsstring" where
  "filler n = replicate n 0x61"

definition sampleLine1 :: jsstring where "sampleLine1 = zh_file_sp @ ascii ''a.ts''"
definition sampleLine2 :: jsstring where
  "sampleLine2 = zh_added_plus @ ascii ''5 '' @ zh_deleted_minus @ ascii ''2''"
definition sampleLine3 :: jsstring where "sampleLine3 = ascii ''+function foo() {''"

definition sampleDiff :: jsstring where
  "sampleDiff = sampleLine1 @ [NEWLINE] @ sampleLine2 @ [NEWLINE] @ sampleLine3 @ [NEWLINE] @ filler 3000"

definition sampleSummary :: jsstring where
  "sampleSummary = sampleLine1 @ [NEWLINE] @ sampleLine2 @ [NEWLINE]
     @ tr_functions @ ascii ''foo()'' @ [NEWLINE] @ tr_scale @ ascii ''5/-2'' @ tr_lines"

text \<open>A host whose network answers every request with the status 200 and one Gemini
  candidate.\<close>

definition answeringHost :: host where
  "answeringHost =
     \<lparr>toLowerCase = asciiLower,
      stringify = (\<lambda>v. []),
      fetch = (\<lambda>r. Responds
        \<lparr>res_status = 200, res_statusText = ascii ''OK'',
         res_json = Inr (JObj [(ascii ''candidates'', JArr
           [JObj [(ascii ''content'', JObj [(ascii ''parts'', JArr
              [JObj [(ascii ''text'', JStr (ascii ''docs: update readme''))]])])]])]),
         res_text = Inr []\<rparr>)\<rparr>"

section \<open>The contract of the gateway\<close>

text \<open>A content is valid when it has the shape of the interface \<open>AICommitContent\<close>:
  \<open>type: string; scope?: string; message: string; confidence: number\<close>. This definition
  follows the data model of the specification and the interface, not a function of the
  source.\<close>

definition isStr :: "jsval \<Rightarrow> bool" where
  "isStr v = (case v of JStr s \<Rightarrow> True | _ \<Rightarrow> False)"

definition isNum :: "jsval \<Rightarrow> bool" where
  "isNum v = (case v of JNum x \<Rightarrow> True | _ \<Rightarrow> False)"

definition validContent :: "AICommitContent \<Rightarrow> bool" where
  "validContent c =
     (isStr (type c) \<and> (scope c = JUndefined \<or> isStr (scope c)) \<and> isStr (message c)
      \<and> isNum (confidence c))"

text \<open>The request that carries the diff text, or for Gemini the prompt made from it or from
  its condensed summary, to the configured provider; none for \<open>rules\<close> and for an unknown
  provider.\<close>

definition generationRequest :: "AIConfig \<Rightarrow> jsstring \<Rightarrow> request option" where
  "generationRequest cfg diffSummary =
     (case provider cfg of
        OpenAI \<Rightarrow> Some (openaiRequest cfg diffSummary)
      | Anthropic \<Rightarrow> Some (anthropicRequest cfg diffSummary)
      | Gemini \<Rightarrow>
          Some (geminiRequest cfg (createGeminiPrompt cfg
                  (if length diffSummary > GEMINI_MAX_DIFF_LENGTH
                   then truncateDiffForGemini diffSummary else diffSummary)))
      | LocalAI \<Rightarrow> Some (localRequest cfg diffSummary)
      | _ \<Rightarrow> None)"

text \<open>The conditions under which the method of the configured provider sends that request:
  the diff text is not above the threshold of the size check (Gemini is exempt from it), the
  key, or the endpoint of \<open>local\<close>, is configured, the connection test of \<open>local\<close> and
  the key test of Gemini pass, and the condensed summary of Gemini is within its
  ceiling.\<close>

definition reachesProvider :: "AIConfig \<Rightarrow> host \<Rightarrow> jsstring \<Rightarrow> bool" where
  "reachesProvider cfg h diffSummary =
     (case provider cfg of
        OpenAI \<Rightarrow> \<not> isLargeDiffForProvider cfg diffSummary \<and> isSet (apiKey cfg)
      | Anthropic \<Rightarrow> \<not> isLargeDiffForProvider cfg diffSummary \<and> isSet (apiKey cfg)
      | LocalAI \<Rightarrow>
          \<not> isLargeDiffForProvider cfg diffSummary \<and> isSet (endpoint cfg)
          \<and> localTestPasses h (localTestRequest cfg)
      | Gemini \<Rightarrow>
          isSet (apiKey cfg)
          \<and> \<not> (length diffSummary > GEMINI_MAX_DIFF_LENGTH
                \<and> 2 * length (truncateDiffForGemini diffSummary) > 3 * GEMINI_SUMMARY_LENGTH)
          \<and> geminiKeyTest cfg h = None
      | _ \<Rightarrow> False)"

text \<open>The value that the method of the configured provider reads from the parsed body as
  the answer, before it looks at it: \<open>data.choices[0]?.message?.content\<close>,
  \<open>data.content[0]?.text\<close>, \<open>data.response || data.text || data.content\<close>, and for
  Gemini the four places of \<open>geminiContent\<close> on the first candidate of a list of candidates
  that is not empty; \<open>None\<close> when the method throws before it has the value. The finish
  reason of Gemini is read from the same first candidate.\<close>

definition answerValue :: "AIConfig \<Rightarrow> jsval \<Rightarrow> jsval option" where
  "answerValue cfg data =
     (case provider cfg of
        OpenAI \<Rightarrow> openaiContent data
      | Anthropic \<Rightarrow> anthropicContent data
      | LocalAI \<Rightarrow> localContent data
      | Gemini \<Rightarrow>
          (case getProp data (ascii ''candidates'') of
             None \<Rightarrow> None
           | Some candidates \<Rightarrow>
               if truthy candidates \<and> getLength candidates = JNum 0 then None
               else Some (geminiContent data (getFirstOpt candidates)))
      | _ \<Rightarrow> None)"

definition geminiFinishReason :: "jsval \<Rightarrow> jsval" where
  "geminiFinishReason data =
     getPropOpt (getFirstOpt (getPropOpt data (ascii ''candidates''))) (ascii ''finishReason'')"

text \<open>Hosts for the concrete cases below. The first answers every request with the status
  200 and one OpenAI choice whose message holds the given text. The second answers the test
  of a Gemini key with the status 200 and every other request with the given status and the
  given parsed body.\<close>

definition openaiHost :: "jsstring \<Rightarrow> host" where
  "openaiHost answer =
     \<lparr>toLowerCase = asciiLower,
      stringify = (\<lambda>v. []),
      fetch = (\<lambda>r. Responds
        \<lparr>res_status = 200, res_statusText = ascii ''OK'',
         res_json = Inr (JObj [(ascii ''choices'', JArr
           [JObj [(ascii ''message'', JObj [(ascii ''content'', JStr answer)])]])]),
         res_text = Inr []\<rparr>)\<rparr>"

definition geminiHost :: "nat \<Rightarrow> jsval \<Rightarrow> host" where
  "geminiHost code data =
     \<lparr>toLowerCase = asciiLower,
      stringify = (\<lambda>v. []),
      fetch = (\<lambda>r. Responds
        (if httpMethod r = ascii ''GET''
         then \<lparr>res_status = 200, res_statusText = ascii ''OK'', res_json = Inr (JObj []),
               res_text = Inr []\<rparr>
         else \<lparr>res_status = code, res_statusText = [], res_json = Inr data,
               res_text = Inr []\<rparr>))\<rparr>"

section \<open>Properties of git-service.ts\<close>

subsection \<open>The file list has one entry for each path and category\<close>

lemma getStatusInfo_not_untracked: "fst (getStatusInfo c) \<noteq> ascii ''?''"
  by (simp add: getStatusInfo_def ascii_def)

lemma list_all_update:
  "list_all P m \<Longrightarrow> P (k, e) \<Longrightarrow> list_all P (AList.update k e m)"
  by (induction m) auto

lemma keyed_update: "keyed m \<Longrightarrow> k = key_of e \<Longrightarrow> keyed (AList.update k e m)"
  unfolding keyed_def by (simp add: distinct_update list_all_update)

lemma keyed_setStaged: "keyed m \<Longrightarrow> keyed (setStaged i p m)"
  by (simp add: setStaged_def keyed_update key_of_def category_of_def)

lemma keyed_setUnstaged: "keyed m \<Longrightarrow> keyed (setUnstaged i w p m)"
  by (simp add: setUnstaged_def keyed_update key_of_def category_of_def getStatusInfo_not_untracked)

lemma keyed_setUntracked: "keyed m \<Longrightarrow> keyed (setUntracked i w p m)"
  by (simp add: setUntracked_def keyed_update key_of_def category_of_def)

lemma keyed_statusLine: "keyed m \<Longrightarrow> keyed (statusLine m line)"
  by (cases "(m, line)" rule: statusLine.cases)
     (simp_all add: Let_def keyed_setStaged keyed_setUnstaged keyed_setUntracked)

lemma keyed_foldl: "keyed m \<Longrightarrow> keyed (foldl statusLine m ls)"
  by (induction ls arbitrary: m) (simp_all add: keyed_statusLine)

lemma distinct_map_inner: "distinct (map (\<lambda>x. f (g x)) xs) \<Longrightarrow> distinct (map g xs)"
  by (induction xs) auto

lemma keyed_distinct:
  assumes "keyed m"
  shows "distinct (map (\<lambda>x. (path (snd x), category_of (snd x))) m)"
proof -
  let ?h = "\<lambda>(p, c). p @ (case c of Staged \<Rightarrow> ascii ''_staged''
     | Unstaged \<Rightarrow> ascii ''_unstaged'' | Untracked \<Rightarrow> ascii ''_untracked'')"
  from assms have "map fst m = map (\<lambda>x. ?h (path (snd x), category_of (snd x))) m"
    unfolding keyed_def key_of_def by (induction m) auto
  with assms have "distinct (map (\<lambda>x. ?h (path (snd x), category_of (snd x))) m)"
    unfolding keyed_def by simp
  then show ?thesis by (rule distinct_map_inner)
qed


text \<open>
  Claim C10. For every output of the status command (and for a command that fails), the
  list returned by \<open>getFileStatus\<close> holds at most one entry for each pair of a path
  and a category (staged, unstaged, untracked): the entries are the values of a map keyed
  by the path followed by the category.
\<close>

theorem getFileStatus_distinct:
  "distinct (map (\<lambda>e. (path e, category_of e)) (getFileStatus out))"
proof (cases out)
  case None
  then show ?thesis by (simp add: getFileStatus_def)
next
  case (Some stdout)
  have "keyed []" by (simp add: keyed_def)
  then have "keyed (foldl statusLine [] (filter (\<lambda>line. length line > 0) (split NEWLINE stdout)))"
    by (rule keyed_foldl)
  then show ?thesis using Some keyed_distinct by (simp add: getFileStatus_def comp_def)
qed


theorem getFileStatus_distinct_witness:
  "distinct (map (\<lambda>e. (path e, category_of e))
      (getFileStatus (Some (ascii ''MM a'' @ [NEWLINE] @ ascii ''M  a''))))
   \<and> map path (getFileStatus (Some (ascii ''MM a'' @ [NEWLINE] @ ascii ''M  a'')))
       = [ascii ''a'', ascii ''a'']
   \<and> map staged (getFileStatus (Some (ascii ''MM a'' @ [NEWLINE] @ ascii ''M  a'')))
       = [True, False]"
  using getFileStatus_distinct [of "Some (ascii ''MM a'' @ [NEWLINE] @ ascii ''M  a'')"]
  by (simp add: getFileStatus_def ascii_def NEWLINE_def Let_def unquotePath_def startsWith_def
      endsWith_def trim_def isWhiteSpace_def setStaged_def setUnstaged_def setUntracked_def
      SPACE_def UNTRACKED_def DQUOTE_def getStatusInfo_def MODIFIED_def)

subsection \<open>The sanitizers\<close>

lemma filter_not_meta: "list_all (\<lambda>c. \<not> isShellMeta c) (filter (\<lambda>c. \<not> isShellMeta c) s)"
  by (induction s) auto

lemma set_replaceAll: "set (replaceAll pat [] s) \<subseteq> set s"
proof (induction pat "[]::'a list" s rule: replaceAll.induct)
  case (1 pat)
  then show ?case by simp
next
  case (2 pat c s)
  then show ?case using set_drop_subset[of "length pat" "c # s"] by (auto split: if_splits)
qed

lemma set_trim: "set (trim s) \<subseteq> set s"
proof
  fix x assume "x \<in> set (trim s)"
  then have "x \<in> set (dropWhile isWhiteSpace (rev (dropWhile isWhiteSpace s)))"
    by (simp add: trim_def)
  then have "x \<in> set (rev (dropWhile isWhiteSpace s))" by (rule set_dropWhileD)
  then have "x \<in> set (dropWhile isWhiteSpace s)" by simp
  then show "x \<in> set s" by (rule set_dropWhileD)
qed

lemma sanitizeFilePath_no_meta: "c \<in> set (sanitizeFilePath p) \<Longrightarrow> \<not> isShellMeta c"
  using set_trim set_replaceAll unfolding sanitizeFilePath_def by fastforce


text \<open>What the shell is left with after \<open>sanitizeCommitMessage\<close>: backticks, dollar signs
  and backslashes are escaped, and the bare specials are exactly the double quotes of the
  message.\<close>

lemma bare_plain: "\<not> isSpecial c \<Longrightarrow> bareSpecials (c # s) = bareSpecials s"
  by (cases s) (auto simp: isSpecial_def)

lemma bare_escaped: "isSpecial c \<Longrightarrow> bareSpecials (BACKSLASH # c # s) = bareSpecials s"
  by simp

lemma bare_quote: "bareSpecials (DQUOTE # s) = DQUOTE # bareSpecials s"
  by (cases s) (auto simp: isSpecial_def DQUOTE_def BACKSLASH_def)

lemma bare_snoc_plain: "\<not> isSpecial w \<Longrightarrow> bareSpecials (s @ [w]) = bareSpecials s"
  by (induction s rule: bareSpecials.induct) auto

lemma ws_not_special: "isWhiteSpace c \<Longrightarrow> \<not> isSpecial c"
  by (auto simp: isWhiteSpace_def isSpecial_def DQUOTE_def BACKSLASH_def BACKTICK_def DOLLAR_def)

lemma bare_dropWhile: "bareSpecials (dropWhile isWhiteSpace s) = bareSpecials s"
  by (induction s) (simp_all add: bare_plain ws_not_special)

lemma bare_dropWhile_end: "bareSpecials (rev (dropWhile isWhiteSpace (rev s))) = bareSpecials s"
  by (induction s rule: rev_induct) (simp_all add: bare_snoc_plain ws_not_special)

lemma bare_trim: "bareSpecials (trim s) = bareSpecials s"
  by (simp add: trim_def bare_dropWhile_end bare_dropWhile)

lemma bare_escape:
  "bareSpecials (escapeSpecials (escapeQuotes m)) = filter (\<lambda>c. c = DQUOTE) m"
proof (induction m)
  case Nil
  then show ?case by (simp add: escapeSpecials_def escapeQuotes_def)
next
  case (Cons c m)
  have step: "escapeSpecials (escapeQuotes (c # m))
      = (if c = DQUOTE then [BACKSLASH, BACKSLASH, DQUOTE]
         else if c = BACKTICK \<or> c = DOLLAR \<or> c = BACKSLASH then [BACKSLASH, c]
         else [c]) @ escapeSpecials (escapeQuotes m)"
    by (simp add: escapeSpecials_def escapeQuotes_def DQUOTE_def BACKSLASH_def BACKTICK_def DOLLAR_def)
  show ?case
  proof (cases "c = DQUOTE")
    case True
    then show ?thesis using Cons step
      by (simp add: bare_quote isSpecial_def)
  next
    case False
    show ?thesis
    proof (cases "c = BACKTICK \<or> c = DOLLAR \<or> c = BACKSLASH")
      case True
      then have "isSpecial c" by (auto simp: isSpecial_def)
      with False True Cons step show ?thesis by (simp add: bare_escaped)
    next
      case nb: False
      with False have "\<not> isSpecial c" by (simp add: isSpecial_def)
      with False nb Cons step show ?thesis by (simp add: bare_plain)
    qed
  qed
qed

lemma sanitizeCommitMessage_bare:
  "bareSpecials (sanitizeCommitMessage msg) = filter (\<lambda>c. c = DQUOTE) msg"
  by (simp add: sanitizeCommitMessage_def bare_trim bare_escape)


text \<open>
  Claim C9, at the inputs where the code departs from it. The claim: the sanitized path
  holds no shell metacharacter and no \<open>../\<close>, and the sanitized commit message has
  every double quote, backtick, dollar sign and backslash escaped. The metacharacters are
  indeed removed (\<open>sanitizeFilePath_no_meta\<close>), but \<open>../\<close> is removed in one pass
  only, so that \<open>....//\<close> leaves \<open>../\<close>; and the backslash that escapes a double
  quote is escaped itself by the second replacement, so that the message \<open>"\<close> becomes
  \<open>\\"\<close>, where the quote stands bare after an escaped backslash.
\<close>

theorem sanitize_failing_inputs:
  "sanitizeCommitMessage [DQUOTE] = [BACKSLASH, BACKSLASH, DQUOTE]
   \<and> bareSpecials (sanitizeCommitMessage [DQUOTE]) = [DQUOTE]
   \<and> sanitizeFilePath (ascii ''....//'') = ascii ''../''
   \<and> str_includes (sanitizeFilePath (ascii ''....//'')) (ascii ''../'')
   \<and> stageFile_command (ascii ''a; rm -rf /.ts'') = ascii ''git add '' @ [DQUOTE] @ ascii ''a rm -rf /.ts'' @ [DQUOTE]"
  by (simp add: sanitizeCommitMessage_def escapeSpecials_def escapeQuotes_def trim_def
      isWhiteSpace_def DQUOTE_def BACKSLASH_def BACKTICK_def DOLLAR_def isSpecial_def
      sanitizeFilePath_def ascii_def isShellMeta_def stageFile_command_def)

section \<open>Properties of the rule-based generation\<close>

lemma firstMatch_Cons: "firstMatch ((b, r) # rules) = (if b then Some r else firstMatch rules)"
  by (simp add: firstMatch_def)

lemma rules_chain:
  "firstMatch [(t, A1), (d, A2), (b, A3), (n \<and> f, A4), (r, A5), (s, A6), (c \<and> p, A7), (c, A8),
      (od, A9), (n \<and> \<not> f, A10), (one, A11), (True, A12)]
   = Some (if t then A1 else if d then A2 else if b then A3 else if n \<and> f then A4
           else if r then A5 else if s then A6 else if c then (if p then A7 else A8)
           else if od then A9 else if n then A10 else if one then A11 else A12)"
  by (simp only: firstMatch_Cons) (simp split: if_splits)

lemma determineCommitType_type: "fst (determineCommitType lower fp ca cs) \<in> set commitTypes"
  by (simp add: determineCommitType_def commitTypes_def)

text \<open>
  Claim C3. For every diff text (and every lower-casing of the host), the content that
  \<open>generateWithEnhancedRules\<close> returns has a confidence that is a number at most 0.9,
  by the cap \<open>Math.min(confidence, 0.9)\<close> whatever the rules computed, and a type that
  is one of the eleven commit types.
\<close>

theorem generateWithEnhancedRules_capped:
  "type (generateWithEnhancedRules lower diffSummary) \<in> JStr ` set commitTypes
   \<and> (\<exists>c. confidence (generateWithEnhancedRules lower diffSummary) = JNum c \<and> c \<le> 0.9)"
  by (simp add: generateWithEnhancedRules_def Let_def determineCommitType_type)

text \<open>
  Claim C4. \<open>determineCommitType\<close> is the first match among the eleven rules of the
  specification, in their order. In particular the single file \<open>README.md\<close> with only
  the docs flag gives \<open>docs\<close> at 0.9, and 120 additions against 10 deletions in 5 files
  with only the feature flag give \<open>feat\<close> at 0.85.
\<close>

theorem determineCommitType_precedence:
  "firstMatch (classificationRules lower filePatterns flags stats)
     = Some (determineCommitType lower filePatterns flags stats)
   \<and> determineCommitType lower [ascii ''README.md'']
        \<lparr>hasNewFeature = False, hasBugFix = False, hasRefactor = False, hasTests = False,
         hasDocs = True, hasStyles = False, hasConfig = False\<rparr> stats
       = (ascii ''docs'', 0.9)
   \<and> determineCommitType lower filePatterns
        \<lparr>hasNewFeature = True, hasBugFix = False, hasRefactor = False, hasTests = False,
         hasDocs = False, hasStyles = False, hasConfig = False\<rparr>
        \<lparr>additions = 120, deletions = 10, fileCount = 5\<rparr>
       = (ascii ''feat'', 0.85)"
proof (intro conjI)
  have n: "(2 * deletions stats < additions stats) = hasNewFiles stats"
    unfolding hasNewFiles_def by arith
  show "firstMatch (classificationRules lower filePatterns flags stats)
          = Some (determineCommitType lower filePatterns flags stats)"
    unfolding classificationRules_def determineCommitType_def hasOnlyDeletions_def n
    by (rule rules_chain)
next
  show "determineCommitType lower [ascii ''README.md'']
        \<lparr>hasNewFeature = False, hasBugFix = False, hasRefactor = False, hasTests = False,
         hasDocs = True, hasStyles = False, hasConfig = False\<rparr> stats
       = (ascii ''docs'', 0.9)"
    by (simp add: determineCommitType_def hasDocFiles_def hasExtensionCI_def endsWith_def
        ascii_def asciiUpper_def suffix_to_prefix)
next
  show "determineCommitType lower filePatterns
        \<lparr>hasNewFeature = True, hasBugFix = False, hasRefactor = False, hasTests = False,
         hasDocs = False, hasStyles = False, hasConfig = False\<rparr>
        \<lparr>additions = 120, deletions = 10, fileCount = 5\<rparr>
       = (ascii ''feat'', 0.85)"
    by (simp add: determineCommitType_def hasNewFiles_def)
qed

text \<open>The same rules at a concrete input where the order matters: a test file with the
  tests flag and the bug-fix flag is a \<open>test\<close>, not a \<open>fix\<close>.\<close>

theorem determineCommitType_precedence_witness:
  "firstMatch (classificationRules asciiLower [ascii ''a.test.ts'']
       \<lparr>hasNewFeature = False, hasBugFix = True, hasRefactor = False, hasTests = True,
        hasDocs = False, hasStyles = False, hasConfig = False\<rparr>
       \<lparr>additions = 1, deletions = 0, fileCount = 1\<rparr>)
     = Some (ascii ''test'', 0.9)"
  using determineCommitType_precedence [of asciiLower "[ascii ''a.test.ts'']"
       "\<lparr>hasNewFeature = False, hasBugFix = True, hasRefactor = False, hasTests = True,
        hasDocs = False, hasStyles = False, hasConfig = False\<rparr>"
       "\<lparr>additions = 1, deletions = 0, fileCount = 1\<rparr>"]
  by (simp add: determineCommitType_def hasTestFiles_def re_testFile_def hasExtension_def
      endsWith_def ascii_def suffix_to_prefix)

text \<open>
  Claim C5 as the specification states it: \<open>extractScope\<close> on
  \<open>src/auth/login.ts\<close> and \<open>src/auth/token.ts\<close> would be \<open>auth\<close>. It is not: the
  segment taken from each path is the first one, \<open>src\<close>, which is excluded.
\<close>

theorem extractScope_src_auth_counterexample:
  "extractScope asciiLower [ascii ''src/auth/login.ts'', ascii ''src/auth/token.ts''] \<noteq> ascii ''auth''"
  by (simp add: extractScope_def firstPart_def ascii_def uniqueInOrder_def)

text \<open>
  Claim C5, amended. On \<open>src/auth/login.ts\<close> and \<open>src/auth/token.ts\<close> the scope is
  empty, since the first segment of both paths is the excluded \<open>src\<close> and no directory
  remains; on \<open>auth/login.ts\<close> and \<open>auth/token.ts\<close>, where \<open>auth\<close> is the first
  segment, exactly one distinct directory remains and the scope is \<open>auth\<close>.
\<close>

theorem extractScope_first_segment:
  "extractScope lower [ascii ''src/auth/login.ts'', ascii ''src/auth/token.ts''] = []
   \<and> extractScope lower [ascii ''auth/login.ts'', ascii ''auth/token.ts''] = ascii ''auth''"
  by (simp add: extractScope_def firstPart_def ascii_def uniqueInOrder_def)

section \<open>Properties of the JSON reader\<close>

lemma lex_keeps: "lex m acc s = Some ts \<Longrightarrow> \<exists>ts'. ts = rev acc @ ts'"
proof (induction m acc s arbitrary: ts rule: lex.induct)
  case (2 acc c s)
  then show ?case by (fastforce split: option.splits prod.splits)
next
  case (4 raw acc c s)
  then show ?case by (fastforce split: option.splits if_splits)
next
  case (8 lx acc c s)
  then show ?case by (fastforce split: option.splits if_splits prod.splits)
qed (auto split: option.splits)

lemma objStack_simps:
  "objStack [] = False"
  "objStack (InArr vs # stack) = objStack stack"
  "objStack (InObj kvs k # stack) = (stack = [] \<or> objStack stack)"
  by (auto simp: objStack_def)

lemma parseTokens_object:
  "objStack stack \<or> (stack = [] \<and> objState st) \<Longrightarrow> parseTokens st stack ts = Some v
   \<Longrightarrow> \<exists>kvs. v = JObj kvs"
proof (induction st stack ts rule: parseTokens.induct)
  case (1 v)
  then show ?case by (cases v) (auto simp: objStack_simps)
qed (auto simp: objStack_simps split: token.splits jsval.splits frame.splits if_splits list.splits)

lemma lex_brace:
  "lex Between [] (0x7B # s) = Some ts \<Longrightarrow> \<exists>ts'. ts = TLBrace # ts'"
  using lex_keeps [of Between "[TLBrace]" s ts]
  by (simp add: between_def isJsonWs_def)

lemma JSON_parse_object:
  "JSON_parse (0x7B # s) = Some v \<Longrightarrow> \<exists>kvs. v = JObj kvs"
proof -
  assume p: "JSON_parse (0x7B # s) = Some v"
  then obtain ts where l: "lex Between [] (0x7B # s) = Some ts" and q: "parseTokens PValue [] ts = Some v"
    by (auto simp: JSON_parse_def split: option.splits)
  from lex_brace [OF l] obtain ts' where "ts = TLBrace # ts'" ..
  with q have "parseTokens (PKeyOrClose []) [] ts' = Some v" by simp
  then show ?thesis using parseTokens_object [of "[]" "PKeyOrClose []" ts' v] by simp
qed

lemma rev_dropWhile_rev_prefix: "prefix (rev (dropWhile P (rev xs))) xs"
proof -
  have "suffix (dropWhile P (rev xs)) (rev xs)" by (rule suffix_dropWhile)
  then show ?thesis by (simp add: suffix_to_prefix)
qed

lemma re_jsonObject_brace: "re_jsonObject response = Some j \<Longrightarrow> \<exists>s. j = 0x7B # s"
proof -
  assume a: "re_jsonObject response = Some j"
  let ?f = "dropWhile (\<lambda>c. c \<noteq> 0x7B) response"
  from a have j: "j = rev (dropWhile (\<lambda>c. c \<noteq> 0x7D) (rev ?f))" and ne: "j \<noteq> []"
    by (auto simp: re_jsonObject_def Let_def split: if_splits)
  have pre: "prefix j ?f" unfolding j by (rule rev_dropWhile_rev_prefix)
  have fne: "?f \<noteq> []"
  proof
    assume "?f = []"
    with pre have "j = []" by simp
    with ne show False by simp
  qed
  then have "hd ?f = 0x7B" using hd_dropWhile [of "\<lambda>c. c \<noteq> 0x7B" response] by simp
  with pre ne fne show ?thesis by (cases j; cases ?f) auto
qed


lemma parsedContent_object:
  "parsedContent (JObj members)
     = Some \<lparr>type = js_or (getPropOpt (JObj members) (ascii ''type'')) (JStr (ascii ''chore'')),
             scope = js_or (getPropOpt (JObj members) (ascii ''scope'')) JUndefined,
             message = js_or (getPropOpt (JObj members) (ascii ''message'')) (JStr msg_update_code),
             confidence = js_or (getPropOpt (JObj members) (ascii ''confidence'')) (JNum 0.8)\<rparr>"
  by (simp add: parsedContent_def getProp_def getPropOpt_def split: option.splits)

section \<open>Properties of the gateway\<close>

lemma trim_eq_Nil: "(trim s = []) = list_all isWhiteSpace s"
proof (cases "dropWhile isWhiteSpace s")
  case Nil
  have "\<forall>x\<in>set s. isWhiteSpace x" using Nil by (simp add: dropWhile_eq_Nil_conv)
  moreover have "trim s = []" unfolding trim_def Nil by simp
  ultimately show ?thesis by (simp add: list_all_iff)
next
  case (Cons y ys)
  then have "\<not> isWhiteSpace y" using hd_dropWhile[of isWhiteSpace s] by auto
  moreover have "y \<in> set s" using Cons set_dropWhileD[of y isWhiteSpace s] by simp
  ultimately show ?thesis using Cons
    by (auto simp: trim_def dropWhile_eq_Nil_conv list_all_iff)
qed


text \<open>
  Claim C2. For every diff text that is empty or only white space, whatever the
  configuration and the host, \<open>generateCommitContent\<close> throws the error
  \<open>NO_STAGED_FILES\<close> and has had no effect: no request was sent, and neither the size
  check nor the classification decides anything.
\<close>

theorem generateCommitContent_blank:
  "trim diffSummary = [] \<Longrightarrow>
   generateCommitContent cfg h diffSummary = (Inl (mkError NO_STAGED_FILES), [])"
  by (simp add: generateCommitContent_def)

theorem generateCommitContent_blank_witness:
  "trim (ascii ''  '' @ [NEWLINE]) = []
   \<and> generateCommitContent (configFor OpenAI) offlineHost (ascii ''  '' @ [NEWLINE])
       = (Inl (mkError NO_STAGED_FILES), [])"
proof -
  have b: "trim (ascii ''  '' @ [NEWLINE]) = []"
    by (simp add: trim_eq_Nil ascii_def NEWLINE_def isWhiteSpace_def)
  show ?thesis using b generateCommitContent_blank [OF b] by simp
qed

lemma parseAIResponseOf_cases:
  "parseAIResponseOf c = Inr x \<Longrightarrow> \<exists>s. x = parseAIResponse s"
  by (auto simp: parseAIResponseOf_def split: jsval.splits)

lemma contentResult_cases:
  "contentResult m c = Inr x \<Longrightarrow> \<exists>s. x = parseAIResponse s"
  by (auto simp: contentResult_def split: option.splits if_splits dest: parseAIResponseOf_cases)

lemma openai_cases: "fst (generateWithOpenAI cfg h d) = Inr x \<Longrightarrow> fromRulesOrAnswer h d x"
  by (auto simp: generateWithOpenAI_def Let_def fromRulesOrAnswer_def
      split: if_splits fetch_result.splits sum.splits dest: contentResult_cases)

lemma anthropic_cases: "fst (generateWithAnthropic cfg h d) = Inr x \<Longrightarrow> fromRulesOrAnswer h d x"
  by (auto simp: generateWithAnthropic_def Let_def fromRulesOrAnswer_def
      split: if_splits fetch_result.splits sum.splits dest: contentResult_cases)

lemma local_cases: "fst (generateWithLocalAI cfg h d) = Inr x \<Longrightarrow> fromRulesOrAnswer h d x"
  by (auto simp: generateWithLocalAI_def Let_def fromRulesOrAnswer_def
      split: if_splits fetch_result.splits sum.splits dest: contentResult_cases)

lemma geminiAnswer_cases: "geminiAnswer h d data = Inr x \<Longrightarrow> fromRulesOrAnswer h d x"
  by (auto simp: geminiAnswer_def Let_def fromRulesOrAnswer_def
      split: if_splits option.splits dest: parseAIResponseOf_cases)

lemma geminiResponse_cases: "fst (geminiResponse h d r) = Inr x \<Longrightarrow> fromRulesOrAnswer h d x"
  by (auto simp: geminiResponse_def fromRulesOrAnswer_def
      split: if_splits sum.splits dest: geminiAnswer_cases)

lemma gemini_cases: "fst (generateWithGemini cfg h d) = Inr x \<Longrightarrow> fromRulesOrAnswer h d x"
  by (auto simp: generateWithGemini_def Let_def
      split: if_splits option.splits fetch_result.splits dest: geminiResponse_cases)
     (auto simp: fromRulesOrAnswer_def)

lemma callProvider_cases: "fst (callProvider cfg h d) = Inr x \<Longrightarrow> fromRulesOrAnswer h d x"
  by (cases "provider cfg")
     (auto simp: callProvider_def fromRulesOrAnswer_def
       dest: openai_cases anthropic_cases local_cases gemini_cases)


text \<open>Two failures of Gemini do not raise inside the provider's method: on the status 429
  (quota) and on the finish reason \<open>MAX_TOKENS\<close> (truncation) the method itself returns
  the rule-based content.\<close>

lemma geminiResponse_quota:
  "res_status r = 429 \<Longrightarrow> res_text r = Inr errorText \<Longrightarrow>
   geminiResponse h diffSummary r
     = (Inr (generateWithEnhancedRules (toLowerCase h) diffSummary), [ShowWarning GeminiQuotaExceeded])"
  by (simp add: geminiResponse_def res_ok_def)

lemma geminiAnswer_truncated:
  "getProp data (ascii ''candidates'') = Some candidates \<Longrightarrow>
   \<not> (truthy candidates \<and> getLength candidates = JNum 0) \<Longrightarrow>
   getPropOpt (getFirstOpt candidates) (ascii ''finishReason'') = JStr (ascii ''MAX_TOKENS'') \<Longrightarrow>
   geminiAnswer h diffSummary data = Inr (generateWithEnhancedRules (toLowerCase h) diffSummary)"
  by (simp add: geminiAnswer_def Let_def)

text \<open>The content of a generation is valid whenever it is the rule-based one or the plain
  text reading of an answer; the fields that \<open>parseAIResponse\<close> reads from a JSON object
  are returned as they are.\<close>

lemma validContent_rules: "validContent (generateWithEnhancedRules lower diffSummary)"
  by (simp add: validContent_def generateWithEnhancedRules_def Let_def isStr_def isNum_def)

lemma validContent_plain: "validContent (plainTextContent response)"
  by (simp add: validContent_def plainTextContent_def Let_def isStr_def isNum_def
      split: option.splits prod.splits)

lemma parseAIResponse_shape:
  "validContent (parseAIResponse s)
   \<or> (\<exists>jsonMatch parsed. re_jsonObject s = Some jsonMatch \<and> JSON_parse jsonMatch = Some parsed
         \<and> parsedContent parsed = Some (parseAIResponse s))"
  by (auto simp: parseAIResponse_def validContent_plain split: option.splits)

lemma fromRulesOrAnswer_shape:
  "fromRulesOrAnswer h d x \<Longrightarrow>
   validContent x
   \<or> (\<exists>s jsonMatch parsed. re_jsonObject s = Some jsonMatch \<and> JSON_parse jsonMatch = Some parsed
         \<and> parsedContent parsed = Some x)"
  unfolding fromRulesOrAnswer_def
  using validContent_rules parseAIResponse_shape by metis

lemma generateCommitContent_fallback:
  "trim diffSummary \<noteq> [] \<Longrightarrow>
   (\<exists>e. fst (callProvider cfg h diffSummary) = Inl e)
     \<or> fst (callProvider cfg h diffSummary)
         = Inr (generateWithEnhancedRules (toLowerCase h) diffSummary) \<Longrightarrow>
   fst (generateCommitContent cfg h diffSummary)
     = Inr (generateWithEnhancedRules (toLowerCase h) diffSummary)"
  by (cases "callProvider cfg h diffSummary")
     (auto simp: generateCommitContent_def)

lemma generateCommitContent_answer:
  "trim diffSummary \<noteq> [] \<Longrightarrow>
   \<not> (isLargeDiffForProvider cfg diffSummary \<and> provider cfg \<noteq> Gemini) \<Longrightarrow>
   fst (callProvider cfg h diffSummary) = Inr content \<Longrightarrow>
   fst (generateCommitContent cfg h diffSummary) = Inr content"
  by (cases "callProvider cfg h diffSummary")
     (auto simp: generateCommitContent_def)

lemma openai_fails:
  "fetch h (openaiRequest cfg d) = Throws e
   \<or> (\<exists>r. fetch h (openaiRequest cfg d) = Responds r \<and> (\<not> res_ok r \<or> (\<exists>e. res_json r = Inl e))) \<Longrightarrow>
   \<exists>e. fst (generateWithOpenAI cfg h d) = Inl e"
  by (auto simp: generateWithOpenAI_def Let_def)

lemma anthropic_fails:
  "fetch h (anthropicRequest cfg d) = Throws e
   \<or> (\<exists>r. fetch h (anthropicRequest cfg d) = Responds r \<and> (\<not> res_ok r \<or> (\<exists>e. res_json r = Inl e))) \<Longrightarrow>
   \<exists>e. fst (generateWithAnthropic cfg h d) = Inl e"
  by (auto simp: generateWithAnthropic_def Let_def)

lemma local_fails:
  "fetch h (localRequest cfg d) = Throws e
   \<or> (\<exists>r. fetch h (localRequest cfg d) = Responds r \<and> (\<not> res_ok r \<or> (\<exists>e. res_json r = Inl e))) \<Longrightarrow>
   \<exists>e. fst (generateWithLocalAI cfg h d) = Inl e"
  by (auto simp: generateWithLocalAI_def Let_def)

lemma geminiAnswer_blocked:
  "geminiFinishReason data \<in> set [JStr (ascii ''MAX_TOKENS''), JStr (ascii ''SAFETY''),
                                    JStr (ascii ''RECITATION'')] \<Longrightarrow>
   (\<exists>e. geminiAnswer h d data = Inl e)
   \<or> geminiAnswer h d data = Inr (generateWithEnhancedRules (toLowerCase h) d)"
  by (auto simp: geminiAnswer_def geminiFinishReason_def getPropOpt_def Let_def
      split: option.splits)

lemma geminiResponse_fails:
  "\<not> res_ok r \<or> (\<exists>e. res_json r = Inl e)
   \<or> (\<exists>data. res_json r = Inr data
         \<and> geminiFinishReason data \<in> set [JStr (ascii ''MAX_TOKENS''), JStr (ascii ''SAFETY''),
                                            JStr (ascii ''RECITATION'')]) \<Longrightarrow>
   (\<exists>e. fst (geminiResponse h d r) = Inl e)
   \<or> fst (geminiResponse h d r) = Inr (generateWithEnhancedRules (toLowerCase h) d)"
proof (cases "res_ok r")
  case False
  then show ?thesis by (auto simp: geminiResponse_def split: sum.splits)
next
  case True
  assume a: "\<not> res_ok r \<or> (\<exists>e. res_json r = Inl e)
   \<or> (\<exists>data. res_json r = Inr data
         \<and> geminiFinishReason data \<in> set [JStr (ascii ''MAX_TOKENS''), JStr (ascii ''SAFETY''),
                                            JStr (ascii ''RECITATION'')])"
  show ?thesis
  proof (cases "res_json r")
    case (Inl e)
    with True show ?thesis by (simp add: geminiResponse_def)
  next
    case (Inr data)
    with a True have "geminiFinishReason data \<in> set [JStr (ascii ''MAX_TOKENS''),
        JStr (ascii ''SAFETY''), JStr (ascii ''RECITATION'')]" by auto
    then have "(\<exists>e. geminiAnswer h d data = Inl e)
       \<or> geminiAnswer h d data = Inr (generateWithEnhancedRules (toLowerCase h) d)"
      by (rule geminiAnswer_blocked)
    with True Inr show ?thesis by (simp add: geminiResponse_def)
  qed
qed

lemma gemini_fails:
  "fetch h (geminiRequest cfg (createGeminiPrompt cfg
       (if length d > GEMINI_MAX_DIFF_LENGTH then truncateDiffForGemini d else d))) = Throws e
   \<or> (\<exists>r. fetch h (geminiRequest cfg (createGeminiPrompt cfg
             (if length d > GEMINI_MAX_DIFF_LENGTH then truncateDiffForGemini d else d))) = Responds r
         \<and> (\<not> res_ok r \<or> (\<exists>e. res_json r = Inl e)
            \<or> (\<exists>data. res_json r = Inr data
                  \<and> geminiFinishReason data \<in> set [JStr (ascii ''MAX_TOKENS''),
                       JStr (ascii ''SAFETY''), JStr (ascii ''RECITATION'')]))) \<Longrightarrow>
   (\<exists>e. fst (generateWithGemini cfg h d) = Inl e)
   \<or> fst (generateWithGemini cfg h d) = Inr (generateWithEnhancedRules (toLowerCase h) d)"
proof -
  assume a: "fetch h (geminiRequest cfg (createGeminiPrompt cfg
       (if length d > GEMINI_MAX_DIFF_LENGTH then truncateDiffForGemini d else d))) = Throws e
   \<or> (\<exists>r. fetch h (geminiRequest cfg (createGeminiPrompt cfg
             (if length d > GEMINI_MAX_DIFF_LENGTH then truncateDiffForGemini d else d))) = Responds r
         \<and> (\<not> res_ok r \<or> (\<exists>e. res_json r = Inl e)
            \<or> (\<exists>data. res_json r = Inr data
                  \<and> geminiFinishReason data \<in> set [JStr (ascii ''MAX_TOKENS''),
                       JStr (ascii ''SAFETY''), JStr (ascii ''RECITATION'')])))"
  define req where "req = geminiRequest cfg (createGeminiPrompt cfg
       (if length d > GEMINI_MAX_DIFF_LENGTH then truncateDiffForGemini d else d))"
  define rules where "rules = generateWithEnhancedRules (toLowerCase h) d"
  from a have b: "fetch h req = Throws e
     \<or> (\<exists>r. fetch h req = Responds r
           \<and> ((\<exists>e. fst (geminiResponse h d r) = Inl e) \<or> fst (geminiResponse h d r) = Inr rules))"
    unfolding req_def rules_def using geminiResponse_fails [of _ h d] by blast
  have g: "fst (generateWithGemini cfg h d)
      = (if \<not> isSet (apiKey cfg) then Inl (mkError (ascii ''Google Gemini API key not configured''))
         else if length d > GEMINI_MAX_DIFF_LENGTH
                 \<and> 2 * length (truncateDiffForGemini d) > 3 * GEMINI_SUMMARY_LENGTH
         then Inr rules
         else (case geminiKeyTest cfg h of
                 Some e \<Rightarrow> Inl e
               | None \<Rightarrow> (case fetch h req of
                             Throws e \<Rightarrow> Inl e
                           | Responds r \<Rightarrow> fst (geminiResponse h d r))))"
    by (simp add: generateWithGemini_def Let_def req_def rules_def
        split: option.splits fetch_result.splits)
  show ?thesis
    unfolding g rules_def [symmetric] using b
    by (auto split: option.splits fetch_result.splits)
qed

lemma callProvider_fails:
  "generationRequest cfg d = Some req \<Longrightarrow>
   fetch h req = Throws e
   \<or> (\<exists>r. fetch h req = Responds r
         \<and> (\<not> res_ok r \<or> (\<exists>e. res_json r = Inl e)
            \<or> (\<exists>data. provider cfg = Gemini \<and> res_json r = Inr data
                  \<and> geminiFinishReason data \<in> set [JStr (ascii ''MAX_TOKENS''),
                       JStr (ascii ''SAFETY''), JStr (ascii ''RECITATION'')]))) \<Longrightarrow>
   (\<exists>e. fst (callProvider cfg h d) = Inl e)
   \<or> fst (callProvider cfg h d) = Inr (generateWithEnhancedRules (toLowerCase h) d)"
proof (cases "provider cfg")
  case OpenAI
  assume "generationRequest cfg d = Some req"
  with OpenAI have r: "req = openaiRequest cfg d" by (simp add: generationRequest_def)
  assume "fetch h req = Throws e
   \<or> (\<exists>r. fetch h req = Responds r
         \<and> (\<not> res_ok r \<or> (\<exists>e. res_json r = Inl e)
            \<or> (\<exists>data. provider cfg = Gemini \<and> res_json r = Inr data
                  \<and> geminiFinishReason data \<in> set [JStr (ascii ''MAX_TOKENS''),
                       JStr (ascii ''SAFETY''), JStr (ascii ''RECITATION'')])))"
  with OpenAI r have "\<exists>e. fst (generateWithOpenAI cfg h d) = Inl e"
    using openai_fails [of h cfg d e] by auto
  with OpenAI show ?thesis by (simp add: callProvider_def)
next
  case Anthropic
  assume "generationRequest cfg d = Some req"
  with Anthropic have r: "req = anthropicRequest cfg d" by (simp add: generationRequest_def)
  assume "fetch h req = Throws e
   \<or> (\<exists>r. fetch h req = Responds r
         \<and> (\<not> res_ok r \<or> (\<exists>e. res_json r = Inl e)
            \<or> (\<exists>data. provider cfg = Gemini \<and> res_json r = Inr data
                  \<and> geminiFinishReason data \<in> set [JStr (ascii ''MAX_TOKENS''),
                       JStr (ascii ''SAFETY''), JStr (ascii ''RECITATION'')])))"
  with Anthropic r have "\<exists>e. fst (generateWithAnthropic cfg h d) = Inl e"
    using anthropic_fails [of h cfg d e] by auto
  with Anthropic show ?thesis by (simp add: callProvider_def)
next
  case LocalAI
  assume "generationRequest cfg d = Some req"
  with LocalAI have r: "req = localRequest cfg d" by (simp add: generationRequest_def)
  assume "fetch h req = Throws e
   \<or> (\<exists>r. fetch h req = Responds r
         \<and> (\<not> res_ok r \<or> (\<exists>e. res_json r = Inl e)
            \<or> (\<exists>data. provider cfg = Gemini \<and> res_json r = Inr data
                  \<and> geminiFinishReason data \<in> set [JStr (ascii ''MAX_TOKENS''),
                       JStr (ascii ''SAFETY''), JStr (ascii ''RECITATION'')])))"
  with LocalAI r have "\<exists>e. fst (generateWithLocalAI cfg h d) = Inl e"
    using local_fails [of h cfg d e] by auto
  with LocalAI show ?thesis by (simp add: callProvider_def)
next
  case Gemini
  assume "generationRequest cfg d = Some req"
  with Gemini have r: "req = geminiRequest cfg (createGeminiPrompt cfg
       (if length d > GEMINI_MAX_DIFF_LENGTH then truncateDiffForGemini d else d))"
    by (simp add: generationRequest_def)
  assume "fetch h req = Throws e
   \<or> (\<exists>r. fetch h req = Responds r
         \<and> (\<not> res_ok r \<or> (\<exists>e. res_json r = Inl e)
            \<or> (\<exists>data. provider cfg = Gemini \<and> res_json r = Inr data
                  \<and> geminiFinishReason data \<in> set [JStr (ascii ''MAX_TOKENS''),
                       JStr (ascii ''SAFETY''), JStr (ascii ''RECITATION'')])))"
  then have "(\<exists>e. fst (generateWithGemini cfg h d) = Inl e)
     \<or> fst (generateWithGemini cfg h d) = Inr (generateWithEnhancedRules (toLowerCase h) d)"
    unfolding r by (intro gemini_fails [of h cfg d e]) blast
  with Gemini show ?thesis by (simp add: callProvider_def)
next
  case Rules
  then show ?thesis by (simp add: callProvider_def)
next
  case (OtherProvider x)
  then show ?thesis by (simp add: callProvider_def)
qed

lemma contentResult_text:
  "s \<noteq> [] \<Longrightarrow> contentResult m (Some (JStr s)) = Inr (parseAIResponse s)"
  by (simp add: contentResult_def parseAIResponseOf_def)

lemma callProvider_answers:
  "reachesProvider cfg h d \<Longrightarrow> generationRequest cfg d = Some req \<Longrightarrow>
   fetch h req = Responds r \<Longrightarrow> res_ok r \<Longrightarrow> res_json r = Inr data \<Longrightarrow>
   answerValue cfg data = Some (JStr s) \<Longrightarrow> s \<noteq> [] \<Longrightarrow>
   \<not> (provider cfg = Gemini
      \<and> geminiFinishReason data \<in> set [JStr (ascii ''MAX_TOKENS''), JStr (ascii ''SAFETY''),
                                        JStr (ascii ''RECITATION'')]) \<Longrightarrow>
   fst (callProvider cfg h d) = Inr (parseAIResponse s)
   \<and> \<not> (isLargeDiffForProvider cfg d \<and> provider cfg \<noteq> Gemini)"
proof (cases "provider cfg")
  case OpenAI
  assume "reachesProvider cfg h d" "generationRequest cfg d = Some req"
    "fetch h req = Responds r" "res_ok r" "res_json r = Inr data"
    "answerValue cfg data = Some (JStr s)" "s \<noteq> []"
  with OpenAI show ?thesis
    by (auto simp: reachesProvider_def generationRequest_def answerValue_def callProvider_def
        generateWithOpenAI_def Let_def contentResult_text)
next
  case Anthropic
  assume "reachesProvider cfg h d" "generationRequest cfg d = Some req"
    "fetch h req = Responds r" "res_ok r" "res_json r = Inr data"
    "answerValue cfg data = Some (JStr s)" "s \<noteq> []"
  with Anthropic show ?thesis
    by (auto simp: reachesProvider_def generationRequest_def answerValue_def callProvider_def
        generateWithAnthropic_def Let_def contentResult_text)
next
  case LocalAI
  assume "reachesProvider cfg h d" "generationRequest cfg d = Some req"
    "fetch h req = Responds r" "res_ok r" "res_json r = Inr data"
    "answerValue cfg data = Some (JStr s)" "s \<noteq> []"
  with LocalAI show ?thesis
    by (auto simp: reachesProvider_def generationRequest_def answerValue_def callProvider_def
        generateWithLocalAI_def Let_def contentResult_text)
next
  case Gemini
  assume a: "reachesProvider cfg h d" "generationRequest cfg d = Some req"
    "fetch h req = Responds r" "res_ok r" "res_json r = Inr data"
    "answerValue cfg data = Some (JStr s)" "s \<noteq> []"
    "\<not> (provider cfg = Gemini
      \<and> geminiFinishReason data \<in> set [JStr (ascii ''MAX_TOKENS''), JStr (ascii ''SAFETY''),
                                        JStr (ascii ''RECITATION'')])"
  from a Gemini have "geminiAnswer h d data = Inr (parseAIResponse s)"
    by (auto simp: answerValue_def geminiAnswer_def geminiFinishReason_def getPropOpt_def Let_def
        parseAIResponseOf_def split: option.splits if_splits)
  with a Gemini show ?thesis
    by (auto simp: reachesProvider_def generationRequest_def callProvider_def
        generateWithGemini_def geminiResponse_def Let_def)
next
  case Rules
  assume "reachesProvider cfg h d"
  with Rules show ?thesis by (simp add: reachesProvider_def)
next
  case (OtherProvider x)
  assume "reachesProvider cfg h d"
  with OtherProvider show ?thesis by (simp add: reachesProvider_def)
qed

lemma rules_x:
  "generateWithEnhancedRules (toLowerCase (openaiHost (ascii ''hello''))) (ascii ''x'')
       = \<lparr>type = JStr (ascii ''chore''), scope = JUndefined, message = JStr msg_update_code,
          confidence = JNum 0.6\<rparr>"
  by (simp add: openaiHost_def) code_simp

text \<open>
  Claim C1 as the specification states it: for every diff text the generation never
  raises, the content is valid, and an answer that cannot be parsed is replaced by the
  rule-based content. On the empty diff text the generation raises \<open>NO_STAGED_FILES\<close>.
  When OpenAI answers \<open>{"type":true}\<close> the content has the type \<open>true\<close>, which is no
  string, so the content is not valid. When OpenAI answers \<open>hello\<close>, which is neither JSON
  nor a commit line, the content is the plain text reading of the answer (type
  \<open>chore\<close>, message \<open>hello\<close>, confidence 0.7) and not the rule-based content of the diff
  text (confidence 0.6).
\<close>

theorem generateCommitContent_raises_counterexample:
  "fst (generateCommitContent (configFor Rules) offlineHost []) = Inl (mkError NO_STAGED_FILES)
   \<and> fst (generateCommitContent (configFor OpenAI)
            (openaiHost (ascii ''{'' @ [DQUOTE] @ ascii ''type'' @ [DQUOTE] @ ascii '':true}''))
            (ascii ''x''))
       = Inr \<lparr>type = JBool True, scope = JUndefined, message = JStr msg_update_code,
              confidence = JNum 0.8\<rparr>
   \<and> \<not> validContent \<lparr>type = JBool True, scope = JUndefined, message = JStr msg_update_code,
                       confidence = JNum 0.8\<rparr>
   \<and> fst (generateCommitContent (configFor OpenAI) (openaiHost (ascii ''hello'')) (ascii ''x''))
       = Inr \<lparr>type = JStr (ascii ''chore''), scope = JUndefined, message = JStr (ascii ''hello''),
              confidence = JNum 0.7\<rparr>
   \<and> generateWithEnhancedRules (toLowerCase (openaiHost (ascii ''hello''))) (ascii ''x'')
       = \<lparr>type = JStr (ascii ''chore''), scope = JUndefined, message = JStr msg_update_code,
          confidence = JNum 0.6\<rparr>"
proof (intro conjI)
  show "fst (generateCommitContent (configFor Rules) offlineHost []) = Inl (mkError NO_STAGED_FILES)"
    by (simp add: generateCommitContent_def trim_def)
next
  have nb: "trim (ascii ''x'') \<noteq> []" by (simp add: trim_eq_Nil ascii_def isWhiteSpace_def)
  have p: "parseAIResponse (ascii ''{'' @ [DQUOTE] @ ascii ''type'' @ [DQUOTE] @ ascii '':true}'')
      = \<lparr>type = JBool True, scope = JUndefined, message = JStr msg_update_code,
         confidence = JNum 0.8\<rparr>"
    by (simp add: parseAIResponse_def re_jsonObject_def ascii_def DQUOTE_def JSON_parse_def
        between_def isJsonWs_def isAtomChar_def isDigit_def atomValue_def json_number_def
        json_exponent_def digitsVal_def parsedContent_def getProp_def js_or_def Let_def
        BACKSLASH_def)
  have c: "fst (callProvider (configFor OpenAI)
             (openaiHost (ascii ''{'' @ [DQUOTE] @ ascii ''type'' @ [DQUOTE] @ ascii '':true}''))
             (ascii ''x''))
      = Inr (parseAIResponse (ascii ''{'' @ [DQUOTE] @ ascii ''type'' @ [DQUOTE] @ ascii '':true}''))"
    by (simp add: callProvider_def configFor_def generateWithOpenAI_def isSet_def openaiHost_def
        Let_def res_ok_def openaiContent_def getProp_def getFirst_def getPropOpt_def
        contentResult_text ascii_def DQUOTE_def)
  have s: "\<not> (isLargeDiffForProvider (configFor OpenAI) (ascii ''x'')
              \<and> provider (configFor OpenAI) \<noteq> Gemini)"
    by (simp add: isLargeDiffForProvider_def configFor_def MAX_DIFF_LENGTH_def ascii_def)
  show "fst (generateCommitContent (configFor OpenAI)
            (openaiHost (ascii ''{'' @ [DQUOTE] @ ascii ''type'' @ [DQUOTE] @ ascii '':true}''))
            (ascii ''x''))
       = Inr \<lparr>type = JBool True, scope = JUndefined, message = JStr msg_update_code,
              confidence = JNum 0.8\<rparr>"
    using generateCommitContent_answer [OF nb s c] by (simp only: p)
next
  show "\<not> validContent \<lparr>type = JBool True, scope = JUndefined, message = JStr msg_update_code,
                       confidence = JNum 0.8\<rparr>"
    by (simp add: validContent_def isStr_def)
next
  have nb: "trim (ascii ''x'') \<noteq> []" by (simp add: trim_eq_Nil ascii_def isWhiteSpace_def)
  have p: "parseAIResponse (ascii ''hello'')
      = \<lparr>type = JStr (ascii ''chore''), scope = JUndefined, message = JStr (ascii ''hello''),
         confidence = JNum 0.7\<rparr>"
    by (simp add: parseAIResponse_def re_jsonObject_def plainTextContent_def re_commit_def
        commitTypes_def List.map_filter_simps firstPart_def stripQuotes_def isQuoteChar_def
        trim_def isWhiteSpace_def ascii_def DQUOTE_def BACKTICK_def NEWLINE_def Let_def)
  have c: "fst (callProvider (configFor OpenAI) (openaiHost (ascii ''hello'')) (ascii ''x''))
      = Inr (parseAIResponse (ascii ''hello''))"
    by (simp add: callProvider_def configFor_def generateWithOpenAI_def isSet_def openaiHost_def
        Let_def res_ok_def openaiContent_def getProp_def getFirst_def getPropOpt_def
        contentResult_text ascii_def)
  have s: "\<not> (isLargeDiffForProvider (configFor OpenAI) (ascii ''x'')
              \<and> provider (configFor OpenAI) \<noteq> Gemini)"
    by (simp add: isLargeDiffForProvider_def configFor_def MAX_DIFF_LENGTH_def ascii_def)
  show "fst (generateCommitContent (configFor OpenAI) (openaiHost (ascii ''hello'')) (ascii ''x''))
       = Inr \<lparr>type = JStr (ascii ''chore''), scope = JUndefined, message = JStr (ascii ''hello''),
              confidence = JNum 0.7\<rparr>"
    using generateCommitContent_answer [OF nb s c] by (simp only: p)
next
  show "generateWithEnhancedRules (toLowerCase (openaiHost (ascii ''hello''))) (ascii ''x'')
       = \<lparr>type = JStr (ascii ''chore''), scope = JUndefined, message = JStr msg_update_code,
          confidence = JNum 0.6\<rparr>"
    by (rule rules_x)
qed

text \<open>
  Claim C1, amended. For every diff text that is not empty or only white space,
  \<open>generateCommitContent\<close> does not raise: it resolves to a content, which is valid unless
  its fields were read from a JSON object in an answer. Every failure of the provider is
  replaced by the rule-based content of the diff text: whatever the provider's method
  throws; and, for the request that carries the diff text to the configured provider, a
  \<open>fetch\<close> that throws (no connection, the time limit), a status outside 200 to 299, the
  status 429 of an exhausted quota, a body that is no JSON, and for Gemini the finish reason
  \<open>MAX_TOKENS\<close> of a truncated answer and the finish reasons \<open>SAFETY\<close> and
  \<open>RECITATION\<close> of a blocked one. An answer text that cannot be parsed is no failure:
  when the request is reached and answered with a text, the content is
  \<open>parseAIResponse\<close> of that text, which is its plain text reading when it holds no
  brace-delimited text.
\<close>

theorem generateCommitContent_total:
  "trim diffSummary \<noteq> [] \<Longrightarrow>
   (\<exists>content. fst (generateCommitContent cfg h diffSummary) = Inr content
       \<and> (validContent content
          \<or> (\<exists>s jsonMatch parsed. re_jsonObject s = Some jsonMatch
                \<and> JSON_parse jsonMatch = Some parsed \<and> parsedContent parsed = Some content)))
   \<and> ((\<exists>e. fst (callProvider cfg h diffSummary) = Inl e) \<longrightarrow>
        fst (generateCommitContent cfg h diffSummary)
          = Inr (generateWithEnhancedRules (toLowerCase h) diffSummary))
   \<and> (generationRequest cfg diffSummary = Some req \<longrightarrow>
        ((\<exists>e. fetch h req = Throws e) \<longrightarrow>
           fst (generateCommitContent cfg h diffSummary)
             = Inr (generateWithEnhancedRules (toLowerCase h) diffSummary))
        \<and> (fetch h req = Responds r \<longrightarrow>
             (\<not> (200 \<le> res_status r \<and> res_status r \<le> 299) \<longrightarrow>
                fst (generateCommitContent cfg h diffSummary)
                  = Inr (generateWithEnhancedRules (toLowerCase h) diffSummary))
             \<and> (res_status r = 429 \<longrightarrow>
                  fst (generateCommitContent cfg h diffSummary)
                    = Inr (generateWithEnhancedRules (toLowerCase h) diffSummary))
             \<and> ((\<exists>e. res_json r = Inl e) \<longrightarrow>
                  fst (generateCommitContent cfg h diffSummary)
                    = Inr (generateWithEnhancedRules (toLowerCase h) diffSummary))
             \<and> (provider cfg = Gemini \<and> res_json r = Inr data
                  \<and> geminiFinishReason data = JStr (ascii ''MAX_TOKENS'') \<longrightarrow>
                  fst (generateCommitContent cfg h diffSummary)
                    = Inr (generateWithEnhancedRules (toLowerCase h) diffSummary))
             \<and> (provider cfg = Gemini \<and> res_json r = Inr data
                  \<and> (geminiFinishReason data = JStr (ascii ''SAFETY'')
                     \<or> geminiFinishReason data = JStr (ascii ''RECITATION'')) \<longrightarrow>
                  fst (generateCommitContent cfg h diffSummary)
                    = Inr (generateWithEnhancedRules (toLowerCase h) diffSummary))
             \<and> (reachesProvider cfg h diffSummary
                  \<and> 200 \<le> res_status r \<and> res_status r \<le> 299 \<and> res_json r = Inr data
                  \<and> answerValue cfg data = Some (JStr s) \<and> s \<noteq> []
                  \<and> \<not> (provider cfg = Gemini
                        \<and> geminiFinishReason data
                            \<in> set [JStr (ascii ''MAX_TOKENS''), JStr (ascii ''SAFETY''),
                                   JStr (ascii ''RECITATION'')]) \<longrightarrow>
                  fst (generateCommitContent cfg h diffSummary) = Inr (parseAIResponse s)
                  \<and> (re_jsonObject s = None \<longrightarrow>
                       fst (generateCommitContent cfg h diffSummary)
                         = Inr (plainTextContent s)))))"
proof -
  assume nb: "trim diffSummary \<noteq> []"
  define rules where "rules = generateWithEnhancedRules (toLowerCase h) diffSummary"
  define result where "result = fst (generateCommitContent cfg h diffSummary)"
  have fb: "(\<exists>e. fst (callProvider cfg h diffSummary) = Inl e)
              \<or> fst (callProvider cfg h diffSummary) = Inr rules \<Longrightarrow> result = Inr rules"
    unfolding rules_def result_def by (rule generateCommitContent_fallback [OF nb])
  have fails: "\<And>e'. generationRequest cfg diffSummary = Some req \<Longrightarrow>
     fetch h req = Throws e'
     \<or> (\<exists>r. fetch h req = Responds r
           \<and> (\<not> res_ok r \<or> (\<exists>e. res_json r = Inl e)
              \<or> (\<exists>data. provider cfg = Gemini \<and> res_json r = Inr data
                    \<and> geminiFinishReason data \<in> set [JStr (ascii ''MAX_TOKENS''),
                         JStr (ascii ''SAFETY''), JStr (ascii ''RECITATION'')]))) \<Longrightarrow>
     result = Inr rules"
    using fb callProvider_fails [of cfg diffSummary req h] unfolding rules_def by blast
  have t1: "\<exists>content. result = Inr content
       \<and> (validContent content
          \<or> (\<exists>s jsonMatch parsed. re_jsonObject s = Some jsonMatch
                \<and> JSON_parse jsonMatch = Some parsed \<and> parsedContent parsed = Some content))"
  proof (cases "isLargeDiffForProvider cfg diffSummary \<and> provider cfg \<noteq> Gemini")
    case True
    with nb have "result = Inr rules"
      by (simp add: result_def rules_def generateCommitContent_def)
    then show ?thesis using validContent_rules [of "toLowerCase h" diffSummary]
      by (simp add: rules_def)
  next
    case False
    show ?thesis
    proof (cases "fst (callProvider cfg h diffSummary)")
      case (Inl e)
      then have "result = Inr rules" using fb by blast
      then show ?thesis using validContent_rules [of "toLowerCase h" diffSummary]
        by (simp add: rules_def)
    next
      case (Inr x)
      then have "result = Inr x"
        unfolding result_def using generateCommitContent_answer [OF nb False] by blast
      moreover from Inr have "fromRulesOrAnswer h diffSummary x" by (rule callProvider_cases)
      ultimately show ?thesis using fromRulesOrAnswer_shape by blast
    qed
  qed
  have t2: "(\<exists>e. fst (callProvider cfg h diffSummary) = Inl e) \<longrightarrow> result = Inr rules"
    using fb by blast
  have t3: "generationRequest cfg diffSummary = Some req \<Longrightarrow>
            (\<exists>e. fetch h req = Throws e) \<longrightarrow> result = Inr rules"
    using fails by blast
  have t4: "generationRequest cfg diffSummary = Some req \<Longrightarrow> fetch h req = Responds r \<Longrightarrow>
            \<not> (200 \<le> res_status r \<and> res_status r \<le> 299) \<longrightarrow> result = Inr rules"
    using fails [of undefined] unfolding res_ok_def by blast
  have t5: "generationRequest cfg diffSummary = Some req \<Longrightarrow> fetch h req = Responds r \<Longrightarrow>
            res_status r = 429 \<longrightarrow> result = Inr rules"
    using t4 by simp
  have t6: "generationRequest cfg diffSummary = Some req \<Longrightarrow> fetch h req = Responds r \<Longrightarrow>
            (\<exists>e. res_json r = Inl e) \<longrightarrow> result = Inr rules"
    using fails [of undefined] by blast
  have t7: "generationRequest cfg diffSummary = Some req \<Longrightarrow> fetch h req = Responds r \<Longrightarrow>
            provider cfg = Gemini \<and> res_json r = Inr data
              \<and> geminiFinishReason data = JStr (ascii ''MAX_TOKENS'') \<longrightarrow> result = Inr rules"
    using fails [of undefined] by auto
  have t8: "generationRequest cfg diffSummary = Some req \<Longrightarrow> fetch h req = Responds r \<Longrightarrow>
            provider cfg = Gemini \<and> res_json r = Inr data
              \<and> (geminiFinishReason data = JStr (ascii ''SAFETY'')
                 \<or> geminiFinishReason data = JStr (ascii ''RECITATION'')) \<longrightarrow> result = Inr rules"
    using fails [of undefined] by auto
  have t9: "generationRequest cfg diffSummary = Some req \<Longrightarrow> fetch h req = Responds r \<Longrightarrow>
            reachesProvider cfg h diffSummary
              \<and> 200 \<le> res_status r \<and> res_status r \<le> 299 \<and> res_json r = Inr data
              \<and> answerValue cfg data = Some (JStr s) \<and> s \<noteq> []
              \<and> \<not> (provider cfg = Gemini
                    \<and> geminiFinishReason data
                        \<in> set [JStr (ascii ''MAX_TOKENS''), JStr (ascii ''SAFETY''),
                               JStr (ascii ''RECITATION'')]) \<longrightarrow>
            result = Inr (parseAIResponse s)
            \<and> (re_jsonObject s = None \<longrightarrow> result = Inr (plainTextContent s))"
  proof (intro impI)
    assume q: "generationRequest cfg diffSummary = Some req" and f: "fetch h req = Responds r"
    assume a: "reachesProvider cfg h diffSummary
              \<and> 200 \<le> res_status r \<and> res_status r \<le> 299 \<and> res_json r = Inr data
              \<and> answerValue cfg data = Some (JStr s) \<and> s \<noteq> []
              \<and> \<not> (provider cfg = Gemini
                    \<and> geminiFinishReason data
                        \<in> set [JStr (ascii ''MAX_TOKENS''), JStr (ascii ''SAFETY''),
                               JStr (ascii ''RECITATION'')])"
    then have ok: "res_ok r" by (simp add: res_ok_def)
    from a have c: "fst (callProvider cfg h diffSummary) = Inr (parseAIResponse s)
        \<and> \<not> (isLargeDiffForProvider cfg diffSummary \<and> provider cfg \<noteq> Gemini)"
      by (intro callProvider_answers [OF _ q f ok, of data s]) blast+
    then have "result = Inr (parseAIResponse s)"
      unfolding result_def using generateCommitContent_answer [OF nb] by blast
    then show "result = Inr (parseAIResponse s)
            \<and> (re_jsonObject s = None \<longrightarrow> result = Inr (plainTextContent s))"
      by (simp add: parseAIResponse_def)
  qed
  show ?thesis
    using t1 t2 t3 t4 t5 t6 t7 t8 t9
    unfolding result_def rules_def
    by blast
qed

theorem generateCommitContent_total_witness:
  "trim (ascii ''x'') \<noteq> []
   \<and> fetch offlineHost (openaiRequest (configFor OpenAI) (ascii ''x''))
       = Throws (JSError (ascii ''TypeError'') (ascii ''fetch failed''))
   \<and> fst (generateCommitContent (configFor OpenAI) offlineHost (ascii ''x''))
       = Inr (generateWithEnhancedRules asciiLower (ascii ''x''))
   \<and> fst (generateCommitContent (configFor Gemini) (geminiHost 429 JNull) (ascii ''x''))
       = Inr (generateWithEnhancedRules asciiLower (ascii ''x''))
   \<and> fst (generateCommitContent (configFor Gemini)
            (geminiHost 200 (JObj [(ascii ''candidates'',
               JArr [JObj [(ascii ''finishReason'', JStr (ascii ''MAX_TOKENS''))]])]))
            (ascii ''x''))
       = Inr (generateWithEnhancedRules asciiLower (ascii ''x''))
   \<and> fst (generateCommitContent (configFor OpenAI) (openaiHost (ascii ''hello'')) (ascii ''x''))
       = Inr (plainTextContent (ascii ''hello''))"
proof -
  have nb: "trim (ascii ''x'') \<noteq> []"
    by (simp add: trim_eq_Nil ascii_def isWhiteSpace_def)
  have qo: "generationRequest (configFor OpenAI) (ascii ''x'')
              = Some (openaiRequest (configFor OpenAI) (ascii ''x''))"
    by (simp add: generationRequest_def configFor_def)
  have qg: "generationRequest (configFor Gemini) (ascii ''x'')
              = Some (geminiRequest (configFor Gemini)
                        (createGeminiPrompt (configFor Gemini) (ascii ''x'')))"
    by (simp add: generationRequest_def configFor_def GEMINI_MAX_DIFF_LENGTH_def ascii_def)
  have fo: "fetch offlineHost (openaiRequest (configFor OpenAI) (ascii ''x''))
       = Throws (JSError (ascii ''TypeError'') (ascii ''fetch failed''))"
    by (simp add: offlineHost_def)
  have w1: "fst (generateCommitContent (configFor OpenAI) offlineHost (ascii ''x''))
       = Inr (generateWithEnhancedRules asciiLower (ascii ''x''))"
    using generateCommitContent_total [OF nb, of "configFor OpenAI" offlineHost
        "openaiRequest (configFor OpenAI) (ascii ''x'')"] qo fo
    by (simp add: offlineHost_def)
  have post: "httpMethod (geminiRequest (configFor Gemini)
                (createGeminiPrompt (configFor Gemini) (ascii ''x''))) \<noteq> ascii ''GET''"
    by (simp add: geminiRequest_def ascii_def)
  have fq: "fetch (geminiHost 429 JNull) (geminiRequest (configFor Gemini)
                (createGeminiPrompt (configFor Gemini) (ascii ''x'')))
       = Responds \<lparr>res_status = 429, res_statusText = [], res_json = Inr JNull,
                   res_text = Inr []\<rparr>"
    using post by (simp add: geminiHost_def)
  have w2: "fst (generateCommitContent (configFor Gemini) (geminiHost 429 JNull) (ascii ''x''))
       = Inr (generateWithEnhancedRules asciiLower (ascii ''x''))"
    using generateCommitContent_total [OF nb, of "configFor Gemini" "geminiHost 429 JNull"
        "geminiRequest (configFor Gemini) (createGeminiPrompt (configFor Gemini) (ascii ''x''))"
        "\<lparr>res_status = 429, res_statusText = [], res_json = Inr JNull, res_text = Inr []\<rparr>"]
      qg fq
    by (simp add: geminiHost_def)
  define truncated where "truncated = JObj [(ascii ''candidates'',
               JArr [JObj [(ascii ''finishReason'', JStr (ascii ''MAX_TOKENS''))]])]"
  have ft: "fetch (geminiHost 200 truncated) (geminiRequest (configFor Gemini)
                (createGeminiPrompt (configFor Gemini) (ascii ''x'')))
       = Responds \<lparr>res_status = 200, res_statusText = [], res_json = Inr truncated,
                   res_text = Inr []\<rparr>"
    using post by (simp add: geminiHost_def)
  have fr: "geminiFinishReason truncated = JStr (ascii ''MAX_TOKENS'')"
    by (simp add: truncated_def geminiFinishReason_def getPropOpt_def getProp_def getFirstOpt_def
        getFirst_def ascii_def)
  have pg: "provider (configFor Gemini) = Gemini" by (simp add: configFor_def)
  have w3: "fst (generateCommitContent (configFor Gemini) (geminiHost 200 truncated) (ascii ''x''))
       = Inr (generateWithEnhancedRules asciiLower (ascii ''x''))"
    using generateCommitContent_total [OF nb, of "configFor Gemini" "geminiHost 200 truncated"
        "geminiRequest (configFor Gemini) (createGeminiPrompt (configFor Gemini) (ascii ''x''))"
        "\<lparr>res_status = 200, res_statusText = [], res_json = Inr truncated, res_text = Inr []\<rparr>"
        truncated]
      qg ft fr pg
    by (simp add: geminiHost_def)
  define answer where "answer = JObj [(ascii ''choices'', JArr
           [JObj [(ascii ''message'', JObj [(ascii ''content'', JStr (ascii ''hello''))])]])]"
  have fh: "fetch (openaiHost (ascii ''hello'')) (openaiRequest (configFor OpenAI) (ascii ''x''))
       = Responds \<lparr>res_status = 200, res_statusText = ascii ''OK'', res_json = Inr answer,
                   res_text = Inr []\<rparr>"
    by (simp add: openaiHost_def answer_def)
  have rp: "reachesProvider (configFor OpenAI) (openaiHost (ascii ''hello'')) (ascii ''x'')"
    by (simp add: reachesProvider_def configFor_def isLargeDiffForProvider_def MAX_DIFF_LENGTH_def
        isSet_def ascii_def)
  have av: "answerValue (configFor OpenAI) answer = Some (JStr (ascii ''hello''))"
    by (simp add: answerValue_def configFor_def answer_def openaiContent_def getProp_def
        getFirst_def getPropOpt_def ascii_def)
  have hn: "ascii ''hello'' \<noteq> []" "re_jsonObject (ascii ''hello'') = None"
    by (simp_all add: ascii_def re_jsonObject_def)
  have po: "provider (configFor OpenAI) \<noteq> Gemini" by (simp add: configFor_def)
  have w4: "fst (generateCommitContent (configFor OpenAI) (openaiHost (ascii ''hello'')) (ascii ''x''))
       = Inr (plainTextContent (ascii ''hello''))"
    using generateCommitContent_total [OF nb, of "configFor OpenAI" "openaiHost (ascii ''hello'')"
        "openaiRequest (configFor OpenAI) (ascii ''x'')"
        "\<lparr>res_status = 200, res_statusText = ascii ''OK'', res_json = Inr answer,
          res_text = Inr []\<rparr>" answer "ascii ''hello''"]
      qo fh rp av hn po
    by (simp add: parseAIResponse_def)
  show ?thesis using nb fo w1 w2 w3 w4 unfolding truncated_def by simp
qed

text \<open>
  Claim C6 as the specification states it, for every non-empty diff text above the
  threshold. A text of 8001 spaces is not empty and is above the threshold of \<open>openai\<close>,
  and the generation raises \<open>NO_STAGED_FILES\<close> on it.
\<close>

theorem generateCommitContent_large_counterexample:
  "replicate 8001 SPACE \<noteq> []
   \<and> length (replicate 8001 SPACE) > MAX_DIFF_LENGTH
   \<and> provider (configFor OpenAI) = OpenAI
   \<and> generateCommitContent (configFor OpenAI) offlineHost (replicate 8001 SPACE)
       = (Inl (mkError NO_STAGED_FILES), [])"
proof -
  have "trim (replicate 8001 SPACE) = []"
    by (simp add: trim_eq_Nil list_all_iff SPACE_def isWhiteSpace_def)
  then show ?thesis
    by (simp add: generateCommitContent_def MAX_DIFF_LENGTH_def configFor_def)
qed

text \<open>
  Claim C6, amended. For every diff text that is not empty or only white space and is
  longer than the threshold of the configured provider (8000 code units for \<open>openai\<close>
  and \<open>anthropic\<close>, one and a half times that for \<open>local\<close>), the generation sends
  no request, has no other effect, and returns the rule-based content for that diff text.
\<close>

theorem generateCommitContent_large:
  "trim diffSummary \<noteq> [] \<Longrightarrow>
   ((provider cfg = OpenAI \<or> provider cfg = Anthropic) \<and> length diffSummary > MAX_DIFF_LENGTH)
     \<or> (provider cfg = LocalAI \<and> 2 * length diffSummary > 3 * MAX_DIFF_LENGTH) \<Longrightarrow>
   generateCommitContent cfg h diffSummary
     = (Inr (generateWithEnhancedRules (toLowerCase h) diffSummary), [])"
  by (auto simp: generateCommitContent_def isLargeDiffForProvider_def)

theorem generateCommitContent_large_witness:
  "trim (replicate 8001 0x61) \<noteq> []
   \<and> provider (configFor OpenAI) = OpenAI
   \<and> length (replicate 8001 (0x61 :: jschar)) > MAX_DIFF_LENGTH
   \<and> generateCommitContent (configFor OpenAI) offlineHost (replicate 8001 0x61)
       = (Inr (generateWithEnhancedRules asciiLower (replicate 8001 0x61)), [])"
proof -
  have nb: "trim (replicate 8001 0x61) \<noteq> []"
    by (simp add: trim_eq_Nil list_all_iff isWhiteSpace_def)
  have big: "((provider (configFor OpenAI) = OpenAI \<or> provider (configFor OpenAI) = Anthropic)
               \<and> length (replicate 8001 (0x61 :: jschar)) > MAX_DIFF_LENGTH)
             \<or> (provider (configFor OpenAI) = LocalAI
                 \<and> 2 * length (replicate 8001 (0x61 :: jschar)) > 3 * MAX_DIFF_LENGTH)"
    by (simp add: configFor_def MAX_DIFF_LENGTH_def)
  show ?thesis
    using nb generateCommitContent_large [OF nb big, of offlineHost]
    by (simp add: configFor_def MAX_DIFF_LENGTH_def offlineHost_def)
qed

text \<open>
  Claim C8 as the specification states it: every content that \<open>parseAIResponse\<close>
  produces has a confidence between 0 and 1. The answer \<open>{"confidence":5}\<close> gives the
  confidence 5: the member is returned as it is read.
\<close>

theorem parseAIResponse_confidence_counterexample:
  "confidence (parseAIResponse (ascii ''{'' @ [DQUOTE] @ ascii ''confidence'' @ [DQUOTE] @ ascii '':5}''))
     = JNum 5
   \<and> (1 :: real) < 5"
  by (simp add: parseAIResponse_def re_jsonObject_def ascii_def DQUOTE_def JSON_parse_def
      between_def isJsonWs_def isAtomChar_def isDigit_def atomValue_def json_number_def
      json_exponent_def digitsVal_def parsedContent_def getProp_def js_or_def Let_def BACKSLASH_def)

text \<open>
  Claim C8, amended. On the two branches that read plain text (the commit pattern and the
  first line) the confidence is 0.7, between 0 and 1, and these are the branches taken when
  the response holds no brace-delimited text or that text is not JSON. When the response
  holds a brace-delimited text that parses as JSON, the parsed value is an object and the
  confidence of the content is the object's own \<open>confidence\<close> member when that is truthy,
  returned as it is and not clamped, and 0.8 otherwise.
\<close>

theorem parseAIResponse_confidence:
  "confidence (plainTextContent response) = JNum 0.7
   \<and> ((re_jsonObject response = None
         \<or> (\<exists>jsonMatch. re_jsonObject response = Some jsonMatch \<and> JSON_parse jsonMatch = None))
        \<longrightarrow> parseAIResponse response = plainTextContent response)
   \<and> (re_jsonObject response = Some jsonMatch \<and> JSON_parse jsonMatch = Some parsed
        \<longrightarrow> (\<exists>members. parsed = JObj members)
            \<and> confidence (parseAIResponse response)
                = (if truthy (getPropOpt parsed (ascii ''confidence''))
                   then getPropOpt parsed (ascii ''confidence'')
                   else JNum 0.8))"
proof (intro conjI impI)
  show "confidence (plainTextContent response) = JNum 0.7"
    by (simp add: plainTextContent_def Let_def split: option.splits prod.splits)
next
  assume "re_jsonObject response = None
         \<or> (\<exists>jsonMatch. re_jsonObject response = Some jsonMatch \<and> JSON_parse jsonMatch = None)"
  then show "parseAIResponse response = plainTextContent response"
    by (auto simp: parseAIResponse_def)
next
  assume a: "re_jsonObject response = Some jsonMatch \<and> JSON_parse jsonMatch = Some parsed"
  then obtain s where "jsonMatch = 0x7B # s" using re_jsonObject_brace by blast
  with a show "\<exists>members. parsed = JObj members" using JSON_parse_object by blast
next
  assume a: "re_jsonObject response = Some jsonMatch \<and> JSON_parse jsonMatch = Some parsed"
  then obtain s where "jsonMatch = 0x7B # s" using re_jsonObject_brace by blast
  with a obtain members where m: "parsed = JObj members" using JSON_parse_object by blast
  with a show "confidence (parseAIResponse response)
                = (if truthy (getPropOpt parsed (ascii ''confidence''))
                   then getPropOpt parsed (ascii ''confidence'')
                   else JNum 0.8)"
    by (simp add: parseAIResponse_def parsedContent_object js_or_def)
qed

theorem parseAIResponse_confidence_witness:
  "re_jsonObject (ascii ''ok {'' @ [DQUOTE] @ ascii ''confidence'' @ [DQUOTE] @ ascii '':0.5} done'')
     = Some (ascii ''{'' @ [DQUOTE] @ ascii ''confidence'' @ [DQUOTE] @ ascii '':0.5}'')
   \<and> JSON_parse (ascii ''{'' @ [DQUOTE] @ ascii ''confidence'' @ [DQUOTE] @ ascii '':0.5}'')
     = Some (JObj [(ascii ''confidence'', JNum 0.5)])
   \<and> confidence (parseAIResponse
        (ascii ''ok {'' @ [DQUOTE] @ ascii ''confidence'' @ [DQUOTE] @ ascii '':0.5} done''))
     = JNum 0.5"
proof -
  have r: "re_jsonObject (ascii ''ok {'' @ [DQUOTE] @ ascii ''confidence'' @ [DQUOTE] @ ascii '':0.5} done'')
     = Some (ascii ''{'' @ [DQUOTE] @ ascii ''confidence'' @ [DQUOTE] @ ascii '':0.5}'')"
    by (simp add: re_jsonObject_def ascii_def DQUOTE_def Let_def)
  have p: "JSON_parse (ascii ''{'' @ [DQUOTE] @ ascii ''confidence'' @ [DQUOTE] @ ascii '':0.5}'')
     = Some (JObj [(ascii ''confidence'', JNum 0.5)])"
    by (simp add: ascii_def DQUOTE_def JSON_parse_def between_def isJsonWs_def isAtomChar_def
        isDigit_def atomValue_def json_number_def json_exponent_def digitsVal_def Let_def
        BACKSLASH_def)
  show ?thesis
    using r p parseAIResponse_confidence
      [of "ascii ''ok {'' @ [DQUOTE] @ ascii ''confidence'' @ [DQUOTE] @ ascii '':0.5} done''"
          "ascii ''{'' @ [DQUOTE] @ ascii ''confidence'' @ [DQUOTE] @ ascii '':0.5}''"
          "JObj [(ascii ''confidence'', JNum 0.5)]"]
    by (simp add: getPropOpt_def getProp_def)
qed

section \<open>Properties of the Gemini path\<close>

lemma length_filler: "length (filler n) = n" by (simp add: filler_def)

lemma split_notin: "sep \<notin> set s \<Longrightarrow> split sep s = [s]"
  by (induction s) auto

lemma split_append: "sep \<notin> set l \<Longrightarrow> split sep (l @ sep # r) = l # split sep r"
  by (induction l) auto

lemma split_filler: "split NEWLINE (filler n) = [filler n]"
  by (rule split_notin) (simp add: filler_def NEWLINE_def)

lemma prefix_filler: "p \<noteq> 0x61 \<Longrightarrow> prefix (p # ps) (filler n) = False"
  by (cases n) (auto simp: filler_def)

lemma includes_replicate: "p \<noteq> c \<Longrightarrow> str_includes (replicate n c) (p # ps) = False"
  by (induction n) auto

lemma includes_filler: "p \<noteq> 0x61 \<Longrightarrow> str_includes (filler n) (p # ps) = False"
  by (simp add: filler_def includes_replicate)

lemma trim_filler: "trim (filler n) = filler n"
proof (cases n)
  case 0 then show ?thesis by (simp add: filler_def trim_def)
next
  case (Suc m)
  have a: "\<not> isWhiteSpace 0x61" by (simp add: isWhiteSpace_def)
  have "filler n = 0x61 # replicate m 0x61" using Suc by (simp add: filler_def)
  moreover have "rev (filler n) = 0x61 # replicate m 0x61"
    using Suc by (simp add: filler_def replicate_append_same)
  ultimately show ?thesis using a by (simp add: trim_def)
qed

lemma sample_lines:
  "split NEWLINE sampleDiff = [sampleLine1, sampleLine2, sampleLine3, filler 3000]"
proof -
  have n1: "NEWLINE \<notin> set sampleLine1" by (simp add: sampleLine1_def zh_file_sp_def ascii_def NEWLINE_def)
  have n2: "NEWLINE \<notin> set sampleLine2"
    by (simp add: sampleLine2_def zh_added_plus_def zh_deleted_minus_def ascii_def NEWLINE_def)
  have n3: "NEWLINE \<notin> set sampleLine3" by (simp add: sampleLine3_def ascii_def NEWLINE_def)
  show ?thesis
    by (simp add: sampleDiff_def split_append n1 n2 n3 split_filler)
qed

lemma sample_length: "length sampleDiff = 3041"
  by (simp add: sampleDiff_def sampleLine1_def sampleLine2_def sampleLine3_def zh_file_sp_def
      zh_added_plus_def zh_deleted_minus_def ascii_def length_filler)


lemma sample_fileLines:
  "filter (\<lambda>line. str_includes line zh_file) [sampleLine1, sampleLine2, sampleLine3, filler 3000]
     = [sampleLine1]"
  by (simp add: sampleLine1_def sampleLine2_def sampleLine3_def zh_file_def zh_file_sp_def
      zh_added_plus_def zh_deleted_minus_def ascii_def includes_filler)

lemma sample_statsLines:
  "filter (\<lambda>line. str_includes line zh_added \<and> str_includes line zh_deleted)
       [sampleLine1, sampleLine2, sampleLine3, filler 3000]
     = [sampleLine2]"
  by (simp add: sampleLine1_def sampleLine2_def sampleLine3_def zh_added_def zh_deleted_def
      zh_file_sp_def zh_added_plus_def zh_deleted_minus_def ascii_def includes_filler)

lemma sample_importLines:
  "filter isImportLine [sampleLine1, sampleLine2, sampleLine3, filler 3000] = []"
  by (simp add: isImportLine_def sampleLine1_def sampleLine2_def sampleLine3_def
      zh_file_sp_def zh_added_plus_def zh_deleted_minus_def ascii_def includes_filler)

lemma filler_not_functionLine: "isFunctionLine (filler n) = False"
  by (simp add: isFunctionLine_def Let_def trim_filler startsWith_def ascii_def prefix_filler)

lemma sample_functionLines:
  "filter isFunctionLine [sampleLine1, sampleLine2, sampleLine3, filler 3000] = [sampleLine3]"
proof -
  have "\<not> isFunctionLine sampleLine1"
    by (simp add: isFunctionLine_def Let_def trim_def isWhiteSpace_def startsWith_def
        sampleLine1_def zh_file_sp_def ascii_def)
  moreover have "\<not> isFunctionLine sampleLine2"
    by (simp add: isFunctionLine_def Let_def trim_def isWhiteSpace_def startsWith_def
        sampleLine2_def zh_added_plus_def zh_deleted_minus_def ascii_def)
  moreover have "isFunctionLine sampleLine3"
    by (simp add: isFunctionLine_def Let_def trim_def isWhiteSpace_def startsWith_def
        sampleLine3_def ascii_def)
  ultimately show ?thesis by (simp add: filler_not_functionLine)
qed

lemma sample_functionSummary: "functionSummary sampleLine3 = ascii ''foo()''"
  by (simp add: functionSummary_def Let_def stripDiffPrefix_def trim_def isWhiteSpace_def
      sampleLine3_def ascii_def re_functionName_def isWordChar_def isDigit_def)

lemma sample_totalAdded:
  "totalOf zh_added 0x2B [sampleLine1, sampleLine2, sampleLine3, filler 3000] = 5"
  by (simp add: totalOf_def sampleLine1_def sampleLine2_def sampleLine3_def zh_added_def
      zh_file_sp_def zh_added_plus_def zh_deleted_minus_def ascii_def includes_filler
      re_total_def isWhiteSpace_def isDigit_def parseInt_def Let_def)

lemma sample_totalDeleted:
  "totalOf zh_deleted 0x2D [sampleLine1, sampleLine2, sampleLine3, filler 3000] = 2"
  by (simp add: totalOf_def sampleLine1_def sampleLine2_def sampleLine3_def zh_deleted_def
      zh_file_sp_def zh_added_plus_def zh_deleted_minus_def ascii_def includes_filler
      re_total_def isWhiteSpace_def isDigit_def parseInt_def Let_def)

lemma showNat_digit: "n < 10 \<Longrightarrow> showNat n = [0x30 + of_nat n]"
  by (subst showNat.simps) simp

lemma sample_summary_length: "length sampleSummary = 52"
  by (simp add: sampleSummary_def sampleLine1_def sampleLine2_def zh_file_sp_def
      zh_added_plus_def zh_deleted_minus_def tr_functions_def tr_scale_def tr_lines_def ascii_def)

lemma sample_fileSection:
  "fileSection 3 [sampleLine1] [sampleLine2] = sampleLine1 @ [NEWLINE] @ sampleLine2 @ [NEWLINE]"
  by (simp add: numeral_3_eq_3)

lemma sample_truncate: "truncateDiffForGemini sampleDiff = sampleSummary"
proof -
  have "truncateDiffForGemini sampleDiff
      = (if length sampleSummary > 800 then
           keepSections 800 0 (filter (\<lambda>line. trim line \<noteq> []) (split NEWLINE sampleSummary))
             @ tr_summary_open @ showNat (length sampleDiff) @ tr_summary_close
         else sampleSummary)"
    unfolding truncateDiffForGemini_def Let_def sample_lines sample_fileLines sample_statsLines
      sample_importLines sample_functionLines sample_totalAdded sample_totalDeleted
      sample_fileSection
    by (simp add: sample_length GEMINI_SUMMARY_LENGTH_def sample_functionSummary joinWith_def
        showNat_digit ascii_def sampleSummary_def)
  then show ?thesis by (simp add: sample_summary_length)
qed


lemma requestsOf_append: "requestsOf (xs @ ys) = requestsOf xs @ requestsOf ys"
  by (induction xs rule: requestsOf.induct) simp_all

lemma requestsOf_geminiResponse: "requestsOf (snd (geminiResponse h d r)) = []"
  by (simp add: geminiResponse_def split: sum.splits)

text \<open>The condensed summary is short. When the summary that \<open>truncateDiffForGemini\<close> has
  put together is longer than the target of 800 code units, what is kept of it fits in 750
  code units, and the trailer adds 14 code units and the decimal digits of the length of the
  diff text. A text of JavaScript has fewer than \<open>2 ^ 53\<close> code units, which is below
  \<open>10 ^ 36\<close>.\<close>

lemma keepSections_length:
  "currentLength \<le> maxLength - 50 \<Longrightarrow>
   currentLength + length (keepSections maxLength currentLength sections) \<le> maxLength - 50"
proof (induction sections arbitrary: currentLength)
  case Nil
  then show ?case by simp
next
  case (Cons s rest)
  show ?case
  proof (cases "currentLength + length s + 1 \<le> maxLength - 50")
    case True
    have "(currentLength + length s + 1)
            + length (keepSections maxLength (currentLength + length s + 1) rest) \<le> maxLength - 50"
      using True by (rule Cons.IH)
    moreover have "keepSections maxLength currentLength (s # rest)
            = s @ [NEWLINE] @ keepSections maxLength (currentLength + length s + 1) rest"
      using True by (simp only: keepSections.simps if_True)
    ultimately show ?thesis by simp
  next
    case False
    then have "keepSections maxLength currentLength (s # rest) = []"
      by (simp only: keepSections.simps if_False)
    then show ?thesis using Cons.prems by simp
  qed
qed

lemma showNat_length: "n < 10 ^ k \<Longrightarrow> length (showNat n) \<le> max 1 k"
proof (induction k arbitrary: n)
  case 0
  then show ?case by (subst showNat.simps) simp
next
  case (Suc k)
  show ?case
  proof (cases "n < 10")
    case True
    then show ?thesis by (subst showNat.simps) simp
  next
    case False
    from Suc.prems have "n div 10 < 10 ^ k" by (simp add: less_mult_imp_div_less mult.commute)
    then have "length (showNat (n div 10)) \<le> max 1 k" by (rule Suc.IH)
    moreover from False Suc.prems have "k \<noteq> 0" by (cases k) auto
    ultimately show ?thesis using False by (subst showNat.simps) simp
  qed
qed

lemma truncateDiffForGemini_form:
  "\<exists>summary. truncateDiffForGemini diffSummary
     = (if length diffSummary \<le> GEMINI_SUMMARY_LENGTH then diffSummary
        else if length summary > GEMINI_SUMMARY_LENGTH
        then keepSections GEMINI_SUMMARY_LENGTH 0
               (filter (\<lambda>line. trim line \<noteq> []) (split NEWLINE summary))
               @ tr_summary_open @ showNat (length diffSummary) @ tr_summary_close
        else summary)"
  unfolding truncateDiffForGemini_def Let_def
  by (rule exI, rule refl)

lemma truncateDiffForGemini_length:
  assumes "length diffSummary < 10 ^ 36"
  shows "length (truncateDiffForGemini diffSummary) \<le> GEMINI_SUMMARY_LENGTH"
proof -
  obtain summary where f: "truncateDiffForGemini diffSummary
     = (if length diffSummary \<le> GEMINI_SUMMARY_LENGTH then diffSummary
        else if length summary > GEMINI_SUMMARY_LENGTH
        then keepSections GEMINI_SUMMARY_LENGTH 0
               (filter (\<lambda>line. trim line \<noteq> []) (split NEWLINE summary))
               @ tr_summary_open @ showNat (length diffSummary) @ tr_summary_close
        else summary)"
    using truncateDiffForGemini_form by blast
  define kept where "kept = keepSections GEMINI_SUMMARY_LENGTH 0
               (filter (\<lambda>line. trim line \<noteq> []) (split NEWLINE summary))"
  define digits where "digits = showNat (length diffSummary)"
  have k: "length kept \<le> GEMINI_SUMMARY_LENGTH - 50"
    unfolding kept_def
    using keepSections_length [of 0 GEMINI_SUMMARY_LENGTH
        "filter (\<lambda>line. trim line \<noteq> []) (split NEWLINE summary)"]
    by simp
  have n: "length digits \<le> 36"
    unfolding digits_def using showNat_length [OF assms] by simp
  have o: "length tr_summary_open = 10" by (simp add: tr_summary_open_def ascii_def)
  have c: "length tr_summary_close = 4" by (simp add: tr_summary_close_def ascii_def)
  have g: "GEMINI_SUMMARY_LENGTH = 800" by (simp add: GEMINI_SUMMARY_LENGTH_def)
  have t: "length (kept @ tr_summary_open @ digits @ tr_summary_close) \<le> GEMINI_SUMMARY_LENGTH"
    using k n o c g by simp
  show ?thesis
  proof (cases "length diffSummary \<le> GEMINI_SUMMARY_LENGTH")
    case True
    then show ?thesis by (simp only: f if_True)
  next
    case False
    show ?thesis
    proof (cases "length summary > GEMINI_SUMMARY_LENGTH")
      case True
      with False have "truncateDiffForGemini diffSummary
                        = kept @ tr_summary_open @ digits @ tr_summary_close"
        by (simp only: f if_True if_False kept_def digits_def)
      then show ?thesis using t by (simp only:)
    next
      case b: False
      with False have "truncateDiffForGemini diffSummary = summary"
        by (simp only: f if_True if_False)
      then show ?thesis using b by simp
    qed
  qed
qed

lemma geminiKeyTest_passes:
  "(geminiKeyTest cfg h = None)
     = (\<exists>r. fetch h (geminiTestRequest cfg) = Responds r \<and> res_ok r)"
  by (auto simp: geminiKeyTest_def Let_def split: fetch_result.splits sum.splits)

lemma geminiResponse_notice:
  "ShowInformation n \<notin> set (snd (geminiResponse h d r))"
  by (simp add: geminiResponse_def split: sum.splits)

lemma generateWithGemini_requests:
  "isSet (apiKey cfg) \<Longrightarrow> length diffSummary > GEMINI_MAX_DIFF_LENGTH \<Longrightarrow>
   \<not> 2 * length (truncateDiffForGemini diffSummary) > 3 * GEMINI_SUMMARY_LENGTH \<Longrightarrow>
   requestsOf (snd (generateWithGemini cfg h diffSummary))
     = (if geminiKeyTest cfg h = None
        then [geminiTestRequest cfg,
              geminiRequest cfg (createGeminiPrompt cfg (truncateDiffForGemini diffSummary))]
        else [geminiTestRequest cfg])
   \<and> ShowInformation GeminiTooComplex \<notin> set (snd (generateWithGemini cfg h diffSummary))"
  by (auto simp: generateWithGemini_def Let_def requestsOf_append requestsOf_geminiResponse
      geminiResponse_notice split: option.splits fetch_result.splits)

text \<open>The branch of the source that gives up when the condensed summary is longer than one
  and a half times the target. By \<open>truncateDiffForGemini_length\<close> no diff text shorter than
  \<open>10 ^ 36\<close> code units reaches it.\<close>

lemma generateWithGemini_over_ceiling:
  "isSet (apiKey cfg) \<Longrightarrow> length diffSummary > GEMINI_MAX_DIFF_LENGTH \<Longrightarrow>
   2 * length (truncateDiffForGemini diffSummary) > 3 * GEMINI_SUMMARY_LENGTH \<Longrightarrow>
   generateWithGemini cfg h diffSummary
     = (Inr (generateWithEnhancedRules (toLowerCase h) diffSummary),
        [ShowInformation GeminiTooComplex])"
  by (simp add: generateWithGemini_def Let_def)

text \<open>
  Claim C7 as the specification states it: for every diff text longer than 3000 code units
  whose condensed summary is within the ceiling, the condensed text is sent. For the sample
  diff summary, of 3041 code units and with a condensed summary within the ceiling: with a
  key configured and a network that fails, the only request is the test of the key, the
  condensed text is never sent and the method throws; and without a key the method throws
  before anything is built or sent.
\<close>

theorem generateWithGemini_unsent_counterexample:
  "length sampleDiff > GEMINI_MAX_DIFF_LENGTH
   \<and> 2 * length (truncateDiffForGemini sampleDiff) \<le> 3 * GEMINI_SUMMARY_LENGTH
   \<and> requestsOf (snd (generateWithGemini (configFor Gemini) offlineHost sampleDiff))
       = [geminiTestRequest (configFor Gemini)]
   \<and> fst (generateWithGemini (configFor Gemini) offlineHost sampleDiff)
       = Inl (mkError (ascii ''Cannot connect to Google Gemini: TypeError: fetch failed. Please check your API key and internet connection.''))
   \<and> generateWithGemini ((configFor Gemini)\<lparr>apiKey := None\<rparr>) answeringHost sampleDiff
       = (Inl (mkError (ascii ''Google Gemini API key not configured'')), [])"
  by (simp add: generateWithGemini_def Let_def sample_truncate sample_summary_length sample_length
      GEMINI_MAX_DIFF_LENGTH_def GEMINI_SUMMARY_LENGTH_def configFor_def isSet_def
      geminiKeyTest_def offlineHost_def mkError_def ascii_def)

text \<open>
  Claim C7, amended. On the Gemini path with an API key configured, for every diff text
  longer than 3000 code units the condensed summary is built, and: if it is longer than one
  and a half times the target length of 800, the rule-based content is returned and no
  request at all is sent; otherwise the notice of that fallback is not shown, the first
  request is the test of the key and, exactly when that test is answered with a status from
  200 to 299, the generation request follows, whose body carries the prompt made from the
  condensed summary (the prompt text around it, or the direct prompt after it for a model
  \<open>2.5-pro\<close>) and not from the diff text. For a diff text shorter than \<open>10 ^ 36\<close> code
  units the condensed summary is at most 800 code units long, so it differs from the diff
  text and the fallback cannot fire. The sample diff summary is condensed to
  \<open>sampleSummary\<close>.
\<close>

theorem generateWithGemini_condensed:
  "isSet (apiKey cfg) \<Longrightarrow> length diffSummary > GEMINI_MAX_DIFF_LENGTH \<Longrightarrow>
   (if 2 * length (truncateDiffForGemini diffSummary) > 3 * GEMINI_SUMMARY_LENGTH
    then generateWithGemini cfg h diffSummary
           = (Inr (generateWithEnhancedRules (toLowerCase h) diffSummary),
              [ShowInformation GeminiTooComplex])
    else ShowInformation GeminiTooComplex \<notin> set (snd (generateWithGemini cfg h diffSummary))
         \<and> requestsOf (snd (generateWithGemini cfg h diffSummary))
           = (if (\<exists>r. fetch h (geminiTestRequest cfg) = Responds r
                      \<and> 200 \<le> res_status r \<and> res_status r \<le> 299)
              then [geminiTestRequest cfg,
                    \<lparr>url = ascii ''https://generativelanguage.googleapis.com/v1beta/models/''
                            @ orDefault (model cfg) (ascii ''gemini-1.5-flash'')
                            @ ascii '':generateContent?key='' @ orDefault (apiKey cfg) [],
                     httpMethod = ascii ''POST'',
                     headers = [(ascii ''Content-Type'', ascii ''application/json'')],
                     body = Some (JObj
                       [(ascii ''contents'', JArr
                           [JObj [(ascii ''role'', JStr (ascii ''user'')),
                                  (ascii ''parts'', JArr [JObj [(ascii ''text'', JStr
                                     (if (case model cfg of None \<Rightarrow> False
                                          | Some m \<Rightarrow> str_includes m (ascii ''2.5-pro''))
                                      then truncateDiffForGemini diffSummary @ gp_direct
                                      else gp_head @ truncateDiffForGemini diffSummary @ gp_tail))]])]]),
                        (ascii ''generationConfig'', JObj
                           [(ascii ''temperature'', JNum 0.1), (ascii ''topP'', JNum 0.4),
                            (ascii ''topK'', JNum 3), (ascii ''candidateCount'', JNum 1)]),
                        (ascii ''safetySettings'', JArr
                           [JObj [(ascii ''category'', JStr (ascii ''HARM_CATEGORY_HARASSMENT'')),
                                  (ascii ''threshold'', JStr (ascii ''BLOCK_MEDIUM_AND_ABOVE''))],
                            JObj [(ascii ''category'', JStr (ascii ''HARM_CATEGORY_HATE_SPEECH'')),
                                  (ascii ''threshold'', JStr (ascii ''BLOCK_MEDIUM_AND_ABOVE''))]])]),
                     timeout = 30000\<rparr>]
              else [geminiTestRequest cfg]))
   \<and> (length diffSummary < 10 ^ 36 \<longrightarrow>
        length (truncateDiffForGemini diffSummary) \<le> GEMINI_SUMMARY_LENGTH
        \<and> \<not> 2 * length (truncateDiffForGemini diffSummary) > 3 * GEMINI_SUMMARY_LENGTH
        \<and> truncateDiffForGemini diffSummary \<noteq> diffSummary)
   \<and> GEMINI_MAX_DIFF_LENGTH = 3000 \<and> GEMINI_SUMMARY_LENGTH = 800
   \<and> truncateDiffForGemini sampleDiff = sampleSummary"
proof (intro conjI impI)
  assume k: "isSet (apiKey cfg)" and l: "length diffSummary > GEMINI_MAX_DIFF_LENGTH"
  show "if 2 * length (truncateDiffForGemini diffSummary) > 3 * GEMINI_SUMMARY_LENGTH
    then generateWithGemini cfg h diffSummary
           = (Inr (generateWithEnhancedRules (toLowerCase h) diffSummary),
              [ShowInformation GeminiTooComplex])
    else ShowInformation GeminiTooComplex \<notin> set (snd (generateWithGemini cfg h diffSummary))
         \<and> requestsOf (snd (generateWithGemini cfg h diffSummary))
           = (if (\<exists>r. fetch h (geminiTestRequest cfg) = Responds r
                      \<and> 200 \<le> res_status r \<and> res_status r \<le> 299)
              then [geminiTestRequest cfg,
                    \<lparr>url = ascii ''https://generativelanguage.googleapis.com/v1beta/models/''
                            @ orDefault (model cfg) (ascii ''gemini-1.5-flash'')
                            @ ascii '':generateContent?key='' @ orDefault (apiKey cfg) [],
                     httpMethod = ascii ''POST'',
                     headers = [(ascii ''Content-Type'', ascii ''application/json'')],
                     body = Some (JObj
                       [(ascii ''contents'', JArr
                           [JObj [(ascii ''role'', JStr (ascii ''user'')),
                                  (ascii ''parts'', JArr [JObj [(ascii ''text'', JStr
                                     (if (case model cfg of None \<Rightarrow> False
                                          | Some m \<Rightarrow> str_includes m (ascii ''2.5-pro''))
                                      then truncateDiffForGemini diffSummary @ gp_direct
                                      else gp_head @ truncateDiffForGemini diffSummary @ gp_tail))]])]]),
                        (ascii ''generationConfig'', JObj
                           [(ascii ''temperature'', JNum 0.1), (ascii ''topP'', JNum 0.4),
                            (ascii ''topK'', JNum 3), (ascii ''candidateCount'', JNum 1)]),
                        (ascii ''safetySettings'', JArr
                           [JObj [(ascii ''category'', JStr (ascii ''HARM_CATEGORY_HARASSMENT'')),
                                  (ascii ''threshold'', JStr (ascii ''BLOCK_MEDIUM_AND_ABOVE''))],
                            JObj [(ascii ''category'', JStr (ascii ''HARM_CATEGORY_HATE_SPEECH'')),
                                  (ascii ''threshold'', JStr (ascii ''BLOCK_MEDIUM_AND_ABOVE''))]])]),
                     timeout = 30000\<rparr>]
              else [geminiTestRequest cfg])"
  proof (cases "2 * length (truncateDiffForGemini diffSummary) > 3 * GEMINI_SUMMARY_LENGTH")
    case True
    then show ?thesis using generateWithGemini_over_ceiling [OF k l True] by simp
  next
    case False
    define passes where "passes = (\<exists>r. fetch h (geminiTestRequest cfg) = Responds r
                      \<and> 200 \<le> res_status r \<and> res_status r \<le> 299)"
    have t: "(geminiKeyTest cfg h = None) = passes"
      by (simp add: geminiKeyTest_passes res_ok_def passes_def)
    show ?thesis
      using False generateWithGemini_requests [OF k l False, of h]
      unfolding t passes_def [symmetric]
      by (simp add: geminiRequest_def createGeminiPrompt_def geminiModel_def jsonHeaders_def)
  qed
next
  assume l: "length diffSummary > GEMINI_MAX_DIFF_LENGTH" and b: "length diffSummary < 10 ^ 36"
  show "length (truncateDiffForGemini diffSummary) \<le> GEMINI_SUMMARY_LENGTH"
    by (rule truncateDiffForGemini_length [OF b])
  then show "\<not> 2 * length (truncateDiffForGemini diffSummary) > 3 * GEMINI_SUMMARY_LENGTH"
    by simp
  show "truncateDiffForGemini diffSummary \<noteq> diffSummary"
    using truncateDiffForGemini_length [OF b] l
    by (auto simp: GEMINI_SUMMARY_LENGTH_def GEMINI_MAX_DIFF_LENGTH_def)
next
  show "GEMINI_MAX_DIFF_LENGTH = 3000" by (simp add: GEMINI_MAX_DIFF_LENGTH_def)
next
  show "GEMINI_SUMMARY_LENGTH = 800" by (simp add: GEMINI_SUMMARY_LENGTH_def)
next
  show "truncateDiffForGemini sampleDiff = sampleSummary" by (rule sample_truncate)
qed

theorem generateWithGemini_condensed_witness:
  "isSet (apiKey (configFor Gemini))
   \<and> length sampleDiff > GEMINI_MAX_DIFF_LENGTH
   \<and> length sampleDiff < 10 ^ 36
   \<and> length (truncateDiffForGemini sampleDiff) = 52
   \<and> requestsOf (snd (generateWithGemini (configFor Gemini) answeringHost sampleDiff))
       = [geminiTestRequest (configFor Gemini),
          \<lparr>url = ascii ''https://generativelanguage.googleapis.com/v1beta/models/gemini-1.5-flash:generateContent?key=key'',
           httpMethod = ascii ''POST'',
           headers = [(ascii ''Content-Type'', ascii ''application/json'')],
           body = Some (JObj
             [(ascii ''contents'', JArr
                 [JObj [(ascii ''role'', JStr (ascii ''user'')),
                        (ascii ''parts'', JArr [JObj [(ascii ''text'', JStr
                            (gp_head @ sampleSummary @ gp_tail))]])]]),
              (ascii ''generationConfig'', JObj
                 [(ascii ''temperature'', JNum 0.1), (ascii ''topP'', JNum 0.4),
                  (ascii ''topK'', JNum 3), (ascii ''candidateCount'', JNum 1)]),
              (ascii ''safetySettings'', JArr
                 [JObj [(ascii ''category'', JStr (ascii ''HARM_CATEGORY_HARASSMENT'')),
                        (ascii ''threshold'', JStr (ascii ''BLOCK_MEDIUM_AND_ABOVE''))],
                  JObj [(ascii ''category'', JStr (ascii ''HARM_CATEGORY_HATE_SPEECH'')),
                        (ascii ''threshold'', JStr (ascii ''BLOCK_MEDIUM_AND_ABOVE''))]])]),
           timeout = 30000\<rparr>]"
proof -
  have k: "isSet (apiKey (configFor Gemini))" by (simp add: configFor_def isSet_def ascii_def)
  have l: "length sampleDiff > GEMINI_MAX_DIFF_LENGTH"
    by (simp add: sample_length GEMINI_MAX_DIFF_LENGTH_def)
  have b: "length sampleDiff < 10 ^ 36" by (simp add: sample_length)
  have t: "\<exists>r. fetch answeringHost (geminiTestRequest (configFor Gemini)) = Responds r
              \<and> 200 \<le> res_status r \<and> res_status r \<le> 299"
    by (simp add: answeringHost_def)
  have c: "(2 * length sampleSummary > 3 * GEMINI_SUMMARY_LENGTH) = False"
    by (simp add: sample_summary_length GEMINI_SUMMARY_LENGTH_def)
  have t': "(\<exists>r. fetch answeringHost (geminiTestRequest (configFor Gemini)) = Responds r
              \<and> 200 \<le> res_status r \<and> res_status r \<le> 299) = True"
    using t by simp
  have m: "model (configFor Gemini) = None"
    "orDefault None (ascii ''gemini-1.5-flash'') = ascii ''gemini-1.5-flash''"
    "orDefault (apiKey (configFor Gemini)) [] = ascii ''key''"
    by (simp_all add: configFor_def orDefault_def ascii_def)
  have r: "requestsOf (snd (generateWithGemini (configFor Gemini) answeringHost sampleDiff))
       = [geminiTestRequest (configFor Gemini),
          \<lparr>url = ascii ''https://generativelanguage.googleapis.com/v1beta/models/''
                  @ ascii ''gemini-1.5-flash'' @ ascii '':generateContent?key='' @ ascii ''key'',
           httpMethod = ascii ''POST'',
           headers = [(ascii ''Content-Type'', ascii ''application/json'')],
           body = Some (JObj
             [(ascii ''contents'', JArr
                 [JObj [(ascii ''role'', JStr (ascii ''user'')),
                        (ascii ''parts'', JArr [JObj [(ascii ''text'', JStr
                            (gp_head @ sampleSummary @ gp_tail))]])]]),
              (ascii ''generationConfig'', JObj
                 [(ascii ''temperature'', JNum 0.1), (ascii ''topP'', JNum 0.4),
                  (ascii ''topK'', JNum 3), (ascii ''candidateCount'', JNum 1)]),
              (ascii ''safetySettings'', JArr
                 [JObj [(ascii ''category'', JStr (ascii ''HARM_CATEGORY_HARASSMENT'')),
                        (ascii ''threshold'', JStr (ascii ''BLOCK_MEDIUM_AND_ABOVE''))],
                  JObj [(ascii ''category'', JStr (ascii ''HARM_CATEGORY_HATE_SPEECH'')),
                        (ascii ''threshold'', JStr (ascii ''BLOCK_MEDIUM_AND_ABOVE''))]])]),
           timeout = 30000\<rparr>]"
    using generateWithGemini_condensed [OF k l, of answeringHost]
    by (simp only: c t' m if_False if_True option.case sample_truncate)
  have u: "ascii ''https://generativelanguage.googleapis.com/v1beta/models/''
                  @ ascii ''gemini-1.5-flash'' @ ascii '':generateContent?key='' @ ascii ''key''
         = ascii ''https://generativelanguage.googleapis.com/v1beta/models/gemini-1.5-flash:generateContent?key=key''"
    by (simp add: ascii_def)
  show ?thesis
    using k l b r unfolding u by (simp add: sample_truncate sample_summary_length)
qed

end
